theory Spec2Isabelle
  imports Complex_Main "HOL-Library.Word"
begin

unbundle bit_operations_syntax

section \<open>vkinfo: data model\<close>

text \<open>
  A shallow embedding of \<^verbatim>\<open>vulkan/tools/vkinfo.cpp\<close>. The tool gathers the
  capabilities of the Vulkan runtime into a \<^verbatim>\<open>VulkanInfo\<close> value and prints it.
\<close>

type_synonym u32 = "32 word"
type_synonym u64 = "64 word"

subsection \<open>Enumerations named by the program\<close>

text \<open>
  \<^verbatim>\<open>VkResult\<close>: the enumerants that \<^verbatim>\<open>die\<close> names, and one constructor for
  every other value a \<^verbatim>\<open>VkResult\<close> can hold. Its argument is that value, which is
  none of the values of the enumerants named here.
\<close>

datatype VkResult =
    VK_SUCCESS
  | VK_NOT_READY
  | VK_TIMEOUT
  | VK_EVENT_SET
  | VK_EVENT_RESET
  | VK_INCOMPLETE
  | VK_ERROR_OUT_OF_HOST_MEMORY
  | VK_ERROR_OUT_OF_DEVICE_MEMORY
  | VK_ERROR_INITIALIZATION_FAILED
  | VK_ERROR_DEVICE_LOST
  | VK_ERROR_MEMORY_MAP_FAILED
  | VK_ERROR_LAYER_NOT_PRESENT
  | VK_ERROR_EXTENSION_NOT_PRESENT
  | VK_ERROR_INCOMPATIBLE_DRIVER
  | VkResult_unlisted int

text \<open>
  \<^verbatim>\<open>VkPhysicalDeviceType\<close>: the five enumerants of the switch in
  \<^verbatim>\<open>VkPhysicalDeviceTypeStr\<close>, and one constructor for any other value (its
  argument, which is none of the five values).
\<close>

datatype VkPhysicalDeviceType =
    VK_PHYSICAL_DEVICE_TYPE_OTHER
  | VK_PHYSICAL_DEVICE_TYPE_INTEGRATED_GPU
  | VK_PHYSICAL_DEVICE_TYPE_DISCRETE_GPU
  | VK_PHYSICAL_DEVICE_TYPE_VIRTUAL_GPU
  | VK_PHYSICAL_DEVICE_TYPE_CPU
  | VkPhysicalDeviceType_unlisted int

text \<open>
  \<^verbatim>\<open>VkQueueFlagBits\<close>: the four enumerants of the switch in
  \<^verbatim>\<open>VkQueueFlagBitStr\<close>, and one constructor for any other bit value (its
  argument, which is none of the four values).
\<close>

datatype VkQueueFlagBits =
    VK_QUEUE_GRAPHICS_BIT
  | VK_QUEUE_COMPUTE_BIT
  | VK_QUEUE_TRANSFER_BIT
  | VK_QUEUE_SPARSE_BINDING_BIT
  | VkQueueFlagBits_unlisted u32

subsection \<open>Version words\<close>

definition ExtractMajorVersion :: "u32 \<Rightarrow> u32" where
  "ExtractMajorVersion version = (drop_bit 22 version) AND 0x3FF"

definition ExtractMinorVersion :: "u32 \<Rightarrow> u32" where
  "ExtractMinorVersion version = (drop_bit 12 version) AND 0x3FF"

definition ExtractPatchVersion :: "u32 \<Rightarrow> u32" where
  "ExtractPatchVersion version = (drop_bit 0 version) AND 0xFFF"

text \<open>
  Modelled from the spec: the packing of a version triple into one 32-bit word (the
  macro \<^verbatim>\<open>VK_MAKE_VERSION\<close> of \<^verbatim>\<open>vulkan.h\<close>, which is not among the sources):
  the major number in the high 10 bits, the minor number in the next 10 bits, the patch
  number in the low 12 bits.
\<close>

definition pack_version :: "u32 \<Rightarrow> u32 \<Rightarrow> u32 \<Rightarrow> u32" where
  "pack_version major minor patch = push_bit 22 major OR push_bit 12 minor OR patch"

subsection \<open>Label lookups\<close>

definition VkPhysicalDeviceTypeStr :: "VkPhysicalDeviceType \<Rightarrow> string" where
  "VkPhysicalDeviceTypeStr type =
     (case type of
        VK_PHYSICAL_DEVICE_TYPE_OTHER \<Rightarrow> ''OTHER''
      | VK_PHYSICAL_DEVICE_TYPE_INTEGRATED_GPU \<Rightarrow> ''INTEGRATED_GPU''
      | VK_PHYSICAL_DEVICE_TYPE_DISCRETE_GPU \<Rightarrow> ''DISCRETE_GPU''
      | VK_PHYSICAL_DEVICE_TYPE_VIRTUAL_GPU \<Rightarrow> ''VIRTUAL_GPU''
      | VK_PHYSICAL_DEVICE_TYPE_CPU \<Rightarrow> ''CPU''
      | _ \<Rightarrow> ''<UNKNOWN>'')"

text \<open>
  The switch of \<^verbatim>\<open>VkQueueFlagBitStr\<close> has no default branch and no return after
  it: for any other value control reaches the end of a function that must return a
  value, which is undefined behaviour. \<open>None\<close> stands for that.
\<close>

definition VkQueueFlagBitStr :: "VkQueueFlagBits \<Rightarrow> string option" where
  "VkQueueFlagBitStr flag_bit =
     (case flag_bit of
        VK_QUEUE_GRAPHICS_BIT \<Rightarrow> Some ''GRAPHICS''
      | VK_QUEUE_COMPUTE_BIT \<Rightarrow> Some ''COMPUTE''
      | VK_QUEUE_TRANSFER_BIT \<Rightarrow> Some ''TRANSFER''
      | VK_QUEUE_SPARSE_BINDING_BIT \<Rightarrow> Some ''SPARSE''
      | VkQueueFlagBits_unlisted _ \<Rightarrow> None)"

subsection \<open>Structures of the Vulkan interface that the program reads\<close>

text \<open>
  Only the members that \<^verbatim>\<open>vkinfo.cpp\<close> reads or writes are kept. Fixed-size
  character arrays holding NUL-terminated text are strings; the fixed-size arrays
  \<^verbatim>\<open>memoryTypes\<close> and \<^verbatim>\<open>memoryHeaps\<close> are lists, and reading one beyond its
  length is undefined behaviour (see \<open>failure\<close> below).
\<close>

record VkExtensionProperties =
  extensionName :: string
  specVersion :: u32

record VkLayerProperties =
  layerName :: string
  specVersion :: u32
  implementationVersion :: u32
  description :: string

record VkPhysicalDeviceProperties =
  apiVersion :: u32
  driverVersion :: u32
  vendorID :: u32
  deviceID :: u32
  deviceType :: VkPhysicalDeviceType
  deviceName :: string

record VkMemoryType =
  propertyFlags :: u32
  heapIndex :: u32

record VkMemoryHeap =
  size' :: u64
  flags :: u32

record VkPhysicalDeviceMemoryProperties =
  memoryTypeCount :: u32
  memoryTypes :: "VkMemoryType list"
  memoryHeapCount :: u32
  memoryHeaps :: "VkMemoryHeap list"

type_synonym VkPhysicalDeviceFeatures = "u32 list"

record VkExtent3D =
  width :: u32
  height :: u32
  depth :: u32

record VkQueueFamilyProperties =
  queueFlags :: u32
  queueCount :: u32
  timestampValidBits :: u32
  minImageTransferGranularity :: VkExtent3D

record GpuInfo =
  properties :: VkPhysicalDeviceProperties
  memory :: VkPhysicalDeviceMemoryProperties
  features :: VkPhysicalDeviceFeatures
  queue_families :: "VkQueueFamilyProperties list"
  extensions :: "VkExtensionProperties list"
  layers :: "VkLayerProperties list"
  layer_extensions :: "VkExtensionProperties list list"

record VulkanInfo =
  extensions :: "VkExtensionProperties list"
  layers :: "VkLayerProperties list"
  layer_extensions :: "VkExtensionProperties list list"
  gpus :: "GpuInfo list"

text \<open>
  The constants of \<^verbatim>\<open>vulkan.h\<close> and \<^verbatim>\<open>vk_ext_debug_report.h\<close> that the program
  uses by name. The headers are not among the sources, so the values are parameters of
  the model: the numeric value of each \<^verbatim>\<open>VkResult\<close> (printed by \<^verbatim>\<open>die\<close>), the
  flag masks, the two extension names, and what fixes the value-initialised structures
  (the device type whose value is zero, the lengths of the two memory arrays, the
  zeroed feature block).
\<close>

record vulkan_h =
  VkResult_value :: "VkResult \<Rightarrow> int"
  VK_MEMORY_HEAP_DEVICE_LOCAL_BIT :: u32
  VK_MEMORY_PROPERTY_DEVICE_LOCAL_BIT :: u32
  VK_MEMORY_PROPERTY_HOST_VISIBLE_BIT :: u32
  VK_MEMORY_PROPERTY_HOST_COHERENT_BIT :: u32
  VK_MEMORY_PROPERTY_HOST_CACHED_BIT :: u32
  VK_MEMORY_PROPERTY_LAZILY_ALLOCATED_BIT :: u32
  VkQueueFlagBits_value :: "VkQueueFlagBits \<Rightarrow> u32"
  VK_KHR_SWAPCHAIN_EXTENSION_NAME :: string
  VK_EXT_DEBUG_REPORT_EXTENSION_NAME :: string
  VkPhysicalDeviceType_zero :: VkPhysicalDeviceType
  VK_MAX_MEMORY_TYPES :: nat
  VK_MAX_MEMORY_HEAPS :: nat
  VkPhysicalDeviceFeatures_zero :: VkPhysicalDeviceFeatures

subsection \<open>Ways in which the program stops without a report\<close>

datatype failure =
    Died string VkResult  \<comment> \<open>\<^verbatim>\<open>die(proc, result)\<close>: a line on standard error, exit status 1\<close>
  | OutOfRange  \<comment> \<open>\<^verbatim>\<open>std::out_of_range\<close> thrown by \<^verbatim>\<open>vector::at\<close> and never caught\<close>
  | UndefinedBehaviour  \<comment> \<open>a read past the end of an array or vector\<close>

section \<open>Text formatting\<close>

text \<open>The conversions of \<^verbatim>\<open>printf\<close> that the program uses.\<close>

definition digit_char :: "nat \<Rightarrow> char" where
  "digit_char d = ''0123456789abcdef'' ! d"

function fmt_u :: "nat \<Rightarrow> string" where
  "fmt_u n = (if n < 10 then [digit_char n] else fmt_u (n div 10) @ [digit_char (n mod 10)])"
  by pat_completeness auto
termination
  by (relation "measure id") auto

function fmt_x :: "nat \<Rightarrow> string" where
  "fmt_x n = (if n < 16 then [digit_char n] else fmt_x (n div 16) @ [digit_char (n mod 16)])"
  by pat_completeness auto
termination
  by (relation "measure id") auto

declare fmt_u.simps [simp del]
declare fmt_x.simps [simp del]

text \<open>\<^verbatim>\<open>%#x\<close>: the prefix \<^verbatim>\<open>0x\<close> is added to a non-zero value only.\<close>

definition fmt_alt_x :: "nat \<Rightarrow> string" where
  "fmt_alt_x n = (if n = 0 then ''0'' else ''0x'' @ fmt_x n)"

text \<open>\<^verbatim>\<open>%04x\<close>: at least four digits, padded with zeros on the left.\<close>

definition fmt_04x :: "nat \<Rightarrow> string" where
  "fmt_04x n = replicate (4 - length (fmt_x n)) CHR ''0'' @ fmt_x n"

text \<open>\<^verbatim>\<open>%d\<close>.\<close>

definition fmt_d :: "int \<Rightarrow> string" where
  "fmt_d i = (if i < 0 then ''-'' @ fmt_u (nat (- i)) else fmt_u (nat i))"

definition newline :: string where
  "newline = [CHR 0x0A]"

definition dquote :: string where
  "dquote = [CHR 0x22]"

text \<open>Reading a decimal numeral back: the number that a string of digits denotes.\<close>

definition digit_value :: "char \<Rightarrow> nat" where
  "digit_value c = of_char c - 48"

definition decimal_value :: "string \<Rightarrow> nat" where
  "decimal_value ds = foldl (\<lambda>a c. 10 * a + digit_value c) 0 ds"

section \<open>Report rendering\<close>

text \<open>
  Standard output is the list of the texts written so far, one element for each
  \<^verbatim>\<open>printf\<close> call, in order; every printing function takes the output so far and
  returns it extended.
\<close>

definition version_str :: "u32 \<Rightarrow> string" where
  "version_str v =
     fmt_u (unat (ExtractMajorVersion v)) @ ''.'' @ fmt_u (unat (ExtractMinorVersion v)) @ ''.'' @
     fmt_u (unat (ExtractPatchVersion v))"

definition extension_line :: "string \<Rightarrow> VkExtensionProperties \<Rightarrow> string" where
  "extension_line prefix e =
     prefix @ extensionName e @ '' (v'' @ fmt_u (unat (VkExtensionProperties.specVersion e)) @ '')'' @
     newline"

fun PrintExtensions :: "VkExtensionProperties list \<Rightarrow> string \<Rightarrow> string list \<Rightarrow> string list" where
  "PrintExtensions [] prefix out = out"
| "PrintExtensions (e # es) prefix out = PrintExtensions es prefix (out @ [extension_line prefix e])"

definition layer_line :: "string \<Rightarrow> VkLayerProperties \<Rightarrow> string" where
  "layer_line prefix l =
     prefix @ layerName l @ '' '' @ version_str (VkLayerProperties.specVersion l) @ ''/'' @
     fmt_u (unat (implementationVersion l)) @ newline @
     prefix @ ''  '' @ description l @ newline"

definition layer_extensions_header :: "string \<Rightarrow> VkExtensionProperties list \<Rightarrow> string" where
  "layer_extensions_header prefix es =
     prefix @ ''  Extensions ['' @ fmt_u (length es) @ '']:'' @ newline"

text \<open>
  The loop of \<^verbatim>\<open>PrintLayers\<close> reads \<^verbatim>\<open>extensions[i]\<close> for every layer index; where
  the vector of extension lists is shorter than the layer list that read is undefined
  behaviour.
\<close>

function PrintLayers_loop ::
  "VkLayerProperties list \<Rightarrow> VkExtensionProperties list list \<Rightarrow> string \<Rightarrow> string \<Rightarrow> nat \<Rightarrow>
   string list \<Rightarrow> failure + string list" where
  "PrintLayers_loop layers' extensions' prefix ext_prefix i out =
     (if i < length layers' then
        (if length extensions' \<le> i then Inl UndefinedBehaviour
         else
           let out1 = out @ [layer_line prefix (layers' ! i)];
               out2 = (if extensions' ! i \<noteq> []
                       then out1 @ [layer_extensions_header prefix (extensions' ! i)] else out1);
               out3 = PrintExtensions (extensions' ! i) ext_prefix out2
           in PrintLayers_loop layers' extensions' prefix ext_prefix (i + 1) out3)
      else Inr out)"
  by pat_completeness auto
termination
  by (relation "measure (\<lambda>(layers', extensions', prefix, ext_prefix, i, out). length layers' - i)") auto

declare PrintLayers_loop.simps [simp del]

definition PrintLayers ::
  "VkLayerProperties list \<Rightarrow> VkExtensionProperties list list \<Rightarrow> string \<Rightarrow> string list \<Rightarrow>
   failure + string list" where
  "PrintLayers layers' extensions' prefix out =
     (let ext_prefix = prefix @ ''    ''
      in PrintLayers_loop layers' extensions' prefix ext_prefix 0 out)"

definition gpu_line :: "VkPhysicalDeviceProperties \<Rightarrow> string" where
  "gpu_line p =
     ''  '' @ dquote @ deviceName p @ dquote @ '' ('' @ VkPhysicalDeviceTypeStr (deviceType p) @ '') '' @
     version_str (apiVersion p) @ ''/'' @ fmt_alt_x (unat (driverVersion p)) @
     '' ['' @ fmt_04x (unat (vendorID p)) @ '':'' @ fmt_04x (unat (deviceID p)) @ '']'' @ newline"

definition heap_line :: "vulkan_h \<Rightarrow> nat \<Rightarrow> VkMemoryHeap \<Rightarrow> string" where
  "heap_line vk heap h =
     (let strbuf = (if flags h AND VK_MEMORY_HEAP_DEVICE_LOCAL_BIT vk \<noteq> 0 then ''DEVICE_LOCAL'' else [])
      in ''    Heap '' @ fmt_u heap @ '': '' @ fmt_u (unat (size' h) div 0x1000000) @ '' MiB (0x'' @
         fmt_x (unat (size' h)) @ '' B) '' @ strbuf @ newline)"

definition type_line :: "vulkan_h \<Rightarrow> nat \<Rightarrow> VkMemoryType \<Rightarrow> string" where
  "type_line vk type t =
     (let flags' = propertyFlags t;
          strbuf = [];
          strbuf = (if flags' AND VK_MEMORY_PROPERTY_DEVICE_LOCAL_BIT vk \<noteq> 0
                    then strbuf @ '' DEVICE_LOCAL'' else strbuf);
          strbuf = (if flags' AND VK_MEMORY_PROPERTY_HOST_VISIBLE_BIT vk \<noteq> 0
                    then strbuf @ '' HOST_VISIBLE'' else strbuf);
          strbuf = (if flags' AND VK_MEMORY_PROPERTY_HOST_COHERENT_BIT vk \<noteq> 0
                    then strbuf @ '' COHERENT'' else strbuf);
          strbuf = (if flags' AND VK_MEMORY_PROPERTY_HOST_CACHED_BIT vk \<noteq> 0
                    then strbuf @ '' CACHED'' else strbuf);
          strbuf = (if flags' AND VK_MEMORY_PROPERTY_LAZILY_ALLOCATED_BIT vk \<noteq> 0
                    then strbuf @ '' LAZILY_ALLOCATED'' else strbuf)
      in ''      Type '' @ fmt_u type @ '':'' @ strbuf @ newline)"

text \<open>
  The inner loop of the heap section: the memory types whose \<^verbatim>\<open>heapIndex\<close> is the
  heap being printed. \<^verbatim>\<open>memoryTypes\<close> is an array of fixed length; a
  \<^verbatim>\<open>memoryTypeCount\<close> beyond it makes the loop read past the array.
\<close>

function PrintGpuInfo_types ::
  "vulkan_h \<Rightarrow> VkPhysicalDeviceMemoryProperties \<Rightarrow> nat \<Rightarrow> nat \<Rightarrow> string list \<Rightarrow>
   failure + string list" where
  "PrintGpuInfo_types vk m heap type out =
     (if type < unat (memoryTypeCount m) then
        (if length (memoryTypes m) \<le> type then Inl UndefinedBehaviour
         else if unat (heapIndex (memoryTypes m ! type)) \<noteq> heap
         then PrintGpuInfo_types vk m heap (type + 1) out
         else PrintGpuInfo_types vk m heap (type + 1) (out @ [type_line vk type (memoryTypes m ! type)]))
      else Inr out)"
  by pat_completeness auto
termination
  by (relation "measure (\<lambda>(vk, m, heap, type, out). unat (memoryTypeCount m) - type)") auto

declare PrintGpuInfo_types.simps [simp del]

function PrintGpuInfo_heaps ::
  "vulkan_h \<Rightarrow> VkPhysicalDeviceMemoryProperties \<Rightarrow> nat \<Rightarrow> string list \<Rightarrow> failure + string list" where
  "PrintGpuInfo_heaps vk m heap out =
     (if heap < unat (memoryHeapCount m) then
        (if length (memoryHeaps m) \<le> heap then Inl UndefinedBehaviour
         else
           (case PrintGpuInfo_types vk m heap 0 (out @ [heap_line vk heap (memoryHeaps m ! heap)]) of
              Inl f \<Rightarrow> Inl f
            | Inr out' \<Rightarrow> PrintGpuInfo_heaps vk m (heap + 1) out'))
      else Inr out)"
  by pat_completeness auto
termination
  by (relation "measure (\<lambda>(vk, m, heap, out). unat (memoryHeapCount m) - heap)") auto

declare PrintGpuInfo_heaps.simps [simp del]

definition queue_family_line :: "vulkan_h \<Rightarrow> nat \<Rightarrow> VkQueueFamilyProperties \<Rightarrow> string" where
  "queue_family_line vk family qprops =
     (let flags' = queueFlags qprops;
          flags_str =
            [if flags' AND VkQueueFlagBits_value vk VK_QUEUE_GRAPHICS_BIT \<noteq> 0 then CHR ''G'' else CHR ''_'',
             if flags' AND VkQueueFlagBits_value vk VK_QUEUE_COMPUTE_BIT \<noteq> 0 then CHR ''C'' else CHR ''_'',
             if flags' AND VkQueueFlagBits_value vk VK_QUEUE_TRANSFER_BIT \<noteq> 0 then CHR ''T'' else CHR ''_'',
             if flags' AND VkQueueFlagBits_value vk VK_QUEUE_SPARSE_BINDING_BIT \<noteq> 0 then CHR ''S'' else CHR ''_'']
      in ''    Queue Family '' @ fmt_u family @ '': '' @ fmt_u (unat (queueCount qprops)) @ ''x '' @
         flags_str @ newline @
         ''      timestampValidBits: '' @ fmt_u (unat (timestampValidBits qprops)) @ ''b'' @ newline @
         ''      minImageTransferGranularity: ('' @
         fmt_u (unat (width (minImageTransferGranularity qprops))) @ '','' @
         fmt_u (unat (height (minImageTransferGranularity qprops))) @ '','' @
         fmt_u (unat (depth (minImageTransferGranularity qprops))) @ '')'' @ newline)"

text \<open>
  The loop over the queue families; its counter is compared with the size of a vector
  that was sized from a 32-bit count, so it does not wrap.
\<close>

function PrintGpuInfo_families ::
  "vulkan_h \<Rightarrow> VkQueueFamilyProperties list \<Rightarrow> nat \<Rightarrow> string list \<Rightarrow> string list" where
  "PrintGpuInfo_families vk queue_families' family out =
     (if family < length queue_families'
      then PrintGpuInfo_families vk queue_families' (family + 1)
             (out @ [queue_family_line vk family (queue_families' ! family)])
      else out)"
  by pat_completeness auto
termination
  by (relation "measure (\<lambda>(vk, queue_families', family, out). length queue_families' - family)") auto

declare PrintGpuInfo_families.simps [simp del]

definition PrintGpuInfo :: "vulkan_h \<Rightarrow> GpuInfo \<Rightarrow> string list \<Rightarrow> failure + string list" where
  "PrintGpuInfo vk info out =
     (let out1 = out @ [gpu_line (properties info)]
      in case PrintGpuInfo_heaps vk (memory info) 0 out1 of
           Inl f \<Rightarrow> Inl f
         | Inr out2 \<Rightarrow>
             let out3 = PrintGpuInfo_families vk (queue_families info) 0 out2;
                 out4 = (if GpuInfo.extensions info \<noteq> []
                         then PrintExtensions (GpuInfo.extensions info) ''      ''
                                (out3 @ [''    Extensions ['' @ fmt_u (length (GpuInfo.extensions info)) @
                                         '']:'' @ newline])
                         else out3)
             in if GpuInfo.layers info \<noteq> []
                then PrintLayers (GpuInfo.layers info) (GpuInfo.layer_extensions info) ''      ''
                       (out4 @ [''    Layers ['' @ fmt_u (length (GpuInfo.layers info)) @ '']:'' @ newline])
                else Inr out4)"

fun PrintInfo_gpus :: "vulkan_h \<Rightarrow> GpuInfo list \<Rightarrow> string list \<Rightarrow> failure + string list" where
  "PrintInfo_gpus vk [] out = Inr out"
| "PrintInfo_gpus vk (gpu # rest) out =
     (case PrintGpuInfo vk gpu out of Inl f \<Rightarrow> Inl f | Inr out' \<Rightarrow> PrintInfo_gpus vk rest out')"

definition PrintInfo :: "vulkan_h \<Rightarrow> VulkanInfo \<Rightarrow> string list \<Rightarrow> failure + string list" where
  "PrintInfo vk info out =
     (let out1 = PrintExtensions (VulkanInfo.extensions info) ''  ''
                   (out @ [''Instance Extensions ['' @ fmt_u (length (VulkanInfo.extensions info)) @
                           '']:'' @ newline])
      in case (if VulkanInfo.layers info \<noteq> []
               then PrintLayers (VulkanInfo.layers info) (VulkanInfo.layer_extensions info) ''  ''
                      (out1 @ [''Instance Layers ['' @ fmt_u (length (VulkanInfo.layers info)) @
                               '']:'' @ newline])
               else Inr out1) of
           Inl f \<Rightarrow> Inl f
         | Inr out2 \<Rightarrow>
             PrintInfo_gpus vk (gpus info)
               (out2 @ [''PhysicalDevices ['' @ fmt_u (length (gpus info)) @ '']:'' @ newline]))"

section \<open>The Vulkan runtime\<close>

text \<open>
  The runtime and the driver behind it are outside the program. They are a parameter of
  the model: a state of any type \<open>'s\<close> and one function for each entry point that
  \<^verbatim>\<open>vkinfo.cpp\<close> calls, taking the state and returning what the call writes
  through its pointer arguments, its return value, and the next state.

  An enumeration entry point is called with a null array (\<open>None\<close>: a query of the
  count) or with an array and the number of elements it holds (\<open>Some capacity\<close>). It
  returns the value it leaves in the count variable and the elements it writes. The
  array that the program passes after the query of the count is \<^verbatim>\<open>data()\<close> of a
  vector, which is null where the vector has no storage: the runtime then receives a
  second query of the count.
\<close>

type_synonym VkInstance = nat
type_synonym VkPhysicalDevice = nat
type_synonym VkDevice = nat

definition VK_NULL_HANDLE :: nat where
  "VK_NULL_HANDLE = 0"

record VkInstanceCreateInfo =
  enabledExtensionCount :: u32
  ppEnabledExtensionNames :: "string list"

record VkDeviceQueueCreateInfo =
  queueFamilyIndex :: u32
  queueCount :: u32
  pQueuePriorities :: "real list"

record VkDeviceCreateInfo =
  queueCreateInfoCount :: u32
  pQueueCreateInfos :: "VkDeviceQueueCreateInfo list"
  enabledExtensionCount :: u32
  ppEnabledExtensionNames :: "string list"
  pEnabledFeatures :: VkPhysicalDeviceFeatures

record 's vk_runtime =
  vkEnumerateInstanceExtensionProperties ::
    "string option \<Rightarrow> u32 option \<Rightarrow> 's \<Rightarrow> VkResult \<times> u32 \<times> VkExtensionProperties list \<times> 's"
  vkEnumerateDeviceExtensionProperties ::
    "VkPhysicalDevice \<Rightarrow> string option \<Rightarrow> u32 option \<Rightarrow> 's \<Rightarrow>
     VkResult \<times> u32 \<times> VkExtensionProperties list \<times> 's"
  vkEnumerateInstanceLayerProperties ::
    "u32 option \<Rightarrow> 's \<Rightarrow> VkResult \<times> u32 \<times> VkLayerProperties list \<times> 's"
  vkEnumerateDeviceLayerProperties ::
    "VkPhysicalDevice \<Rightarrow> u32 option \<Rightarrow> 's \<Rightarrow> VkResult \<times> u32 \<times> VkLayerProperties list \<times> 's"
  vkEnumeratePhysicalDevices ::
    "VkInstance \<Rightarrow> u32 option \<Rightarrow> 's \<Rightarrow> VkResult \<times> u32 \<times> VkPhysicalDevice list \<times> 's"
  vkGetPhysicalDeviceProperties :: "VkPhysicalDevice \<Rightarrow> 's \<Rightarrow> VkPhysicalDeviceProperties \<times> 's"
  vkGetPhysicalDeviceMemoryProperties ::
    "VkPhysicalDevice \<Rightarrow> 's \<Rightarrow> VkPhysicalDeviceMemoryProperties \<times> 's"
  vkGetPhysicalDeviceFeatures :: "VkPhysicalDevice \<Rightarrow> 's \<Rightarrow> VkPhysicalDeviceFeatures \<times> 's"
  vkGetPhysicalDeviceQueueFamilyProperties ::
    "VkPhysicalDevice \<Rightarrow> u32 option \<Rightarrow> 's \<Rightarrow> u32 \<times> VkQueueFamilyProperties list \<times> 's"
  vkCreateInstance :: "VkInstanceCreateInfo \<Rightarrow> 's \<Rightarrow> VkResult \<times> VkInstance \<times> 's"
  vkDestroyInstance :: "VkInstance \<Rightarrow> 's \<Rightarrow> 's"
  vkCreateDevice :: "VkPhysicalDevice \<Rightarrow> VkDeviceCreateInfo \<Rightarrow> 's \<Rightarrow> VkResult \<times> VkDevice \<times> 's"
  vkDestroyDevice :: "VkDevice \<Rightarrow> 's \<Rightarrow> 's"

subsection \<open>Vectors and the arrays handed to the runtime\<close>

text \<open>\<^verbatim>\<open>std::vector::resize(n, d)\<close>: the first \<open>n\<close> elements are kept, new ones are \<open>d\<close>.\<close>

definition resize :: "'a list \<Rightarrow> nat \<Rightarrow> 'a \<Rightarrow> 'a list" where
  "resize v n d = take n v @ replicate (n - length v) d"

text \<open>
  The runtime writes through \<^verbatim>\<open>data()\<close> into the elements the vector has: the
  vector keeps its size, and the runtime is taken to stay inside the array (what it
  would write beyond the capacity is dropped).
\<close>

definition store :: "'a list \<Rightarrow> 'a list \<Rightarrow> 'a list" where
  "store written v = take (length v) written @ drop (length written) v"

text \<open>
  \<^verbatim>\<open>data()\<close> of a vector is the null pointer as long as the vector has no storage.
  A vector that is constructed empty has none; it gets storage when it is first given
  an element, and \<^verbatim>\<open>resize\<close> never gives storage back, so a vector that was
  shrunk to no element keeps a non-null \<^verbatim>\<open>data()\<close>. The array argument of a call
  that passes \<^verbatim>\<open>&count\<close> and \<^verbatim>\<open>data()\<close> is therefore \<open>None\<close> without
  storage, and the array with the count as its announced capacity otherwise. Through a
  null array nothing is written: a vector without storage is empty, and \<open>store\<close> into
  an empty vector leaves it empty.

  Every vector that the program hands to an enumeration belongs to a structure that
  \<^verbatim>\<open>main\<close> or a \<^verbatim>\<open>resize\<close> has just constructed, or is constructed with
  \<^verbatim>\<open>num_gpus\<close> elements: on entry it has storage exactly if it has an element,
  and this is how the enumerations below start.
\<close>

definition data_pointer :: "bool \<Rightarrow> u32 \<Rightarrow> u32 option" where
  "data_pointer has_storage count = (if has_storage then Some count else None)"

definition VkExtensionProperties_zero :: VkExtensionProperties where
  "VkExtensionProperties_zero = \<lparr>extensionName = [], specVersion = 0\<rparr>"

definition VkLayerProperties_zero :: VkLayerProperties where
  "VkLayerProperties_zero =
     \<lparr>layerName = [], specVersion = 0, implementationVersion = 0, description = []\<rparr>"

definition VkQueueFamilyProperties_zero :: VkQueueFamilyProperties where
  "VkQueueFamilyProperties_zero =
     \<lparr>queueFlags = 0, queueCount = 0, timestampValidBits = 0,
      minImageTransferGranularity = \<lparr>width = 0, height = 0, depth = 0\<rparr>\<rparr>"

text \<open>A value-initialised \<^verbatim>\<open>GpuInfo\<close>, as \<^verbatim>\<open>info->gpus.resize\<close> creates it.\<close>

definition GpuInfo_zero :: "vulkan_h \<Rightarrow> GpuInfo" where
  "GpuInfo_zero vk =
     \<lparr>properties = \<lparr>apiVersion = 0, driverVersion = 0, vendorID = 0, deviceID = 0,
                     deviceType = VkPhysicalDeviceType_zero vk, deviceName = []\<rparr>,
      memory = \<lparr>memoryTypeCount = 0,
                 memoryTypes = replicate (VK_MAX_MEMORY_TYPES vk) \<lparr>propertyFlags = 0, heapIndex = 0\<rparr>,
                 memoryHeapCount = 0,
                 memoryHeaps = replicate (VK_MAX_MEMORY_HEAPS vk) \<lparr>size' = 0, flags = 0\<rparr>\<rparr>,
      features = VkPhysicalDeviceFeatures_zero vk,
      queue_families = [],
      extensions = [],
      layers = [],
      layer_extensions = []\<rparr>"

definition VulkanInfo_empty :: VulkanInfo where
  "VulkanInfo_empty = \<lparr>extensions = [], layers = [], layer_extensions = [], gpus = []\<rparr>"

section \<open>Information gathering\<close>

subsection \<open>The retry loop\<close>

text \<open>
  \<^verbatim>\<open>do { ... } while (result == VK_INCOMPLETE);\<close> The body takes the variables of
  the loop and returns the result of its call and the variables after it. Nothing bounds
  the number of rounds, so the loop is a partial function: \<open>None\<close> is a loop that
  never ends.
\<close>

partial_function (option) do_while_incomplete ::
  "('st \<Rightarrow> VkResult \<times> 'st) \<Rightarrow> 'st \<Rightarrow> (VkResult \<times> 'st) option" where
  "do_while_incomplete body st =
     (case body st of (result, st') \<Rightarrow>
        if result = VK_INCOMPLETE then do_while_incomplete body st' else Some (result, st'))"

declare do_while_incomplete.simps [code]

text \<open>
  A run of the gatherer either never ends (\<open>None\<close>), or stops the process
  (\<open>Some (Inl f)\<close>), or returns (\<open>Some (Inr x)\<close>).
\<close>

type_synonym 'a run = "(failure + 'a) option"

definition die :: "string \<Rightarrow> VkResult \<Rightarrow> 'a run" where
  "die proc result = Some (Inl (Died proc result))"

definition HasExtension :: "VkExtensionProperties list \<Rightarrow> string \<Rightarrow> bool" where
  "HasExtension extensions' name = (find (\<lambda>prop. extensionName prop = name) extensions' \<noteq> None)"

definition EnumerateInstanceExtensions ::
  "'s vk_runtime \<Rightarrow> string option \<Rightarrow> VkExtensionProperties list \<Rightarrow> 's \<Rightarrow>
   (VkExtensionProperties list \<times> 's) run" where
  "EnumerateInstanceExtensions rt layer_name extensions' s =
     (case vkEnumerateInstanceExtensionProperties rt layer_name None s of
        (result, count, _, s1) \<Rightarrow>
          if result \<noteq> VK_SUCCESS
          then die ''vkEnumerateInstanceExtensionProperties (count)'' result
          else
            (case do_while_incomplete
                    (\<lambda>(count, extensions', has_storage, s).
                       let has_storage = has_storage \<or> 0 < unat count in
                       case vkEnumerateInstanceExtensionProperties rt layer_name (data_pointer has_storage count) s of
                         (result, count', written, s') \<Rightarrow>
                           (result, count',
                            store written (resize extensions' (unat count) VkExtensionProperties_zero),
                            has_storage, s'))
                    (count, extensions', extensions' \<noteq> [], s1) of
               None \<Rightarrow> None
             | Some (result, count, extensions', has_storage, s2) \<Rightarrow>
                 if result \<noteq> VK_SUCCESS
                 then die ''vkEnumerateInstanceExtensionProperties (data)'' result
                 else Some (Inr (extensions', s2))))"

definition EnumerateDeviceExtensions ::
  "'s vk_runtime \<Rightarrow> VkPhysicalDevice \<Rightarrow> string option \<Rightarrow> VkExtensionProperties list \<Rightarrow> 's \<Rightarrow>
   (VkExtensionProperties list \<times> 's) run" where
  "EnumerateDeviceExtensions rt gpu layer_name extensions' s =
     (case vkEnumerateDeviceExtensionProperties rt gpu layer_name None s of
        (result, count, _, s1) \<Rightarrow>
          if result \<noteq> VK_SUCCESS
          then die ''vkEnumerateDeviceExtensionProperties (count)'' result
          else
            (case do_while_incomplete
                    (\<lambda>(count, extensions', has_storage, s).
                       let has_storage = has_storage \<or> 0 < unat count in
                       case vkEnumerateDeviceExtensionProperties rt gpu layer_name (data_pointer has_storage count) s of
                         (result, count', written, s') \<Rightarrow>
                           (result, count',
                            store written (resize extensions' (unat count) VkExtensionProperties_zero),
                            has_storage, s'))
                    (count, extensions', extensions' \<noteq> [], s1) of
               None \<Rightarrow> None
             | Some (result, count, extensions', has_storage, s2) \<Rightarrow>
                 if result \<noteq> VK_SUCCESS
                 then die ''vkEnumerateDeviceExtensionProperties (data)'' result
                 else Some (Inr (extensions', s2))))"

subsection \<open>One physical device\<close>

text \<open>
  Lines 127 to 130 of \<^verbatim>\<open>GatherGpuInfo\<close>: the queue families. The entry point
  returns no result, and the program calls it twice: once for the count, once with
  \<^verbatim>\<open>data()\<close> of the resized vector.
\<close>

definition GatherGpuInfo_queue_families ::
  "'s vk_runtime \<Rightarrow> VkPhysicalDevice \<Rightarrow> VkQueueFamilyProperties list \<Rightarrow> 's \<Rightarrow>
   VkQueueFamilyProperties list \<times> 's" where
  "GatherGpuInfo_queue_families rt gpu queue_families' s =
     (case vkGetPhysicalDeviceQueueFamilyProperties rt gpu None s of
        (count, _, s1) \<Rightarrow>
          let has_storage = (0 < unat count \<or> queue_families' \<noteq> []) in
          (case vkGetPhysicalDeviceQueueFamilyProperties rt gpu (data_pointer has_storage count) s1 of
             (count', written, s2) \<Rightarrow>
               (store written (resize queue_families' (unat count) VkQueueFamilyProperties_zero), s2)))"

text \<open>Lines 132 to 141: the device layers.\<close>

definition GatherGpuInfo_layers ::
  "'s vk_runtime \<Rightarrow> VkPhysicalDevice \<Rightarrow> VkLayerProperties list \<Rightarrow> 's \<Rightarrow>
   (VkLayerProperties list \<times> 's) run" where
  "GatherGpuInfo_layers rt gpu layers' s =
     (case vkEnumerateDeviceLayerProperties rt gpu None s of
        (result, count, _, s1) \<Rightarrow>
          if result \<noteq> VK_SUCCESS
          then die ''vkEnumerateDeviceLayerProperties (count)'' result
          else
            (case do_while_incomplete
                    (\<lambda>(count, layers', has_storage, s).
                       let has_storage = has_storage \<or> 0 < unat count in
                       case vkEnumerateDeviceLayerProperties rt gpu (data_pointer has_storage count) s of
                         (result, count', written, s') \<Rightarrow>
                           (result, count',
                            store written (resize layers' (unat count) VkLayerProperties_zero),
                            has_storage, s'))
                    (count, layers', layers' \<noteq> [], s1) of
               None \<Rightarrow> None
             | Some (result, count, layers', has_storage, s2) \<Rightarrow>
                 if result \<noteq> VK_SUCCESS
                 then die ''vkEnumerateDeviceLayerProperties (data)'' result
                 else Some (Inr (layers', s2))))"

text \<open>Lines 145 to 148: the extensions of each device layer, stored at the layer's index.\<close>

function GatherGpuInfo_layer_extensions ::
  "'s vk_runtime \<Rightarrow> VkPhysicalDevice \<Rightarrow> VkLayerProperties list \<Rightarrow> nat \<Rightarrow>
   VkExtensionProperties list list \<Rightarrow> 's \<Rightarrow> (VkExtensionProperties list list \<times> 's) run" where
  "GatherGpuInfo_layer_extensions rt gpu layers' i layer_extensions' s =
     (if i < length layers' then
        (if length layer_extensions' \<le> i then Some (Inl UndefinedBehaviour)
         else
           (case EnumerateDeviceExtensions rt gpu (Some (layerName (layers' ! i)))
                   (layer_extensions' ! i) s of
              None \<Rightarrow> None
            | Some (Inl f) \<Rightarrow> Some (Inl f)
            | Some (Inr (extensions', s')) \<Rightarrow>
                GatherGpuInfo_layer_extensions rt gpu layers' (i + 1)
                  (layer_extensions'[i := extensions']) s'))
      else Some (Inr (layer_extensions', s)))"
  by pat_completeness auto
termination
  by (relation "measure (\<lambda>(rt, gpu, layers', i, layer_extensions', s). length layers' - i)") auto

declare GatherGpuInfo_layer_extensions.simps [simp del]

text \<open>
  The inner loop of the search for a desired extension:
  \<^verbatim>\<open>for (i = 0; !available && i < layer_extensions.size(); i++)\<close>.
\<close>

function available_in_layers ::
  "VkExtensionProperties list list \<Rightarrow> string \<Rightarrow> bool \<Rightarrow> nat \<Rightarrow> bool" where
  "available_in_layers layer_extensions' desired_ext available i =
     (if \<not> available \<and> i < length layer_extensions'
      then available_in_layers layer_extensions' desired_ext
             (HasExtension (layer_extensions' ! i) desired_ext) (i + 1)
      else available)"
  by pat_completeness auto
termination
  by (relation "measure (\<lambda>(layer_extensions', desired_ext, available, i). length layer_extensions' - i)")
     auto

declare available_in_layers.simps [simp del]

text \<open>
  The loop over the desired extensions; the result is the array \<^verbatim>\<open>extensions\<close>
  up to \<^verbatim>\<open>num_extensions\<close>.
\<close>

fun enabled_extensions ::
  "VkExtensionProperties list \<Rightarrow> VkExtensionProperties list list \<Rightarrow> string list \<Rightarrow>
   string list \<Rightarrow> string list" where
  "enabled_extensions extensions' layer_extensions' [] enabled = enabled"
| "enabled_extensions extensions' layer_extensions' (desired_ext # rest) enabled =
     (let available = HasExtension extensions' desired_ext;
          available = available_in_layers layer_extensions' desired_ext available 0
      in enabled_extensions extensions' layer_extensions' rest
           (if available then enabled @ [desired_ext] else enabled))"

definition GatherGpuInfo ::
  "vulkan_h \<Rightarrow> 's vk_runtime \<Rightarrow> VkPhysicalDevice \<Rightarrow> GpuInfo \<Rightarrow> 's \<Rightarrow> (GpuInfo \<times> 's) run" where
  "GatherGpuInfo vk rt gpu info s =
     (case vkGetPhysicalDeviceProperties rt gpu s of (properties', s) \<Rightarrow>
      case vkGetPhysicalDeviceMemoryProperties rt gpu s of (memory', s) \<Rightarrow>
      case vkGetPhysicalDeviceFeatures rt gpu s of (features', s) \<Rightarrow>
      let info = info\<lparr>properties := properties', memory := memory', features := features'\<rparr> in
      case GatherGpuInfo_queue_families rt gpu (queue_families info) s of (queue_families', s) \<Rightarrow>
      let info = info\<lparr>queue_families := queue_families'\<rparr> in
      case GatherGpuInfo_layers rt gpu (GpuInfo.layers info) s of
        None \<Rightarrow> None
      | Some (Inl f) \<Rightarrow> Some (Inl f)
      | Some (Inr (layers', s)) \<Rightarrow>
      let info = info\<lparr>GpuInfo.layers := layers'\<rparr>;
          info = info\<lparr>GpuInfo.layer_extensions :=
                   resize (GpuInfo.layer_extensions info) (length (GpuInfo.layers info)) []\<rparr> in
      case EnumerateDeviceExtensions rt gpu None (GpuInfo.extensions info) s of
        None \<Rightarrow> None
      | Some (Inl f) \<Rightarrow> Some (Inl f)
      | Some (Inr (extensions', s)) \<Rightarrow>
      let info = info\<lparr>GpuInfo.extensions := extensions'\<rparr> in
      case GatherGpuInfo_layer_extensions rt gpu (GpuInfo.layers info) 0
             (GpuInfo.layer_extensions info) s of
        None \<Rightarrow> None
      | Some (Inl f) \<Rightarrow> Some (Inl f)
      | Some (Inr (layer_extensions', s)) \<Rightarrow>
      let info = info\<lparr>GpuInfo.layer_extensions := layer_extensions'\<rparr>;
          kDesiredExtensions = [VK_KHR_SWAPCHAIN_EXTENSION_NAME vk];
          enabled = enabled_extensions (GpuInfo.extensions info) (GpuInfo.layer_extensions info)
                      kDesiredExtensions [];
          queue_priorities = [0];
          queue_create_info =
            \<lparr>queueFamilyIndex = 0, queueCount = 1, pQueuePriorities = queue_priorities\<rparr>;
          create_info =
            \<lparr>queueCreateInfoCount = 1,
             pQueueCreateInfos = [queue_create_info],
             enabledExtensionCount = of_nat (length enabled),
             ppEnabledExtensionNames = enabled,
             pEnabledFeatures = features info\<rparr> in
      case vkCreateDevice rt gpu create_info s of (result, device, s) \<Rightarrow>
      if result \<noteq> VK_SUCCESS then die ''vkCreateDevice'' result
      else Some (Inr (info, vkDestroyDevice rt device s)))"

subsection \<open>The instance\<close>

text \<open>Lines 189 to 198 of \<^verbatim>\<open>GatherInfo\<close>: the instance layers.\<close>

definition GatherInfo_layers ::
  "'s vk_runtime \<Rightarrow> VkLayerProperties list \<Rightarrow> 's \<Rightarrow> (VkLayerProperties list \<times> 's) run" where
  "GatherInfo_layers rt layers' s =
     (case vkEnumerateInstanceLayerProperties rt None s of
        (result, count, _, s1) \<Rightarrow>
          if result \<noteq> VK_SUCCESS
          then die ''vkEnumerateInstanceLayerProperties (count)'' result
          else
            (case do_while_incomplete
                    (\<lambda>(count, layers', has_storage, s).
                       let has_storage = has_storage \<or> 0 < unat count in
                       case vkEnumerateInstanceLayerProperties rt (data_pointer has_storage count) s of
                         (result, count', written, s') \<Rightarrow>
                           (result, count',
                            store written (resize layers' (unat count) VkLayerProperties_zero),
                            has_storage, s'))
                    (count, layers', layers' \<noteq> [], s1) of
               None \<Rightarrow> None
             | Some (result, count, layers', has_storage, s2) \<Rightarrow>
                 if result \<noteq> VK_SUCCESS
                 then die ''vkEnumerateInstanceLayerProperties (data)'' result
                 else Some (Inr (layers', s2))))"

text \<open>Lines 202 to 205: the extensions of each instance layer, stored at the layer's index.\<close>

function GatherInfo_layer_extensions ::
  "'s vk_runtime \<Rightarrow> VkLayerProperties list \<Rightarrow> nat \<Rightarrow> VkExtensionProperties list list \<Rightarrow> 's \<Rightarrow>
   (VkExtensionProperties list list \<times> 's) run" where
  "GatherInfo_layer_extensions rt layers' i layer_extensions' s =
     (if i < length layers' then
        (if length layer_extensions' \<le> i then Some (Inl UndefinedBehaviour)
         else
           (case EnumerateInstanceExtensions rt (Some (layerName (layers' ! i)))
                   (layer_extensions' ! i) s of
              None \<Rightarrow> None
            | Some (Inl f) \<Rightarrow> Some (Inl f)
            | Some (Inr (extensions', s')) \<Rightarrow>
                GatherInfo_layer_extensions rt layers' (i + 1)
                  (layer_extensions'[i := extensions']) s'))
      else Some (Inr (layer_extensions', s)))"
  by pat_completeness auto
termination
  by (relation "measure (\<lambda>(rt, layers', i, layer_extensions', s). length layers' - i)") auto

declare GatherInfo_layer_extensions.simps [simp del]

text \<open>
  Lines 231 to 241: the physical devices. The result is the vector \<^verbatim>\<open>gpus\<close> and the
  count \<^verbatim>\<open>num_gpus\<close> that the last call left.
\<close>

definition GatherInfo_physical_devices ::
  "'s vk_runtime \<Rightarrow> VkInstance \<Rightarrow> 's \<Rightarrow> (u32 \<times> VkPhysicalDevice list \<times> 's) run" where
  "GatherInfo_physical_devices rt instance' s =
     (case vkEnumeratePhysicalDevices rt instance' None s of
        (result, num_gpus, _, s1) \<Rightarrow>
          if result \<noteq> VK_SUCCESS
          then die ''vkEnumeratePhysicalDevices (count)'' result
          else
            (case do_while_incomplete
                    (\<lambda>(num_gpus, gpus', has_storage, s).
                       let has_storage = has_storage \<or> 0 < unat num_gpus in
                       case vkEnumeratePhysicalDevices rt instance'
                              (data_pointer has_storage num_gpus) s of
                         (result, num_gpus', written, s') \<Rightarrow>
                           (result, num_gpus',
                            store written (resize gpus' (unat num_gpus) VK_NULL_HANDLE),
                            has_storage, s'))
                    (num_gpus, replicate (unat num_gpus) VK_NULL_HANDLE,
                     replicate (unat num_gpus) VK_NULL_HANDLE \<noteq> [], s1) of
               None \<Rightarrow> None
             | Some (result, num_gpus, gpus', has_storage, s2) \<Rightarrow>
                 if result \<noteq> VK_SUCCESS
                 then die ''vkEnumeratePhysicalDevices (data)'' result
                 else Some (Inr (num_gpus, gpus', s2))))"

text \<open>
  Lines 244 and 245: every handle of \<^verbatim>\<open>gpus\<close> is gathered into
  \<^verbatim>\<open>info->gpus.at(i)\<close>, which throws where \<^verbatim>\<open>info->gpus\<close> has no element
  \<open>i\<close>.
\<close>

function GatherInfo_gpus ::
  "vulkan_h \<Rightarrow> 's vk_runtime \<Rightarrow> VkPhysicalDevice list \<Rightarrow> nat \<Rightarrow> GpuInfo list \<Rightarrow> 's \<Rightarrow>
   (GpuInfo list \<times> 's) run" where
  "GatherInfo_gpus vk rt gpus' i info_gpus s =
     (if i < length gpus' then
        (if length info_gpus \<le> i then Some (Inl OutOfRange)
         else
           (case GatherGpuInfo vk rt (gpus' ! i) (info_gpus ! i) s of
              None \<Rightarrow> None
            | Some (Inl f) \<Rightarrow> Some (Inl f)
            | Some (Inr (gpu_info, s')) \<Rightarrow>
                GatherInfo_gpus vk rt gpus' (i + 1) (info_gpus[i := gpu_info]) s'))
      else Some (Inr (info_gpus, s)))"
  by pat_completeness auto
termination
  by (relation "measure (\<lambda>(vk, rt, gpus', i, info_gpus, s). length gpus' - i)") auto

declare GatherInfo_gpus.simps [simp del]

definition GatherInfo :: "vulkan_h \<Rightarrow> 's vk_runtime \<Rightarrow> VulkanInfo \<Rightarrow> 's \<Rightarrow> (VulkanInfo \<times> 's) run" where
  "GatherInfo vk rt info s =
     (case GatherInfo_layers rt (VulkanInfo.layers info) s of
        None \<Rightarrow> None
      | Some (Inl f) \<Rightarrow> Some (Inl f)
      | Some (Inr (layers', s)) \<Rightarrow>
      let info = info\<lparr>VulkanInfo.layers := layers'\<rparr>;
          info = info\<lparr>VulkanInfo.layer_extensions :=
                   resize (VulkanInfo.layer_extensions info) (length (VulkanInfo.layers info)) []\<rparr> in
      case EnumerateInstanceExtensions rt None (VulkanInfo.extensions info) s of
        None \<Rightarrow> None
      | Some (Inl f) \<Rightarrow> Some (Inl f)
      | Some (Inr (extensions', s)) \<Rightarrow>
      let info = info\<lparr>VulkanInfo.extensions := extensions'\<rparr> in
      case GatherInfo_layer_extensions rt (VulkanInfo.layers info) 0
             (VulkanInfo.layer_extensions info) s of
        None \<Rightarrow> None
      | Some (Inl f) \<Rightarrow> Some (Inl f)
      | Some (Inr (layer_extensions', s)) \<Rightarrow>
      let info = info\<lparr>VulkanInfo.layer_extensions := layer_extensions'\<rparr>;
          kDesiredExtensions = [VK_EXT_DEBUG_REPORT_EXTENSION_NAME vk];
          enabled = enabled_extensions (VulkanInfo.extensions info) (VulkanInfo.layer_extensions info)
                      kDesiredExtensions [];
          create_info =
            \<lparr>VkInstanceCreateInfo.enabledExtensionCount = of_nat (length enabled),
             ppEnabledExtensionNames = enabled\<rparr> in
      case vkCreateInstance rt create_info s of (result, instance', s) \<Rightarrow>
      if result \<noteq> VK_SUCCESS then die ''vkCreateInstance'' result
      else
      case GatherInfo_physical_devices rt instance' s of
        None \<Rightarrow> None
      | Some (Inl f) \<Rightarrow> Some (Inl f)
      | Some (Inr (num_gpus, gpus', s)) \<Rightarrow>
      let info = info\<lparr>gpus := resize (gpus info) (unat num_gpus) (GpuInfo_zero vk)\<rparr> in
      case GatherInfo_gpus vk rt gpus' 0 (gpus info) s of
        None \<Rightarrow> None
      | Some (Inl f) \<Rightarrow> Some (Inl f)
      | Some (Inr (info_gpus, s)) \<Rightarrow>
          Some (Inr (info\<lparr>gpus := info_gpus\<rparr>, vkDestroyInstance rt instance' s)))"

section \<open>The program\<close>

text \<open>The switch of \<^verbatim>\<open>die\<close> and the line it writes to standard error.\<close>

definition result_str :: "VkResult \<Rightarrow> string" where
  "result_str result =
     (case result of
        VK_SUCCESS \<Rightarrow> ''VK_SUCCESS''
      | VK_NOT_READY \<Rightarrow> ''VK_NOT_READY''
      | VK_TIMEOUT \<Rightarrow> ''VK_TIMEOUT''
      | VK_EVENT_SET \<Rightarrow> ''VK_EVENT_SET''
      | VK_EVENT_RESET \<Rightarrow> ''VK_EVENT_RESET''
      | VK_INCOMPLETE \<Rightarrow> ''VK_INCOMPLETE''
      | VK_ERROR_OUT_OF_HOST_MEMORY \<Rightarrow> ''VK_ERROR_OUT_OF_HOST_MEMORY''
      | VK_ERROR_OUT_OF_DEVICE_MEMORY \<Rightarrow> ''VK_ERROR_OUT_OF_DEVICE_MEMORY''
      | VK_ERROR_INITIALIZATION_FAILED \<Rightarrow> ''VK_ERROR_INITIALIZATION_FAILED''
      | VK_ERROR_DEVICE_LOST \<Rightarrow> ''VK_ERROR_DEVICE_LOST''
      | VK_ERROR_MEMORY_MAP_FAILED \<Rightarrow> ''VK_ERROR_MEMORY_MAP_FAILED''
      | VK_ERROR_LAYER_NOT_PRESENT \<Rightarrow> ''VK_ERROR_LAYER_NOT_PRESENT''
      | VK_ERROR_EXTENSION_NOT_PRESENT \<Rightarrow> ''VK_ERROR_EXTENSION_NOT_PRESENT''
      | VK_ERROR_INCOMPATIBLE_DRIVER \<Rightarrow> ''VK_ERROR_INCOMPATIBLE_DRIVER''
      | VkResult_unlisted _ \<Rightarrow> ''<unknown VkResult>'')"

definition die_message :: "vulkan_h \<Rightarrow> string \<Rightarrow> VkResult \<Rightarrow> string" where
  "die_message vk proc result =
     proc @ '' failed: '' @ result_str result @ '' ('' @ fmt_d (VkResult_value vk result) @ '')'' @
     newline"

text \<open>
  How a run of the process ends: it exits with a status, having written to standard
  output and standard error; or an uncaught exception aborts it; or its behaviour is
  undefined.
\<close>

datatype outcome =
    Exited "string list" "string list" int
  | Aborted
  | Undefined

definition main :: "vulkan_h \<Rightarrow> 's vk_runtime \<Rightarrow> 's \<Rightarrow> outcome option" where
  "main vk rt s =
     (case GatherInfo vk rt VulkanInfo_empty s of
        None \<Rightarrow> None
      | Some (Inl (Died proc result)) \<Rightarrow> Some (Exited [] [die_message vk proc result] 1)
      | Some (Inl OutOfRange) \<Rightarrow> Some Aborted
      | Some (Inl UndefinedBehaviour) \<Rightarrow> Some Undefined
      | Some (Inr (info, s')) \<Rightarrow>
          (case PrintInfo vk info [] of
             Inl _ \<Rightarrow> Some Undefined
           | Inr out \<Rightarrow> Some (Exited out [] 0)))"

section \<open>The enumeration pattern of the specification\<close>

text \<open>
  The pattern as the specification words it: query the required size, allocate a
  buffer of that size, fetch, and repeat the fetch while the runtime reports the buffer
  as undersized (\<^verbatim>\<open>VK_INCOMPLETE\<close>); any other status that is not success is fatal.
  It is stated once, for any entry point \<open>q\<close>, the name \<open>proc\<close> of the entry
  point, the value \<open>d\<close> of a new element and the vector \<open>v\<close> to fill; it returns the
  count variable, the vector and the state of the runtime. A buffer of no element is no
  buffer: as long as the vector has had no element, the call that follows the resize
  passes a null array.
\<close>

definition enumerate_with_retry ::
  "(u32 option \<Rightarrow> 's \<Rightarrow> VkResult \<times> u32 \<times> 'a list \<times> 's) \<Rightarrow> string \<Rightarrow> 'a \<Rightarrow> 'a list \<Rightarrow> 's \<Rightarrow>
   (u32 \<times> 'a list \<times> 's) run" where
  "enumerate_with_retry q proc d v s =
     (case q None s of
        (result, count, _, s1) \<Rightarrow>
          if result \<noteq> VK_SUCCESS then die (proc @ '' (count)'') result
          else
            (case do_while_incomplete
                    (\<lambda>(count, v, has_storage, s).
                       let has_storage = has_storage \<or> 0 < unat count in
                       case q (data_pointer has_storage count) s of
                         (result, count', written, s') \<Rightarrow>
                           (result, count', store written (resize v (unat count) d),
                            has_storage, s'))
                    (count, v, v \<noteq> [], s1) of
               None \<Rightarrow> None
             | Some (result, count, v, has_storage, s2) \<Rightarrow>
                 if result \<noteq> VK_SUCCESS then die (proc @ '' (data)'') result
                 else Some (Inr (count, v, s2))))"

text \<open>Forgetting the count variable of a run that returned.\<close>

definition without_count :: "(u32 \<times> 'a list \<times> 's) run \<Rightarrow> ('a list \<times> 's) run" where
  "without_count r =
     (case r of None \<Rightarrow> None | Some (Inl f) \<Rightarrow> Some (Inl f) | Some (Inr (count, v, s)) \<Rightarrow> Some (Inr (v, s)))"

text \<open>One round of the pattern's loop: resize to the count, fetch, keep what was written.\<close>

definition fetch_round ::
  "(u32 option \<Rightarrow> 's \<Rightarrow> VkResult \<times> u32 \<times> 'a list \<times> 's) \<Rightarrow> 'a \<Rightarrow> u32 \<times> 'a list \<times> bool \<times> 's \<Rightarrow>
   VkResult \<times> u32 \<times> 'a list \<times> bool \<times> 's" where
  "fetch_round q d =
     (\<lambda>(count, v, has_storage, s).
        let has_storage = has_storage \<or> 0 < unat count in
        case q (data_pointer has_storage count) s of
          (result, count', written, s') \<Rightarrow>
            (result, count', store written (resize v (unat count) d), has_storage, s'))"

text \<open>
  What the runtime does in the sequence of calls that the loop makes of one entry
  point \<open>q\<close>. \<open>reports_incomplete q k count has_storage s\<close>: from the state \<open>s\<close>,
  with \<open>count\<close> in the count variable and a vector that has storage or not, the
  runtime answers the next \<open>k\<close> calls of the loop with \<^verbatim>\<open>VK_INCOMPLETE\<close>; the result
  is the count that the last of them reported, whether the vector has storage then, and
  the state after it.
\<close>

fun reports_incomplete ::
  "(u32 option \<Rightarrow> 's \<Rightarrow> VkResult \<times> u32 \<times> 'a list \<times> 's) \<Rightarrow> nat \<Rightarrow> u32 \<Rightarrow> bool \<Rightarrow> 's \<Rightarrow>
   (u32 \<times> bool \<times> 's) option" where
  "reports_incomplete q 0 count has_storage s = Some (count, has_storage, s)"
| "reports_incomplete q (Suc k) count has_storage s =
     (case q (data_pointer (has_storage \<or> 0 < unat count) count) s of
        (result, count', written, s') \<Rightarrow>
          if result = VK_INCOMPLETE
          then reports_incomplete q k count' (has_storage \<or> 0 < unat count) s'
          else None)"

text \<open>
  \<open>incomplete_then_success q k has_storage s\<close>: the runtime answers the query of the
  count with success, the next \<open>k\<close> calls of the loop with \<^verbatim>\<open>VK_INCOMPLETE\<close>, and
  the call after them with success. The result is the required count that the runtime
  reported last before that successful call (the count that the call was given), the
  count that the successful call itself reported, and the state in which it leaves the
  runtime.
\<close>

definition incomplete_then_success ::
  "(u32 option \<Rightarrow> 's \<Rightarrow> VkResult \<times> u32 \<times> 'a list \<times> 's) \<Rightarrow> nat \<Rightarrow> bool \<Rightarrow> 's \<Rightarrow>
   (u32 \<times> u32 \<times> 's) option" where
  "incomplete_then_success q k has_storage s =
     (case q None s of
        (result, count0, _, s0) \<Rightarrow>
          if result \<noteq> VK_SUCCESS then None
          else
            (case reports_incomplete q k count0 has_storage s0 of
               None \<Rightarrow> None
             | Some (count, has_storage, s1) \<Rightarrow>
                 (case q (data_pointer (has_storage \<or> 0 < unat count) count) s1 of
                    (result', count', written, s2) \<Rightarrow>
                      if result' = VK_SUCCESS then Some (count, count', s2) else None)))"

section \<open>The layout of the heap section\<close>

text \<open>
  The lines nested under one heap: the line of the heap, then the line of every memory
  type whose heap index is this heap, by rising type index.
\<close>

definition types_of_heap :: "VkPhysicalDeviceMemoryProperties \<Rightarrow> nat \<Rightarrow> nat list" where
  "types_of_heap m heap =
     filter (\<lambda>type. unat (heapIndex (memoryTypes m ! type)) = heap) [0..<unat (memoryTypeCount m)]"

definition heap_block :: "vulkan_h \<Rightarrow> VkPhysicalDeviceMemoryProperties \<Rightarrow> nat \<Rightarrow> string list" where
  "heap_block vk m heap =
     heap_line vk heap (memoryHeaps m ! heap) #
     map (\<lambda>type. type_line vk type (memoryTypes m ! type)) (types_of_heap m heap)"

text \<open>The counts of a memory description stay within its two arrays.\<close>

definition memory_in_bounds :: "VkPhysicalDeviceMemoryProperties \<Rightarrow> bool" where
  "memory_in_bounds m \<longleftrightarrow>
     unat (memoryTypeCount m) \<le> length (memoryTypes m) \<and>
     unat (memoryHeapCount m) \<le> length (memoryHeaps m)"

section \<open>The layout of a layer list\<close>

text \<open>The lines of one layer: its own, then the header and the lines of its extensions.\<close>

definition layer_block :: "string \<Rightarrow> VkLayerProperties \<Rightarrow> VkExtensionProperties list \<Rightarrow> string list" where
  "layer_block prefix l es =
     layer_line prefix l #
     (if es \<noteq> [] then [layer_extensions_header prefix es] else []) @
     map (extension_line (prefix @ ''    '')) es"

section \<open>The pairing of layers and extension lists\<close>

text \<open>
  What a vector holds of the answers of the runtime. \<open>q\<close> is an enumeration entry
  point with every argument but the array and the state, so an entry point for one layer
  name.

  \<open>answered_by q v t'\<close>: a call of \<open>q\<close> that passed the data of \<open>v\<close> (a null
  array if \<open>v\<close> is empty and without storage, an array of as many elements as \<open>v\<close>
  has otherwise) was answered with success and left the runtime in the state \<open>t'\<close>,
  and \<open>v\<close> holds what that answer wrote: in every position that both have, \<open>v\<close> and
  the written elements agree. Where the answer wrote as many elements as \<open>v\<close> has,
  \<open>v\<close> is what was written.

  \<open>written_by q e\<close>: the element \<open>e\<close> is among those that some answer of \<open>q\<close> wrote.
\<close>

definition answered_by ::
  "(u32 option \<Rightarrow> 's \<Rightarrow> VkResult \<times> u32 \<times> 'a list \<times> 's) \<Rightarrow> 'a list \<Rightarrow> 's \<Rightarrow> bool" where
  "answered_by q v t' \<longleftrightarrow>
     (\<exists>array t count written.
        q array t = (VK_SUCCESS, count, written, t') \<and>
        (case array of None \<Rightarrow> v = [] | Some capacity \<Rightarrow> unat capacity = length v) \<and>
        take (length written) v = take (length v) written \<and>
        (length written = length v \<longrightarrow> v = written))"

definition written_by ::
  "(u32 option \<Rightarrow> 's \<Rightarrow> VkResult \<times> u32 \<times> 'a list \<times> 's) \<Rightarrow> 'a \<Rightarrow> bool" where
  "written_by q e \<longleftrightarrow>
     (\<exists>array t result count written t'. q array t = (result, count, written, t') \<and> e \<in> set written)"

text \<open>
  \<open>queried_in_order query q layers' les ss\<close>: the list \<open>les\<close> has one extension
  list for each layer. The extension list at index \<open>i\<close> is what the enumeration
  \<open>query\<close> of the program returned when it was called with the name of the layer at
  index \<open>i\<close>, into an empty vector, in the state \<open>ss ! i\<close> of the runtime; the call
  left the runtime in the state \<open>ss ! (i + 1)\<close>, in which the query for the next layer
  was made. In terms of the entry point \<open>q\<close> of the runtime: that list holds what the
  successful answer of \<open>q\<close> for the name of the layer at index \<open>i\<close> wrote, the answer
  that left the runtime in the state \<open>ss ! (i + 1)\<close>; and each of its elements is one
  that \<open>q\<close> wrote for that name, or a zero-initialised one that \<^verbatim>\<open>resize\<close> created.
\<close>

definition queried_in_order ::
  "(string option \<Rightarrow> VkExtensionProperties list \<Rightarrow> 's \<Rightarrow> (VkExtensionProperties list \<times> 's) run) \<Rightarrow>
   (string option \<Rightarrow> u32 option \<Rightarrow> 's \<Rightarrow> VkResult \<times> u32 \<times> VkExtensionProperties list \<times> 's) \<Rightarrow>
   VkLayerProperties list \<Rightarrow> VkExtensionProperties list list \<Rightarrow> 's list \<Rightarrow> bool" where
  "queried_in_order query q layers' les ss \<longleftrightarrow>
     length les = length layers' \<and> length ss = length layers' + 1 \<and>
     (\<forall>i < length layers'.
        query (Some (layerName (layers' ! i))) [] (ss ! i) = Some (Inr (les ! i, ss ! (i + 1))) \<and>
        answered_by (q (Some (layerName (layers' ! i)))) (les ! i) (ss ! (i + 1)) \<and>
        (\<forall>e \<in> set (les ! i).
           e = VkExtensionProperties_zero \<or> written_by (q (Some (layerName (layers' ! i)))) e))"

text \<open>
  \<open>device_gathered vk rt gpu g t t'\<close>: \<open>g\<close> is what \<^verbatim>\<open>GatherGpuInfo\<close> made of a
  new \<^verbatim>\<open>GpuInfo\<close> for the handle \<open>gpu\<close>, from the state \<open>t\<close> of the runtime to the
  state \<open>t'\<close>. After the four queries of the properties, its layers are those that the
  enumeration of the device layers returned for this handle, then came the extensions of
  the device itself, then those of each layer in the order of the layers.
\<close>

definition device_gathered ::
  "vulkan_h \<Rightarrow> 's vk_runtime \<Rightarrow> VkPhysicalDevice \<Rightarrow> GpuInfo \<Rightarrow> 's \<Rightarrow> 's \<Rightarrow> bool" where
  "device_gathered vk rt gpu g t t' \<longleftrightarrow>
     GatherGpuInfo vk rt gpu (GpuInfo_zero vk) t = Some (Inr (g, t')) \<and>
     (\<exists>te ss.
        GatherGpuInfo_layers rt gpu []
          (snd (GatherGpuInfo_queue_families rt gpu []
             (snd (vkGetPhysicalDeviceFeatures rt gpu
                (snd (vkGetPhysicalDeviceMemoryProperties rt gpu
                   (snd (vkGetPhysicalDeviceProperties rt gpu t)))))))) =
          Some (Inr (GpuInfo.layers g, te)) \<and>
        EnumerateDeviceExtensions rt gpu None [] te = Some (Inr (GpuInfo.extensions g, ss ! 0)) \<and>
        queried_in_order (EnumerateDeviceExtensions rt gpu) (vkEnumerateDeviceExtensionProperties rt gpu)
          (GpuInfo.layers g) (GpuInfo.layer_extensions g) ss)"

text \<open>The lines of a layer list paired with a list of extension lists, index by index.\<close>

definition layer_blocks ::
  "string \<Rightarrow> VkLayerProperties list \<Rightarrow> VkExtensionProperties list list \<Rightarrow> string list" where
  "layer_blocks prefix layers' les =
     concat (map (\<lambda>i. layer_block prefix (layers' ! i) (les ! i)) [0..<length layers'])"

section \<open>The layout of the report of one device\<close>

text \<open>
  The texts that \<^verbatim>\<open>PrintGpuInfo\<close> writes for one device, in order: the line of the
  device, the blocks of the heaps, the queue families, the extensions under their
  header, the layers under theirs.
\<close>

definition device_report :: "vulkan_h \<Rightarrow> GpuInfo \<Rightarrow> string list" where
  "device_report vk info =
     [gpu_line (properties info)] @
     concat (map (heap_block vk (memory info)) [0..<unat (memoryHeapCount (memory info))]) @
     map (\<lambda>family. queue_family_line vk family (queue_families info ! family))
       [0..<length (queue_families info)] @
     (if GpuInfo.extensions info \<noteq> []
      then (''    Extensions ['' @ fmt_u (length (GpuInfo.extensions info)) @ '']:'' @ newline) #
           map (extension_line ''      '') (GpuInfo.extensions info)
      else []) @
     (if GpuInfo.layers info \<noteq> []
      then (''    Layers ['' @ fmt_u (length (GpuInfo.layers info)) @ '']:'' @ newline) #
           layer_blocks ''      '' (GpuInfo.layers info) (GpuInfo.layer_extensions info)
      else [])"

section \<open>The layout of the whole report\<close>

text \<open>
  The texts that \<^verbatim>\<open>PrintInfo\<close> writes, in order: the instance extensions under
  their header, the instance layers under theirs, each with its extensions, the header
  of the physical devices, and the report of each device.
\<close>

definition vulkan_report :: "vulkan_h \<Rightarrow> VulkanInfo \<Rightarrow> string list" where
  "vulkan_report vk info =
     [''Instance Extensions ['' @ fmt_u (length (VulkanInfo.extensions info)) @ '']:'' @ newline] @
     map (extension_line ''  '') (VulkanInfo.extensions info) @
     (if VulkanInfo.layers info \<noteq> []
      then (''Instance Layers ['' @ fmt_u (length (VulkanInfo.layers info)) @ '']:'' @ newline) #
           layer_blocks ''  '' (VulkanInfo.layers info) (VulkanInfo.layer_extensions info)
      else []) @
     [''PhysicalDevices ['' @ fmt_u (length (gpus info)) @ '']:'' @ newline] @
     concat (map (device_report vk) (gpus info))"

section \<open>Runtimes to run the program against\<close>

subsection \<open>The constants of the Vulkan 1.0 header\<close>

definition VkResult_value_1_0 :: "VkResult \<Rightarrow> int" where
  "VkResult_value_1_0 result =
     (case result of
        VK_SUCCESS \<Rightarrow> 0
      | VK_NOT_READY \<Rightarrow> 1
      | VK_TIMEOUT \<Rightarrow> 2
      | VK_EVENT_SET \<Rightarrow> 3
      | VK_EVENT_RESET \<Rightarrow> 4
      | VK_INCOMPLETE \<Rightarrow> 5
      | VK_ERROR_OUT_OF_HOST_MEMORY \<Rightarrow> - 1
      | VK_ERROR_OUT_OF_DEVICE_MEMORY \<Rightarrow> - 2
      | VK_ERROR_INITIALIZATION_FAILED \<Rightarrow> - 3
      | VK_ERROR_DEVICE_LOST \<Rightarrow> - 4
      | VK_ERROR_MEMORY_MAP_FAILED \<Rightarrow> - 5
      | VK_ERROR_LAYER_NOT_PRESENT \<Rightarrow> - 6
      | VK_ERROR_EXTENSION_NOT_PRESENT \<Rightarrow> - 7
      | VK_ERROR_INCOMPATIBLE_DRIVER \<Rightarrow> - 9
      | VkResult_unlisted v \<Rightarrow> v)"

definition VkQueueFlagBits_value_1_0 :: "VkQueueFlagBits \<Rightarrow> u32" where
  "VkQueueFlagBits_value_1_0 b =
     (case b of
        VK_QUEUE_GRAPHICS_BIT \<Rightarrow> 1
      | VK_QUEUE_COMPUTE_BIT \<Rightarrow> 2
      | VK_QUEUE_TRANSFER_BIT \<Rightarrow> 4
      | VK_QUEUE_SPARSE_BINDING_BIT \<Rightarrow> 8
      | VkQueueFlagBits_unlisted v \<Rightarrow> v)"

definition vulkan_1_0 :: vulkan_h where
  "vulkan_1_0 =
     \<lparr>VkResult_value = VkResult_value_1_0,
      VK_MEMORY_HEAP_DEVICE_LOCAL_BIT = 1,
      VK_MEMORY_PROPERTY_DEVICE_LOCAL_BIT = 1,
      VK_MEMORY_PROPERTY_HOST_VISIBLE_BIT = 2,
      VK_MEMORY_PROPERTY_HOST_COHERENT_BIT = 4,
      VK_MEMORY_PROPERTY_HOST_CACHED_BIT = 8,
      VK_MEMORY_PROPERTY_LAZILY_ALLOCATED_BIT = 16,
      VkQueueFlagBits_value = VkQueueFlagBits_value_1_0,
      VK_KHR_SWAPCHAIN_EXTENSION_NAME = ''VK_KHR_swapchain'',
      VK_EXT_DEBUG_REPORT_EXTENSION_NAME = ''VK_EXT_debug_report'',
      VkPhysicalDeviceType_zero = VK_PHYSICAL_DEVICE_TYPE_OTHER,
      VK_MAX_MEMORY_TYPES = 32,
      VK_MAX_MEMORY_HEAPS = 16,
      VkPhysicalDeviceFeatures_zero = replicate 55 0\<rparr>"

subsection \<open>A runtime that describes a fixed system\<close>

text \<open>
  A runtime without state that answers as the Vulkan interface prescribes: a query of
  the count returns the number of elements; a fetch into an array that holds them all
  returns them with success; a fetch into a shorter array fills it and returns
  \<^verbatim>\<open>VK_INCOMPLETE\<close>.
\<close>

definition enumerate_fixed :: "'a list \<Rightarrow> u32 option \<Rightarrow> unit \<Rightarrow> VkResult \<times> u32 \<times> 'a list \<times> unit" where
  "enumerate_fixed xs capacity s =
     (case capacity of
        None \<Rightarrow> (VK_SUCCESS, of_nat (length xs), [], s)
      | Some c \<Rightarrow>
          if unat c < length xs then (VK_INCOMPLETE, c, take (unat c) xs, s)
          else (VK_SUCCESS, of_nat (length xs), xs, s))"

record device_description =
  dev_properties :: VkPhysicalDeviceProperties
  dev_memory :: VkPhysicalDeviceMemoryProperties
  dev_features :: VkPhysicalDeviceFeatures
  dev_queue_families :: "VkQueueFamilyProperties list"
  dev_extensions :: "string option \<Rightarrow> VkExtensionProperties list"
  dev_layers :: "VkLayerProperties list"

record system_description =
  sys_extensions :: "string option \<Rightarrow> VkExtensionProperties list"
  sys_layers :: "VkLayerProperties list"
  sys_devices :: "device_description list"

text \<open>The handle of the device at position \<open>i\<close> is \<open>i + 1\<close>.\<close>

definition device_of :: "system_description \<Rightarrow> VkPhysicalDevice \<Rightarrow> device_description" where
  "device_of sys gpu = sys_devices sys ! (gpu - 1)"

definition fixed_runtime :: "system_description \<Rightarrow> unit vk_runtime" where
  "fixed_runtime sys =
     \<lparr>vkEnumerateInstanceExtensionProperties = (\<lambda>layer_name. enumerate_fixed (sys_extensions sys layer_name)),
      vkEnumerateDeviceExtensionProperties =
        (\<lambda>gpu layer_name. enumerate_fixed (dev_extensions (device_of sys gpu) layer_name)),
      vkEnumerateInstanceLayerProperties = enumerate_fixed (sys_layers sys),
      vkEnumerateDeviceLayerProperties = (\<lambda>gpu. enumerate_fixed (dev_layers (device_of sys gpu))),
      vkEnumeratePhysicalDevices = (\<lambda>instance'. enumerate_fixed (map Suc [0..<length (sys_devices sys)])),
      vkGetPhysicalDeviceProperties = (\<lambda>gpu s. (dev_properties (device_of sys gpu), s)),
      vkGetPhysicalDeviceMemoryProperties = (\<lambda>gpu s. (dev_memory (device_of sys gpu), s)),
      vkGetPhysicalDeviceFeatures = (\<lambda>gpu s. (dev_features (device_of sys gpu), s)),
      vkGetPhysicalDeviceQueueFamilyProperties =
        (\<lambda>gpu capacity s.
           case enumerate_fixed (dev_queue_families (device_of sys gpu)) capacity s of
             (result, count, written, s') \<Rightarrow> (count, written, s')),
      vkCreateInstance = (\<lambda>create_info s. (VK_SUCCESS, 1, s)),
      vkDestroyInstance = (\<lambda>instance' s. s),
      vkCreateDevice = (\<lambda>gpu create_info s. (VK_SUCCESS, 1, s)),
      vkDestroyDevice = (\<lambda>device s. s)\<rparr>"

text \<open>
  The system of the end-to-end scenario: no instance extension, no layer, one device
  with one device-local heap of 268435456 bytes, one memory type on heap 0 that is
  device-local and host-visible, and one queue family for graphics and compute.
\<close>

definition scenario_device :: device_description where
  "scenario_device =
     \<lparr>dev_properties =
        \<lparr>apiVersion = pack_version 1 0 3, driverVersion = 1, vendorID = 0x10DE, deviceID = 0x92,
         deviceType = VK_PHYSICAL_DEVICE_TYPE_INTEGRATED_GPU, deviceName = ''gpu''\<rparr>,
      dev_memory =
        \<lparr>memoryTypeCount = 1,
         memoryTypes = \<lparr>propertyFlags = 3, heapIndex = 0\<rparr> # replicate 31 \<lparr>propertyFlags = 0, heapIndex = 0\<rparr>,
         memoryHeapCount = 1,
         memoryHeaps = \<lparr>size' = 268435456, flags = 1\<rparr> # replicate 15 \<lparr>size' = 0, flags = 0\<rparr>\<rparr>,
      dev_features = replicate 55 0,
      dev_queue_families =
        [\<lparr>queueFlags = 3, queueCount = 1, timestampValidBits = 36,
          minImageTransferGranularity = \<lparr>width = 1, height = 1, depth = 1\<rparr>\<rparr>],
      dev_extensions = (\<lambda>layer_name. []),
      dev_layers = []\<rparr>"

definition scenario :: system_description where
  "scenario = \<lparr>sys_extensions = (\<lambda>layer_name. []), sys_layers = [], sys_devices = [scenario_device]\<rparr>"

text \<open>
  A system with two instance layers and a device with two layers, each layer with
  extensions of its own.
\<close>

definition ext :: "string \<Rightarrow> nat \<Rightarrow> VkExtensionProperties" where
  "ext name v = \<lparr>extensionName = name, specVersion = of_nat v\<rparr>"

definition layer :: "string \<Rightarrow> VkLayerProperties" where
  "layer name = \<lparr>layerName = name, specVersion = pack_version 1 0 3, implementationVersion = 1,
                 description = ''a layer''\<rparr>"

definition layered_device :: device_description where
  "layered_device =
     scenario_device
       \<lparr>dev_extensions :=
          (\<lambda>layer_name.
             if layer_name = None then [ext ''VK_KHR_swapchain'' 68]
             else if layer_name = Some ''L1'' then [ext ''d1'' 1]
             else if layer_name = Some ''L2'' then [ext ''d2a'' 1, ext ''d2b'' 2]
             else []),
        dev_layers := [layer ''L1'', layer ''L2'']\<rparr>"

definition layered :: system_description where
  "layered =
     \<lparr>sys_extensions =
        (\<lambda>layer_name.
           if layer_name = None then [ext ''VK_KHR_surface'' 25]
           else if layer_name = Some ''A'' then [ext ''a1'' 1, ext ''a2'' 2]
           else if layer_name = Some ''B'' then [ext ''b1'' 7]
           else []),
      sys_layers = [layer ''A'', layer ''B''],
      sys_devices = [layered_device]\<rparr>"

text \<open>
  The system of the scenario behind a runtime that rejects an array when there is no
  instance layer to write: it answers a null array with the count 0 and any other array
  with \<^verbatim>\<open>VK_ERROR_DEVICE_LOST\<close>.
\<close>

definition no_layer_runtime :: "unit vk_runtime" where
  "no_layer_runtime =
     (fixed_runtime scenario)
       \<lparr>vkEnumerateInstanceLayerProperties :=
          (\<lambda>capacity s.
             case capacity of
               None \<Rightarrow> (VK_SUCCESS, 0, [], s)
             | Some c \<Rightarrow> (VK_ERROR_DEVICE_LOST, c, [], s))\<rparr>"

subsection \<open>A runtime that follows a script\<close>

text \<open>
  A runtime whose state is, for each enumeration entry point, the answers it will give
  to the calls still to come, whatever their arguments: the result, the value left in
  the count variable, and the elements written. An entry point whose script is used up
  reports success and no element.
\<close>

record script =
  instance_extension_script :: "(VkResult \<times> u32 \<times> VkExtensionProperties list) list"
  device_extension_script :: "(VkResult \<times> u32 \<times> VkExtensionProperties list) list"
  instance_layer_script :: "(VkResult \<times> u32 \<times> VkLayerProperties list) list"
  device_layer_script :: "(VkResult \<times> u32 \<times> VkLayerProperties list) list"
  physical_device_script :: "(VkResult \<times> u32 \<times> VkPhysicalDevice list) list"
  queue_family_script :: "(u32 \<times> VkQueueFamilyProperties list) list"

definition next_answer :: "(VkResult \<times> u32 \<times> 'a list) list \<Rightarrow> (VkResult \<times> u32 \<times> 'a list)" where
  "next_answer answers = (case answers of [] \<Rightarrow> (VK_SUCCESS, 0, []) | a # _ \<Rightarrow> a)"

definition scripted_runtime :: "script vk_runtime" where
  "scripted_runtime =
     \<lparr>vkEnumerateInstanceExtensionProperties =
        (\<lambda>layer_name capacity s.
           case next_answer (instance_extension_script s) of
             (result, count, written) \<Rightarrow>
               (result, count, written,
                s\<lparr>instance_extension_script := tl (instance_extension_script s)\<rparr>)),
      vkEnumerateDeviceExtensionProperties =
        (\<lambda>gpu layer_name capacity s.
           case next_answer (device_extension_script s) of
             (result, count, written) \<Rightarrow>
               (result, count, written,
                s\<lparr>device_extension_script := tl (device_extension_script s)\<rparr>)),
      vkEnumerateInstanceLayerProperties =
        (\<lambda>capacity s.
           case next_answer (instance_layer_script s) of
             (result, count, written) \<Rightarrow>
               (result, count, written, s\<lparr>instance_layer_script := tl (instance_layer_script s)\<rparr>)),
      vkEnumerateDeviceLayerProperties =
        (\<lambda>gpu capacity s.
           case next_answer (device_layer_script s) of
             (result, count, written) \<Rightarrow>
               (result, count, written, s\<lparr>device_layer_script := tl (device_layer_script s)\<rparr>)),
      vkEnumeratePhysicalDevices =
        (\<lambda>instance' capacity s.
           case next_answer (physical_device_script s) of
             (result, count, written) \<Rightarrow>
               (result, count, written, s\<lparr>physical_device_script := tl (physical_device_script s)\<rparr>)),
      vkGetPhysicalDeviceProperties = (\<lambda>gpu s. (dev_properties scenario_device, s)),
      vkGetPhysicalDeviceMemoryProperties = (\<lambda>gpu s. (dev_memory scenario_device, s)),
      vkGetPhysicalDeviceFeatures = (\<lambda>gpu s. (dev_features scenario_device, s)),
      vkGetPhysicalDeviceQueueFamilyProperties =
        (\<lambda>gpu capacity s.
           case queue_family_script s of
             [] \<Rightarrow> (0, [], s)
           | (count, written) # rest \<Rightarrow> (count, written, s\<lparr>queue_family_script := rest\<rparr>)),
      vkCreateInstance = (\<lambda>create_info s. (VK_SUCCESS, 1, s)),
      vkDestroyInstance = (\<lambda>instance' s. s),
      vkCreateDevice = (\<lambda>gpu create_info s. (VK_SUCCESS, 1, s)),
      vkDestroyDevice = (\<lambda>device s. s)\<rparr>"

definition no_script :: script where
  "no_script =
     \<lparr>instance_extension_script = [], device_extension_script = [], instance_layer_script = [],
      device_layer_script = [], physical_device_script = [], queue_family_script = []\<rparr>"

text \<open>
  A script in which every enumeration entry point reports one element to the query of
  the count, then \<^verbatim>\<open>VK_INCOMPLETE\<close> with a required count of two, then success.
  The queue families have no result to report: the script answers the query of the
  count with one family and every later call with two.
\<close>

definition graphics_family :: VkQueueFamilyProperties where
  "graphics_family =
     \<lparr>queueFlags = 1, queueCount = 1, timestampValidBits = 36,
      minImageTransferGranularity = \<lparr>width = 1, height = 1, depth = 1\<rparr>\<rparr>"

definition transfer_family :: VkQueueFamilyProperties where
  "transfer_family =
     \<lparr>queueFlags = 4, queueCount = 2, timestampValidBits = 0,
      minImageTransferGranularity = \<lparr>width = 1, height = 1, depth = 1\<rparr>\<rparr>"

definition retry_script :: script where
  "retry_script =
     \<lparr>instance_extension_script =
        [(VK_SUCCESS, 1, []), (VK_INCOMPLETE, 2, [ext ''a'' 1]), (VK_SUCCESS, 2, [ext ''a'' 1, ext ''b'' 1])],
      device_extension_script =
        [(VK_SUCCESS, 1, []), (VK_INCOMPLETE, 2, [ext ''c'' 1]), (VK_SUCCESS, 2, [ext ''c'' 1, ext ''d'' 1])],
      instance_layer_script =
        [(VK_SUCCESS, 1, []), (VK_INCOMPLETE, 2, [layer ''A'']), (VK_SUCCESS, 2, [layer ''A'', layer ''B''])],
      device_layer_script =
        [(VK_SUCCESS, 1, []), (VK_INCOMPLETE, 2, [layer ''L1'']),
         (VK_SUCCESS, 2, [layer ''L1'', layer ''L2''])],
      physical_device_script =
        [(VK_SUCCESS, 1, []), (VK_INCOMPLETE, 2, [1]), (VK_SUCCESS, 2, [1, 2])],
      queue_family_script =
        [(1, []), (2, [graphics_family]), (2, [graphics_family, transfer_family])]\<rparr>"

text \<open>
  A script in which the successful fetch reports fewer elements than the count it was
  given: one element to the query of the count, then \<^verbatim>\<open>VK_INCOMPLETE\<close> with a
  required count of three, then success with two elements and a count of two.
\<close>

definition shrinking_script :: script where
  "shrinking_script =
     no_script
       \<lparr>instance_extension_script :=
          [(VK_SUCCESS, 1, []), (VK_INCOMPLETE, 3, [ext ''a'' 1]),
           (VK_SUCCESS, 2, [ext ''a'' 1, ext ''b'' 1])],
        physical_device_script :=
          [(VK_SUCCESS, 1, []), (VK_INCOMPLETE, 3, [1]), (VK_SUCCESS, 2, [1, 2])]\<rparr>"

text \<open>
  A script with one instance layer and no device. The instance has no extension of its
  own: the query of the count and the call with the null array that follows it report
  none. For the layer the runtime reports three extensions to the query of the count
  and then, one extension having gone in between, success with two extensions to the
  fetch.
\<close>

definition phantom_script :: script where
  "phantom_script =
     no_script
       \<lparr>instance_extension_script :=
          [(VK_SUCCESS, 0, []), (VK_SUCCESS, 0, []),
           (VK_SUCCESS, 3, []), (VK_SUCCESS, 2, [ext ''a'' 1, ext ''b'' 1])],
        instance_layer_script := [(VK_SUCCESS, 1, []), (VK_SUCCESS, 1, [layer ''A''])]\<rparr>"

text \<open>
  A script for a failing start: no instance layer, and the first query of the number
  of instance extensions fails.
\<close>

definition failing_script :: script where
  "failing_script = no_script\<lparr>instance_extension_script := [(VK_ERROR_INITIALIZATION_FAILED, 0, [])]\<rparr>"

subsection \<open>Sample data\<close>

text \<open>
  A memory description whose types name their heaps out of order and with gaps: type 0
  is on heap 2, type 1 on heap 0, no type is on heap 1, and type 2 names heap 5, which
  is not among the three heaps.
\<close>

definition scattered_memory :: VkPhysicalDeviceMemoryProperties where
  "scattered_memory =
     \<lparr>memoryTypeCount = 3,
      memoryTypes =
        [\<lparr>propertyFlags = 1, heapIndex = 2\<rparr>, \<lparr>propertyFlags = 6, heapIndex = 0\<rparr>,
         \<lparr>propertyFlags = 0, heapIndex = 5\<rparr>] @ replicate 29 \<lparr>propertyFlags = 0, heapIndex = 0\<rparr>,
      memoryHeapCount = 3,
      memoryHeaps =
        [\<lparr>size' = 0x1000000, flags = 0\<rparr>, \<lparr>size' = 0x2000000, flags = 0\<rparr>,
         \<lparr>size' = 0x4000000, flags = 1\<rparr>] @ replicate 13 \<lparr>size' = 0, flags = 0\<rparr>\<rparr>"

text \<open>A device with that memory, one queue family, one extension and one layer.\<close>

definition scattered_gpu :: GpuInfo where
  "scattered_gpu =
     \<lparr>properties = dev_properties scenario_device,
      memory = scattered_memory,
      features = dev_features scenario_device,
      queue_families = dev_queue_families scenario_device,
      extensions = [ext ''VK_KHR_swapchain'' 68],
      layers = [layer ''L1''],
      layer_extensions = [[ext ''d1'' 1]]\<rparr>"

text \<open>The snapshot that the gatherer builds of the system \<open>layered\<close>.\<close>

definition layered_snapshot :: VulkanInfo where
  "layered_snapshot =
     \<lparr>extensions = [ext ''VK_KHR_surface'' 25],
      layers = [layer ''A'', layer ''B''],
      layer_extensions = [[ext ''a1'' 1, ext ''a2'' 2], [ext ''b1'' 7]],
      gpus =
        [\<lparr>properties = dev_properties scenario_device,
          memory = dev_memory scenario_device,
          features = dev_features scenario_device,
          queue_families = dev_queue_families scenario_device,
          extensions = [ext ''VK_KHR_swapchain'' 68],
          layers = [layer ''L1'', layer ''L2''],
          layer_extensions = [[ext ''d1'' 1], [ext ''d2a'' 1, ext ''d2b'' 2]]\<rparr>]\<rparr>"

section \<open>Version words: packing and unpacking\<close>

lemma high_bits_clear: "(w::u32) < 2 ^ n \<Longrightarrow> n \<le> k \<Longrightarrow> \<not> bit w k"
  by (metis bit_take_bit_iff less_mask_eq not_le take_bit_eq_mask)

lemma mask_10: "(0x3FF::u32) = mask 10"
  by (simp add: mask_eq_exp_minus_1)

lemma mask_12: "(0xFFF::u32) = mask 12"
  by (simp add: mask_eq_exp_minus_1)

lemma extract_major_pack:
  assumes "major < 2 ^ 10" "minor < 2 ^ 10" "patch < 2 ^ 12"
  shows "ExtractMajorVersion (pack_version major minor patch) = major"
  unfolding ExtractMajorVersion_def pack_version_def mask_10
proof (rule bit_word_eqI)
  fix n assume "n < LENGTH(32)"
  then have n: "n < 32" by simp
  have a: "bit major n \<Longrightarrow> n < 10" using assms(1) high_bits_clear by (meson not_le)
  have b: "\<not> bit minor (10 + n)" using assms(2) high_bits_clear[of minor 10 "10 + n"] by simp
  have c: "\<not> bit patch (22 + n)" using assms(3) high_bits_clear[of patch 12 "22 + n"] by simp
  show "bit (drop_bit 22 (push_bit 22 major OR push_bit 12 minor OR patch) AND mask 10) n = bit major n"
    using n a b c by (auto simp add: bit_simps)
qed

lemma extract_minor_pack:
  assumes "major < 2 ^ 10" "minor < 2 ^ 10" "patch < 2 ^ 12"
  shows "ExtractMinorVersion (pack_version major minor patch) = minor"
  unfolding ExtractMinorVersion_def pack_version_def mask_10
proof (rule bit_word_eqI)
  fix n assume "n < LENGTH(32)"
  then have n: "n < 32" by simp
  have b: "bit minor n \<Longrightarrow> n < 10" using assms(2) high_bits_clear by (meson not_le)
  have c: "\<not> bit patch (12 + n)" using assms(3) high_bits_clear[of patch 12 "12 + n"] by simp
  show "bit (drop_bit 12 (push_bit 22 major OR push_bit 12 minor OR patch) AND mask 10) n = bit minor n"
    using n b c by (auto simp add: bit_simps)
qed

lemma extract_patch_pack:
  assumes "major < 2 ^ 10" "minor < 2 ^ 10" "patch < 2 ^ 12"
  shows "ExtractPatchVersion (pack_version major minor patch) = patch"
  unfolding ExtractPatchVersion_def pack_version_def mask_12
proof (rule bit_word_eqI)
  fix n assume "n < LENGTH(32)"
  then have n: "n < 32" by simp
  have c: "bit patch n \<Longrightarrow> n < 12" using assms(3) high_bits_clear by (meson not_le)
  show "bit (drop_bit 0 (push_bit 22 major OR push_bit 12 minor OR patch) AND mask 12) n = bit patch n"
    using n c by (auto simp add: bit_simps)
qed

text \<open>
  Claim C4. For every triple with \<open>major < 2^10\<close>, \<open>minor < 2^10\<close> and
  \<open>patch < 2^12\<close>, packing the triple into one 32-bit version word and applying the
  three extractors gives the triple back. The witness takes the boundary values: 0 and
  the largest value of each field.
\<close>

theorem version_roundtrip:
  assumes "major < 2 ^ 10" and "minor < 2 ^ 10" and "patch < 2 ^ 12"
  shows "(ExtractMajorVersion (pack_version major minor patch),
          ExtractMinorVersion (pack_version major minor patch),
          ExtractPatchVersion (pack_version major minor patch)) = (major, minor, patch)"
  using assms by (simp add: extract_major_pack extract_minor_pack extract_patch_pack)

theorem version_roundtrip_witness:
  "(0::u32) < 2 ^ 10 \<and> (1023::u32) < 2 ^ 10 \<and> (4095::u32) < 2 ^ 12 \<and>
   (ExtractMajorVersion (pack_version 0 1023 4095),
    ExtractMinorVersion (pack_version 0 1023 4095),
    ExtractPatchVersion (pack_version 0 1023 4095)) = (0, 1023, 4095) \<and>
   (ExtractMajorVersion (pack_version 1023 0 0),
    ExtractMinorVersion (pack_version 1023 0 0),
    ExtractPatchVersion (pack_version 1023 0 0)) = (1023, 0, 0)"
  using version_roundtrip [of 0 1023 4095] version_roundtrip [of 1023 0 0] by simp

section \<open>Label lookups\<close>

text \<open>
  Claim C8. Each of the five known device types and each of the four known queue flag
  bits is mapped to its fixed label, and a device type outside the known set is mapped
  to the placeholder \<^verbatim>\<open><UNKNOWN>\<close>; the lookup of a device type is a total function
  returning a string, so it does not fail.
\<close>

theorem label_lookup:
  "VkPhysicalDeviceTypeStr VK_PHYSICAL_DEVICE_TYPE_OTHER = ''OTHER'' \<and>
   VkPhysicalDeviceTypeStr VK_PHYSICAL_DEVICE_TYPE_INTEGRATED_GPU = ''INTEGRATED_GPU'' \<and>
   VkPhysicalDeviceTypeStr VK_PHYSICAL_DEVICE_TYPE_DISCRETE_GPU = ''DISCRETE_GPU'' \<and>
   VkPhysicalDeviceTypeStr VK_PHYSICAL_DEVICE_TYPE_VIRTUAL_GPU = ''VIRTUAL_GPU'' \<and>
   VkPhysicalDeviceTypeStr VK_PHYSICAL_DEVICE_TYPE_CPU = ''CPU'' \<and>
   VkQueueFlagBitStr VK_QUEUE_GRAPHICS_BIT = Some ''GRAPHICS'' \<and>
   VkQueueFlagBitStr VK_QUEUE_COMPUTE_BIT = Some ''COMPUTE'' \<and>
   VkQueueFlagBitStr VK_QUEUE_TRANSFER_BIT = Some ''TRANSFER'' \<and>
   VkQueueFlagBitStr VK_QUEUE_SPARSE_BINDING_BIT = Some ''SPARSE'' \<and>
   VkPhysicalDeviceTypeStr (VkPhysicalDeviceType_unlisted v) = ''<UNKNOWN>''"
  by (simp add: VkPhysicalDeviceTypeStr_def VkQueueFlagBitStr_def)

text \<open>
  Claim C9. For a queue flag bit outside the four known ones the lookup has no defined
  result: no branch of the switch is taken and the function ends without a return
  value, whatever the value of the bit. No placeholder is returned.
\<close>

theorem queue_flag_unlisted_undefined:
  "VkQueueFlagBitStr (VkQueueFlagBits_unlisted v) = None"
  by (simp add: VkQueueFlagBitStr_def)

section \<open>The retry loop\<close>

lemma length_resize: "length (resize v n d) = n"
  by (simp add: resize_def)

lemma length_store: "length (store written v) = length v"
  by (simp add: store_def)

lemma resize_replicate: "resize (replicate n d) n d = resize [] n d"
  by (simp add: resize_def)

lemma do_while_stop:
  "body st = (result, st') \<Longrightarrow> result \<noteq> VK_INCOMPLETE \<Longrightarrow>
   do_while_incomplete body st = Some (result, st')"
  by (subst do_while_incomplete.simps) simp

lemma do_while_again:
  "body st = (VK_INCOMPLETE, st') \<Longrightarrow> do_while_incomplete body st = do_while_incomplete body st'"
  by (subst do_while_incomplete.simps) simp

lemma do_while_same_first_round:
  "body st1 = body st2 \<Longrightarrow> do_while_incomplete body st1 = do_while_incomplete body st2"
  by (subst do_while_incomplete.simps, subst (2) do_while_incomplete.simps) simp

lemma fetch_round_apply:
  "fetch_round q d (count, v, has_storage, s) =
     (case q (data_pointer (has_storage \<or> 0 < unat count) count) s of
        (result, count', written, s') \<Rightarrow>
          (result, count', store written (resize v (unat count) d), has_storage \<or> 0 < unat count, s'))"
  by (simp add: fetch_round_def Let_def)

lemma incomplete_rounds:
  "reports_incomplete q k count has_storage s = Some (count1, has_storage1, s1) \<Longrightarrow>
   \<exists>v1. do_while_incomplete (fetch_round q d) (count, v, has_storage, s) =
         do_while_incomplete (fetch_round q d) (count1, v1, has_storage1, s1)"
proof (induction k arbitrary: count v has_storage s)
  case 0
  then show ?case by auto
next
  case (Suc k)
  let ?h = "has_storage \<or> 0 < unat count"
  obtain result count' written s' where
    q: "q (data_pointer ?h count) s = (result, count', written, s')"
    by (cases "q (data_pointer ?h count) s") auto
  with Suc.prems have inc: "result = VK_INCOMPLETE"
    and rest: "reports_incomplete q k count' ?h s' = Some (count1, has_storage1, s1)"
    by (auto split: if_splits)
  let ?v = "store written (resize v (unat count) d)"
  have "do_while_incomplete (fetch_round q d) (count, v, has_storage, s) =
        do_while_incomplete (fetch_round q d) (count', ?v, ?h, s')"
    by (rule do_while_again) (simp add: fetch_round_apply q inc)
  moreover obtain v1 where
    "do_while_incomplete (fetch_round q d) (count', ?v, ?h, s') =
     do_while_incomplete (fetch_round q d) (count1, v1, has_storage1, s1)"
    using Suc.IH [OF rest] by blast
  ultimately show ?case by auto
qed

lemma enumerate_with_retry_unfold:
  "enumerate_with_retry q proc d v s =
     (case q None s of
        (result, count, _, s1) \<Rightarrow>
          if result \<noteq> VK_SUCCESS then die (proc @ '' (count)'') result
          else
            (case do_while_incomplete (fetch_round q d) (count, v, v \<noteq> [], s1) of
               None \<Rightarrow> None
             | Some (result, count, v, has_storage, s2) \<Rightarrow>
                 if result \<noteq> VK_SUCCESS then die (proc @ '' (data)'') result
                 else Some (Inr (count, v, s2))))"
  unfolding enumerate_with_retry_def fetch_round_def ..

lemma enumerate_with_retry_success:
  assumes "incomplete_then_success q k (v \<noteq> []) s = Some (count, count', s2)"
  shows "\<exists>v'. enumerate_with_retry q proc d v s = Some (Inr (count', v', s2)) \<and>
              length v' = unat count"
proof -
  obtain result count0 w0 s0 where q0: "q None s = (result, count0, w0, s0)"
    by (cases "q None s") auto
  with assms have r: "result = VK_SUCCESS"
    by (auto simp: incomplete_then_success_def split: if_splits)
  from assms q0 r obtain h1 s1 where
    inc: "reports_incomplete q k count0 (v \<noteq> []) s0 = Some (count, h1, s1)"
    and fin: "fst (q (data_pointer (h1 \<or> 0 < unat count) count) s1) = VK_SUCCESS"
      "fst (snd (q (data_pointer (h1 \<or> 0 < unat count) count) s1)) = count'"
      "snd (snd (snd (q (data_pointer (h1 \<or> 0 < unat count) count) s1))) = s2"
    by (auto simp: incomplete_then_success_def split: if_splits option.splits prod.splits)
  obtain written where
    q1: "q (data_pointer (h1 \<or> 0 < unat count) count) s1 = (VK_SUCCESS, count', written, s2)"
    using fin by (cases "q (data_pointer (h1 \<or> 0 < unat count) count) s1") auto
  obtain v1 where
    "do_while_incomplete (fetch_round q d) (count0, v, v \<noteq> [], s0) =
     do_while_incomplete (fetch_round q d) (count, v1, h1, s1)"
    using incomplete_rounds [OF inc] by blast
  moreover have "do_while_incomplete (fetch_round q d) (count, v1, h1, s1) =
       Some (VK_SUCCESS, count', store written (resize v1 (unat count) d),
             h1 \<or> 0 < unat count, s2)"
    by (rule do_while_stop) (simp_all add: fetch_round_apply q1)
  ultimately show ?thesis
    by (simp add: enumerate_with_retry_unfold q0 r length_store length_resize)
qed

lemma EnumerateInstanceExtensions_pattern:
  "EnumerateInstanceExtensions rt layer_name v s =
   without_count (enumerate_with_retry (vkEnumerateInstanceExtensionProperties rt layer_name)
     ''vkEnumerateInstanceExtensionProperties'' VkExtensionProperties_zero v s)"
  by (simp add: EnumerateInstanceExtensions_def enumerate_with_retry_def without_count_def die_def
      split: prod.splits option.splits)

lemma EnumerateDeviceExtensions_pattern:
  "EnumerateDeviceExtensions rt gpu layer_name v s =
   without_count (enumerate_with_retry (vkEnumerateDeviceExtensionProperties rt gpu layer_name)
     ''vkEnumerateDeviceExtensionProperties'' VkExtensionProperties_zero v s)"
  by (simp add: EnumerateDeviceExtensions_def enumerate_with_retry_def without_count_def die_def
      split: prod.splits option.splits)

lemma GatherInfo_layers_pattern:
  "GatherInfo_layers rt v s =
   without_count (enumerate_with_retry (vkEnumerateInstanceLayerProperties rt)
     ''vkEnumerateInstanceLayerProperties'' VkLayerProperties_zero v s)"
  by (simp add: GatherInfo_layers_def enumerate_with_retry_def without_count_def die_def
      split: prod.splits option.splits)

lemma GatherGpuInfo_layers_pattern:
  "GatherGpuInfo_layers rt gpu v s =
   without_count (enumerate_with_retry (vkEnumerateDeviceLayerProperties rt gpu)
     ''vkEnumerateDeviceLayerProperties'' VkLayerProperties_zero v s)"
  by (simp add: GatherGpuInfo_layers_def enumerate_with_retry_def without_count_def die_def
      split: prod.splits option.splits)

text \<open>
  The vector \<^verbatim>\<open>gpus\<close> is constructed with \<^verbatim>\<open>num_gpus\<close> null handles and resized
  to \<^verbatim>\<open>num_gpus\<close> again in the first round: the first round, and so the whole loop,
  is that of the pattern from an empty vector.
\<close>

lemma GatherInfo_physical_devices_pattern:
  "GatherInfo_physical_devices rt instance' s =
   enumerate_with_retry (vkEnumeratePhysicalDevices rt instance')
     ''vkEnumeratePhysicalDevices'' VK_NULL_HANDLE [] s"
proof -
  have "do_while_incomplete (fetch_round (vkEnumeratePhysicalDevices rt instance') VK_NULL_HANDLE)
          (n, replicate (unat n) VK_NULL_HANDLE, replicate (unat n) VK_NULL_HANDLE \<noteq> [], s1) =
        do_while_incomplete (fetch_round (vkEnumeratePhysicalDevices rt instance') VK_NULL_HANDLE)
          (n, [], [] \<noteq> [], s1)" for n s1
    by (rule do_while_same_first_round) (simp add: fetch_round_apply resize_replicate)
  then show ?thesis
    by (simp add: GatherInfo_physical_devices_def enumerate_with_retry_unfold fetch_round_def die_def
        split: prod.splits option.splits)
qed

text \<open>
  Where the query of the count reports no element, the vector has no storage and the
  loop passes a null array: a runtime that rejects every other array is not asked for
  one, and the enumeration returns the empty list.
\<close>

lemma no_layer_passes_null_array:
  "GatherInfo_layers no_layer_runtime [] () = Some (Inr ([], ()))"
  by (simp add: GatherInfo_layers_def no_layer_runtime_def data_pointer_def Let_def
      do_while_incomplete.simps store_def resize_def)

text \<open>
  Against claim C1 as stated. The scripted runtime reports one element to the query of
  the count, then \<^verbatim>\<open>VK_INCOMPLETE\<close> with a required count of three, then success
  with a count of two and two elements. The loop ends with that success, but the vector
  keeps the three elements it was given for the successful fetch: the two that the
  runtime wrote and one that \<^verbatim>\<open>resize\<close> created. Its length is three, the count
  that the runtime reported last is two. For the physical devices the count of two is
  returned beside the vector of three handles.
\<close>

theorem successful_fetch_count_ignored:
  "incomplete_then_success (vkEnumerateInstanceExtensionProperties scripted_runtime None) 1 False
     shrinking_script = Some (3, 2, shrinking_script\<lparr>instance_extension_script := []\<rparr>) \<and>
   EnumerateInstanceExtensions scripted_runtime None [] shrinking_script =
     Some (Inr ([ext ''a'' 1, ext ''b'' 1, VkExtensionProperties_zero],
                shrinking_script\<lparr>instance_extension_script := []\<rparr>)) \<and>
   incomplete_then_success (vkEnumeratePhysicalDevices scripted_runtime 1) 1 False
     shrinking_script = Some (3, 2, shrinking_script\<lparr>physical_device_script := []\<rparr>) \<and>
   GatherInfo_physical_devices scripted_runtime 1 shrinking_script =
     Some (Inr (2, [1, 2, VK_NULL_HANDLE], shrinking_script\<lparr>physical_device_script := []\<rparr>)) \<and>
   length [ext ''a'' 1, ext ''b'' 1, VkExtensionProperties_zero] = 3 \<and>
   length [1, 2, VK_NULL_HANDLE] = 3 \<and>
   unat (2 :: u32) = 2"
  apply (intro conjI)
        apply (simp add: incomplete_then_success_def scripted_runtime_def shrinking_script_def
      no_script_def next_answer_def data_pointer_def)
       apply (simp add: EnumerateInstanceExtensions_def scripted_runtime_def shrinking_script_def
      no_script_def next_answer_def data_pointer_def Let_def do_while_incomplete.simps
      store_def resize_def)
      apply (simp add: incomplete_then_success_def scripted_runtime_def shrinking_script_def
      no_script_def next_answer_def data_pointer_def)
     apply (simp add: GatherInfo_physical_devices_def scripted_runtime_def shrinking_script_def
      no_script_def next_answer_def data_pointer_def Let_def do_while_incomplete.simps
      store_def resize_def)
    apply simp
   apply simp
  apply simp
  done

text \<open>
  Claim C1, amended. For each of the five enumerations with a retry loop (instance
  extensions, device extensions, instance layers, device layers, physical devices): if
  the runtime answers the query of the count with success, then one or more calls of
  the loop with \<^verbatim>\<open>VK_INCOMPLETE\<close>, then a call with success, the enumeration returns;
  the state of the runtime on return is the one the successful call left, so no call
  follows it; and the length of the collected vector is the required count that came
  with the last \<^verbatim>\<open>VK_INCOMPLETE\<close>, to which the vector was resized for the successful
  call. The count \<open>count'\<close> that the successful call reports does not change the vector;
  the enumeration of the physical devices returns it as \<^verbatim>\<open>num_gpus\<close>. The calls are
  those the loop makes: with a null array as long as the vector has no storage.
\<close>

theorem retry_until_success:
  "(0 < k \<and>
    incomplete_then_success (vkEnumerateInstanceExtensionProperties rt layer_name) k (v0 \<noteq> []) s =
      Some (count, count', s')
    \<longrightarrow> (\<exists>v. EnumerateInstanceExtensions rt layer_name v0 s = Some (Inr (v, s')) \<and>
             length v = unat count)) \<and>
   (0 < k \<and>
    incomplete_then_success (vkEnumerateDeviceExtensionProperties rt gpu layer_name) k (v0 \<noteq> []) s =
      Some (count, count', s')
    \<longrightarrow> (\<exists>v. EnumerateDeviceExtensions rt gpu layer_name v0 s = Some (Inr (v, s')) \<and>
             length v = unat count)) \<and>
   (0 < k \<and>
    incomplete_then_success (vkEnumerateInstanceLayerProperties rt) k (l0 \<noteq> []) s =
      Some (count, count', s')
    \<longrightarrow> (\<exists>v. GatherInfo_layers rt l0 s = Some (Inr (v, s')) \<and> length v = unat count)) \<and>
   (0 < k \<and>
    incomplete_then_success (vkEnumerateDeviceLayerProperties rt gpu) k (l0 \<noteq> []) s =
      Some (count, count', s')
    \<longrightarrow> (\<exists>v. GatherGpuInfo_layers rt gpu l0 s = Some (Inr (v, s')) \<and> length v = unat count)) \<and>
   (0 < k \<and>
    incomplete_then_success (vkEnumeratePhysicalDevices rt instance') k False s =
      Some (count, count', s')
    \<longrightarrow> (\<exists>v. GatherInfo_physical_devices rt instance' s = Some (Inr (count', v, s')) \<and>
             length v = unat count))"
proof (intro conjI impI)
  assume "0 < k \<and>
    incomplete_then_success (vkEnumerateInstanceExtensionProperties rt layer_name) k (v0 \<noteq> []) s =
      Some (count, count', s')"
  then show "\<exists>v. EnumerateInstanceExtensions rt layer_name v0 s = Some (Inr (v, s')) \<and>
             length v = unat count"
    using enumerate_with_retry_success
      [of "vkEnumerateInstanceExtensionProperties rt layer_name" k v0 s count count' s'
          "''vkEnumerateInstanceExtensionProperties''" VkExtensionProperties_zero]
    by (auto simp: EnumerateInstanceExtensions_pattern without_count_def)
next
  assume "0 < k \<and>
    incomplete_then_success (vkEnumerateDeviceExtensionProperties rt gpu layer_name) k (v0 \<noteq> []) s =
      Some (count, count', s')"
  then show "\<exists>v. EnumerateDeviceExtensions rt gpu layer_name v0 s = Some (Inr (v, s')) \<and>
             length v = unat count"
    using enumerate_with_retry_success
      [of "vkEnumerateDeviceExtensionProperties rt gpu layer_name" k v0 s count count' s'
          "''vkEnumerateDeviceExtensionProperties''" VkExtensionProperties_zero]
    by (auto simp: EnumerateDeviceExtensions_pattern without_count_def)
next
  assume "0 < k \<and>
    incomplete_then_success (vkEnumerateInstanceLayerProperties rt) k (l0 \<noteq> []) s =
      Some (count, count', s')"
  then show "\<exists>v. GatherInfo_layers rt l0 s = Some (Inr (v, s')) \<and> length v = unat count"
    using enumerate_with_retry_success
      [of "vkEnumerateInstanceLayerProperties rt" k l0 s count count' s'
          "''vkEnumerateInstanceLayerProperties''" VkLayerProperties_zero]
    by (auto simp: GatherInfo_layers_pattern without_count_def)
next
  assume "0 < k \<and>
    incomplete_then_success (vkEnumerateDeviceLayerProperties rt gpu) k (l0 \<noteq> []) s =
      Some (count, count', s')"
  then show "\<exists>v. GatherGpuInfo_layers rt gpu l0 s = Some (Inr (v, s')) \<and> length v = unat count"
    using enumerate_with_retry_success
      [of "vkEnumerateDeviceLayerProperties rt gpu" k l0 s count count' s'
          "''vkEnumerateDeviceLayerProperties''" VkLayerProperties_zero]
    by (auto simp: GatherGpuInfo_layers_pattern without_count_def)
next
  assume "0 < k \<and>
    incomplete_then_success (vkEnumeratePhysicalDevices rt instance') k False s =
      Some (count, count', s')"
  then show "\<exists>v. GatherInfo_physical_devices rt instance' s = Some (Inr (count', v, s')) \<and>
             length v = unat count"
    using enumerate_with_retry_success
      [of "vkEnumeratePhysicalDevices rt instance'" k "[]" s count count' s'
          "''vkEnumeratePhysicalDevices''" VK_NULL_HANDLE]
    by (auto simp: GatherInfo_physical_devices_pattern)
qed

text \<open>
  The theorem at the two scripts: one in which the successful call reports the count
  it was given, and the one above in which it reports less.
\<close>

theorem retry_until_success_witness:
  "(0 < (1::nat) \<and>
    incomplete_then_success (vkEnumerateInstanceExtensionProperties scripted_runtime None) 1
      (([] :: VkExtensionProperties list) \<noteq> []) retry_script =
      Some (2, 2, retry_script\<lparr>instance_extension_script := []\<rparr>) \<and>
    (\<exists>v. EnumerateInstanceExtensions scripted_runtime None [] retry_script =
           Some (Inr (v, retry_script\<lparr>instance_extension_script := []\<rparr>)) \<and>
         length v = unat (2::u32))) \<and>
   (0 < (1::nat) \<and>
    incomplete_then_success (vkEnumerateDeviceExtensionProperties scripted_runtime 1 None) 1
      (([] :: VkExtensionProperties list) \<noteq> []) retry_script =
      Some (2, 2, retry_script\<lparr>device_extension_script := []\<rparr>) \<and>
    (\<exists>v. EnumerateDeviceExtensions scripted_runtime 1 None [] retry_script =
           Some (Inr (v, retry_script\<lparr>device_extension_script := []\<rparr>)) \<and>
         length v = unat (2::u32))) \<and>
   (0 < (1::nat) \<and>
    incomplete_then_success (vkEnumerateInstanceLayerProperties scripted_runtime) 1
      (([] :: VkLayerProperties list) \<noteq> []) retry_script =
      Some (2, 2, retry_script\<lparr>instance_layer_script := []\<rparr>) \<and>
    (\<exists>v. GatherInfo_layers scripted_runtime [] retry_script =
           Some (Inr (v, retry_script\<lparr>instance_layer_script := []\<rparr>)) \<and>
         length v = unat (2::u32))) \<and>
   (0 < (1::nat) \<and>
    incomplete_then_success (vkEnumerateDeviceLayerProperties scripted_runtime 1) 1
      (([] :: VkLayerProperties list) \<noteq> []) retry_script =
      Some (2, 2, retry_script\<lparr>device_layer_script := []\<rparr>) \<and>
    (\<exists>v. GatherGpuInfo_layers scripted_runtime 1 [] retry_script =
           Some (Inr (v, retry_script\<lparr>device_layer_script := []\<rparr>)) \<and>
         length v = unat (2::u32))) \<and>
   (0 < (1::nat) \<and>
    incomplete_then_success (vkEnumeratePhysicalDevices scripted_runtime 1) 1 False shrinking_script =
      Some (3, 2, shrinking_script\<lparr>physical_device_script := []\<rparr>) \<and>
    (\<exists>v. GatherInfo_physical_devices scripted_runtime 1 shrinking_script =
           Some (Inr (2, v, shrinking_script\<lparr>physical_device_script := []\<rparr>)) \<and>
         length v = unat (3::u32)))"
proof -
  have h1: "incomplete_then_success (vkEnumerateInstanceExtensionProperties scripted_runtime None) 1
              (([] :: VkExtensionProperties list) \<noteq> []) retry_script =
            Some (2, 2, retry_script\<lparr>instance_extension_script := []\<rparr>)"
    by (simp add: incomplete_then_success_def scripted_runtime_def retry_script_def next_answer_def
        data_pointer_def)
  have h2: "incomplete_then_success (vkEnumerateDeviceExtensionProperties scripted_runtime 1 None) 1
              (([] :: VkExtensionProperties list) \<noteq> []) retry_script =
            Some (2, 2, retry_script\<lparr>device_extension_script := []\<rparr>)"
    by (simp add: incomplete_then_success_def scripted_runtime_def retry_script_def next_answer_def
        data_pointer_def)
  have h3: "incomplete_then_success (vkEnumerateInstanceLayerProperties scripted_runtime) 1
              (([] :: VkLayerProperties list) \<noteq> []) retry_script =
            Some (2, 2, retry_script\<lparr>instance_layer_script := []\<rparr>)"
    by (simp add: incomplete_then_success_def scripted_runtime_def retry_script_def next_answer_def
        data_pointer_def)
  have h4: "incomplete_then_success (vkEnumerateDeviceLayerProperties scripted_runtime 1) 1
              (([] :: VkLayerProperties list) \<noteq> []) retry_script =
            Some (2, 2, retry_script\<lparr>device_layer_script := []\<rparr>)"
    by (simp add: incomplete_then_success_def scripted_runtime_def retry_script_def next_answer_def
        data_pointer_def)
  have h5: "incomplete_then_success (vkEnumeratePhysicalDevices scripted_runtime 1) 1 False
              shrinking_script = Some (3, 2, shrinking_script\<lparr>physical_device_script := []\<rparr>)"
    by (simp add: incomplete_then_success_def scripted_runtime_def shrinking_script_def no_script_def
        next_answer_def data_pointer_def)
  have c1: "\<exists>v. EnumerateInstanceExtensions scripted_runtime None [] retry_script =
           Some (Inr (v, retry_script\<lparr>instance_extension_script := []\<rparr>)) \<and>
         length v = unat (2::u32)"
    using h1 retry_until_success [where k = 1 and rt = scripted_runtime and layer_name = None
        and s = retry_script and count = 2 and count' = 2
        and s' = "retry_script\<lparr>instance_extension_script := []\<rparr>" and ?v0.0 = "[]"]
    by blast
  have c2: "\<exists>v. EnumerateDeviceExtensions scripted_runtime 1 None [] retry_script =
           Some (Inr (v, retry_script\<lparr>device_extension_script := []\<rparr>)) \<and>
         length v = unat (2::u32)"
    using h2 retry_until_success [where k = 1 and rt = scripted_runtime and layer_name = None
        and gpu = 1 and s = retry_script and count = 2 and count' = 2
        and s' = "retry_script\<lparr>device_extension_script := []\<rparr>" and ?v0.0 = "[]"]
    by blast
  have c3: "\<exists>v. GatherInfo_layers scripted_runtime [] retry_script =
           Some (Inr (v, retry_script\<lparr>instance_layer_script := []\<rparr>)) \<and>
         length v = unat (2::u32)"
    using h3 retry_until_success [where k = 1 and rt = scripted_runtime
        and s = retry_script and count = 2 and count' = 2
        and s' = "retry_script\<lparr>instance_layer_script := []\<rparr>" and ?l0.0 = "[]"]
    by blast
  have c4: "\<exists>v. GatherGpuInfo_layers scripted_runtime 1 [] retry_script =
           Some (Inr (v, retry_script\<lparr>device_layer_script := []\<rparr>)) \<and>
         length v = unat (2::u32)"
    using h4 retry_until_success [where k = 1 and rt = scripted_runtime and gpu = 1
        and s = retry_script and count = 2 and count' = 2
        and s' = "retry_script\<lparr>device_layer_script := []\<rparr>" and ?l0.0 = "[]"]
    by blast
  have c5: "\<exists>v. GatherInfo_physical_devices scripted_runtime 1 shrinking_script =
           Some (Inr (2, v, shrinking_script\<lparr>physical_device_script := []\<rparr>)) \<and>
         length v = unat (3::u32)"
    using h5 retry_until_success [where k = 1 and rt = scripted_runtime and instance' = 1
        and s = shrinking_script and count = 3 and count' = 2
        and s' = "shrinking_script\<lparr>physical_device_script := []\<rparr>"]
    by blast
  show ?thesis
    using h1 h2 h3 h4 h5 c1 c2 c3 c4 c5 by (intro conjI) simp_all
qed

section \<open>Which enumerations follow the pattern\<close>

text \<open>
  Against claim C2 as stated. The scripted runtime reports one queue family to the
  query of the count and two to the fetch into an array of one element. The program
  does not fetch again: it returns the one family, and the next answer of the runtime
  is still pending. With a script of the same shape the loop over the device layers
  fetches a second time and returns both layers.
\<close>

theorem queue_families_fetched_once:
  "vkGetPhysicalDeviceQueueFamilyProperties scripted_runtime 1 None retry_script =
     (1, [], retry_script\<lparr>queue_family_script :=
                [(2, [graphics_family]), (2, [graphics_family, transfer_family])]\<rparr>) \<and>
   vkGetPhysicalDeviceQueueFamilyProperties scripted_runtime 1 (Some 1)
     (retry_script\<lparr>queue_family_script :=
        [(2, [graphics_family]), (2, [graphics_family, transfer_family])]\<rparr>) =
     (2, [graphics_family],
      retry_script\<lparr>queue_family_script := [(2, [graphics_family, transfer_family])]\<rparr>) \<and>
   GatherGpuInfo_queue_families scripted_runtime 1 [] retry_script =
     ([graphics_family],
      retry_script\<lparr>queue_family_script := [(2, [graphics_family, transfer_family])]\<rparr>) \<and>
   GatherGpuInfo_layers scripted_runtime 1 [] retry_script =
     Some (Inr ([layer ''L1'', layer ''L2''], retry_script\<lparr>device_layer_script := []\<rparr>))"
  apply (intro conjI)
     apply (simp add: scripted_runtime_def retry_script_def)
    apply (simp add: scripted_runtime_def retry_script_def)
   apply (simp add: GatherGpuInfo_queue_families_def scripted_runtime_def retry_script_def
      store_def resize_def VkQueueFamilyProperties_zero_def data_pointer_def Let_def)
  apply (simp add: GatherGpuInfo_layers_def scripted_runtime_def retry_script_def
      store_def resize_def VkLayerProperties_zero_def next_answer_def do_while_incomplete.simps
      data_pointer_def Let_def)
  done

text \<open>
  Claim C2, amended. The five enumerations whose entry point returns a result are the
  pattern of the specification (count query, allocation, fetch, retry while incomplete),
  each with its own entry point. The queue families are not: their entry point returns
  no result, the program calls it once for the count and once with the data of the
  resized vector (a null array where the count is zero), and the vector keeps the
  length that the query of the count gave, whatever the second call reports.
\<close>

theorem enumeration_pattern:
  "EnumerateInstanceExtensions rt layer_name ev s =
     without_count (enumerate_with_retry (vkEnumerateInstanceExtensionProperties rt layer_name)
       ''vkEnumerateInstanceExtensionProperties'' VkExtensionProperties_zero ev s) \<and>
   EnumerateDeviceExtensions rt gpu layer_name ev s =
     without_count (enumerate_with_retry (vkEnumerateDeviceExtensionProperties rt gpu layer_name)
       ''vkEnumerateDeviceExtensionProperties'' VkExtensionProperties_zero ev s) \<and>
   GatherInfo_layers rt lv s =
     without_count (enumerate_with_retry (vkEnumerateInstanceLayerProperties rt)
       ''vkEnumerateInstanceLayerProperties'' VkLayerProperties_zero lv s) \<and>
   GatherGpuInfo_layers rt gpu lv s =
     without_count (enumerate_with_retry (vkEnumerateDeviceLayerProperties rt gpu)
       ''vkEnumerateDeviceLayerProperties'' VkLayerProperties_zero lv s) \<and>
   GatherInfo_physical_devices rt instance' s =
     enumerate_with_retry (vkEnumeratePhysicalDevices rt instance')
       ''vkEnumeratePhysicalDevices'' VK_NULL_HANDLE [] s \<and>
   GatherGpuInfo_queue_families rt gpu qv s =
     (case vkGetPhysicalDeviceQueueFamilyProperties rt gpu None s of
        (count, _, s1) \<Rightarrow>
          (case vkGetPhysicalDeviceQueueFamilyProperties rt gpu
                  (data_pointer (0 < unat count \<or> qv \<noteq> []) count) s1 of
             (count', written, s2) \<Rightarrow>
               (store written (resize qv (unat count) VkQueueFamilyProperties_zero), s2))) \<and>
   length (fst (GatherGpuInfo_queue_families rt gpu qv s)) =
     unat (fst (vkGetPhysicalDeviceQueueFamilyProperties rt gpu None s))"
  apply (intro conjI)
        apply (rule EnumerateInstanceExtensions_pattern)
       apply (rule EnumerateDeviceExtensions_pattern)
      apply (rule GatherInfo_layers_pattern)
     apply (rule GatherGpuInfo_layers_pattern)
    apply (rule GatherInfo_physical_devices_pattern)
   apply (simp add: GatherGpuInfo_queue_families_def Let_def)
  apply (simp add: GatherGpuInfo_queue_families_def Let_def length_store length_resize
      split: prod.splits)
  done


section \<open>Fatal errors\<close>

lemma digit_char_not_newline: "d < 10 \<Longrightarrow> digit_char d \<noteq> CHR 0x0A"
  by (simp add: digit_char_def nth_Cons')

lemma fmt_u_no_newline: "CHR 0x0A \<notin> set (fmt_u n)"
proof (induction n rule: fmt_u.induct)
  case (1 n)
  show ?case
  proof (cases "n < 10")
    case True
    then show ?thesis using digit_char_not_newline [of n] by (subst fmt_u.simps) auto
  next
    case False
    then have "CHR 0x0A \<notin> set (fmt_u (n div 10))" using "1.IH" by simp
    moreover have "digit_char (n mod 10) \<noteq> CHR 0x0A" by (rule digit_char_not_newline) simp
    ultimately show ?thesis using False by (subst fmt_u.simps) auto
  qed
qed

lemma fmt_d_no_newline: "CHR 0x0A \<notin> set (fmt_d i)"
  by (simp add: fmt_d_def fmt_u_no_newline)

lemma result_str_no_newline: "CHR 0x0A \<notin> set (result_str result)"
  by (cases result) (simp_all add: result_str_def)

lemma count_list_notin: "x \<notin> set xs \<Longrightarrow> count_list xs x = 0"
  by (induction xs) auto

text \<open>
  Claim C5. The first query of the number of instance extensions is made once the
  instance layers are gathered. If the runtime answers it with any status other than
  success, the program writes nothing to standard output, writes to standard error the
  one text \<^verbatim>\<open>vkEnumerateInstanceExtensionProperties (count) failed: <name> (<code>)\<close>,
  a single line, and exits with status 1. The name is that of the status in the Vulkan
  header, and \<^verbatim>\<open><unknown VkResult>\<close> for a status that the program does not list;
  the code is the number of the status.
\<close>

theorem first_extension_count_failure:
  assumes "GatherInfo_layers rt [] s = Some (Inr (layers', s1))"
    and "vkEnumerateInstanceExtensionProperties rt None None s1 = (result, count, written, s2)"
    and "result \<noteq> VK_SUCCESS"
  shows "main vk rt s =
           Some (Exited []
                   [''vkEnumerateInstanceExtensionProperties (count) failed: '' @
                    (case result of
                       VK_SUCCESS \<Rightarrow> ''VK_SUCCESS''
                     | VK_NOT_READY \<Rightarrow> ''VK_NOT_READY''
                     | VK_TIMEOUT \<Rightarrow> ''VK_TIMEOUT''
                     | VK_EVENT_SET \<Rightarrow> ''VK_EVENT_SET''
                     | VK_EVENT_RESET \<Rightarrow> ''VK_EVENT_RESET''
                     | VK_INCOMPLETE \<Rightarrow> ''VK_INCOMPLETE''
                     | VK_ERROR_OUT_OF_HOST_MEMORY \<Rightarrow> ''VK_ERROR_OUT_OF_HOST_MEMORY''
                     | VK_ERROR_OUT_OF_DEVICE_MEMORY \<Rightarrow> ''VK_ERROR_OUT_OF_DEVICE_MEMORY''
                     | VK_ERROR_INITIALIZATION_FAILED \<Rightarrow> ''VK_ERROR_INITIALIZATION_FAILED''
                     | VK_ERROR_DEVICE_LOST \<Rightarrow> ''VK_ERROR_DEVICE_LOST''
                     | VK_ERROR_MEMORY_MAP_FAILED \<Rightarrow> ''VK_ERROR_MEMORY_MAP_FAILED''
                     | VK_ERROR_LAYER_NOT_PRESENT \<Rightarrow> ''VK_ERROR_LAYER_NOT_PRESENT''
                     | VK_ERROR_EXTENSION_NOT_PRESENT \<Rightarrow> ''VK_ERROR_EXTENSION_NOT_PRESENT''
                     | VK_ERROR_INCOMPATIBLE_DRIVER \<Rightarrow> ''VK_ERROR_INCOMPATIBLE_DRIVER''
                     | VkResult_unlisted other \<Rightarrow> ''<unknown VkResult>'') @
                    '' ('' @ fmt_d (VkResult_value vk result) @ '')'' @ newline] 1) \<and>
         (\<exists>line. main vk rt s = Some (Exited [] [line] 1) \<and> count_list line (CHR 0x0A) = 1 \<and>
                 last line = CHR 0x0A)"
proof -
  let ?name = "case result of
                       VK_SUCCESS \<Rightarrow> ''VK_SUCCESS''
                     | VK_NOT_READY \<Rightarrow> ''VK_NOT_READY''
                     | VK_TIMEOUT \<Rightarrow> ''VK_TIMEOUT''
                     | VK_EVENT_SET \<Rightarrow> ''VK_EVENT_SET''
                     | VK_EVENT_RESET \<Rightarrow> ''VK_EVENT_RESET''
                     | VK_INCOMPLETE \<Rightarrow> ''VK_INCOMPLETE''
                     | VK_ERROR_OUT_OF_HOST_MEMORY \<Rightarrow> ''VK_ERROR_OUT_OF_HOST_MEMORY''
                     | VK_ERROR_OUT_OF_DEVICE_MEMORY \<Rightarrow> ''VK_ERROR_OUT_OF_DEVICE_MEMORY''
                     | VK_ERROR_INITIALIZATION_FAILED \<Rightarrow> ''VK_ERROR_INITIALIZATION_FAILED''
                     | VK_ERROR_DEVICE_LOST \<Rightarrow> ''VK_ERROR_DEVICE_LOST''
                     | VK_ERROR_MEMORY_MAP_FAILED \<Rightarrow> ''VK_ERROR_MEMORY_MAP_FAILED''
                     | VK_ERROR_LAYER_NOT_PRESENT \<Rightarrow> ''VK_ERROR_LAYER_NOT_PRESENT''
                     | VK_ERROR_EXTENSION_NOT_PRESENT \<Rightarrow> ''VK_ERROR_EXTENSION_NOT_PRESENT''
                     | VK_ERROR_INCOMPATIBLE_DRIVER \<Rightarrow> ''VK_ERROR_INCOMPATIBLE_DRIVER''
                     | VkResult_unlisted other \<Rightarrow> ''<unknown VkResult>''"
  let ?line = "''vkEnumerateInstanceExtensionProperties (count) failed: '' @ ?name @
               '' ('' @ fmt_d (VkResult_value vk result) @ '')'' @ newline"
  have name: "result_str result = ?name"
    by (simp add: result_str_def)
  have "EnumerateInstanceExtensions rt None [] s1 =
          Some (Inl (Died ''vkEnumerateInstanceExtensionProperties (count)'' result))"
    using assms(2,3) by (simp add: EnumerateInstanceExtensions_def die_def)
  then have "GatherInfo vk rt VulkanInfo_empty s =
          Some (Inl (Died ''vkEnumerateInstanceExtensionProperties (count)'' result))"
    using assms(1) by (simp add: GatherInfo_def VulkanInfo_empty_def Let_def)
  then have m: "main vk rt s = Some (Exited [] [?line] 1)"
    by (simp add: main_def die_message_def name)
  have "CHR 0x0A \<notin> set ?name"
    by (cases result) simp_all
  then have one: "count_list ?line (CHR 0x0A) = 1"
    by (simp add: newline_def count_list_notin fmt_d_no_newline)
  have "last ?line = CHR 0x0A"
    by (simp add: newline_def)
  with m one show ?thesis by blast
qed

theorem first_extension_count_failure_witness:
  "GatherInfo_layers scripted_runtime [] failing_script = Some (Inr ([], failing_script)) \<and>
   vkEnumerateInstanceExtensionProperties scripted_runtime None None failing_script =
     (VK_ERROR_INITIALIZATION_FAILED, 0, [], no_script) \<and>
   VK_ERROR_INITIALIZATION_FAILED \<noteq> VK_SUCCESS \<and>
   main vulkan_1_0 scripted_runtime failing_script =
     Some (Exited []
       [''vkEnumerateInstanceExtensionProperties (count) failed: VK_ERROR_INITIALIZATION_FAILED (-3)\<newline>'']
       1)"
proof -
  have a: "GatherInfo_layers scripted_runtime [] failing_script = Some (Inr ([], failing_script))"
    by (simp add: GatherInfo_layers_def scripted_runtime_def failing_script_def no_script_def
        next_answer_def do_while_incomplete.simps store_def resize_def data_pointer_def Let_def)
  have b: "vkEnumerateInstanceExtensionProperties scripted_runtime None None failing_script =
     (VK_ERROR_INITIALIZATION_FAILED, 0, [], no_script)"
    by (simp add: scripted_runtime_def failing_script_def no_script_def next_answer_def)
  have c: "VK_ERROR_INITIALIZATION_FAILED \<noteq> VK_SUCCESS" by simp
  show ?thesis
    using a b c first_extension_count_failure [OF a b c, of vulkan_1_0]
    by (simp add: vulkan_1_0_def VkResult_value_1_0_def fmt_d_def fmt_u.simps
        digit_char_def newline_def)
qed

section \<open>The end-to-end scenario\<close>

lemmas fixed_rt_simps = fixed_runtime_def enumerate_fixed_def device_of_def scenario_def scenario_device_def

lemma scenario_gather:
  "GatherInfo vulkan_1_0 (fixed_runtime scenario) VulkanInfo_empty () =
     Some (Inr (\<lparr>extensions = [], layers = [], layer_extensions = [],
                 gpus = [\<lparr>properties = dev_properties scenario_device,
                          memory = dev_memory scenario_device,
                          features = dev_features scenario_device,
                          queue_families = dev_queue_families scenario_device,
                          extensions = [], layers = [], layer_extensions = []\<rparr>]\<rparr>, ()))"
  by (simp add: GatherInfo_def GatherInfo_layers_def EnumerateInstanceExtensions_def
      GatherInfo_layer_extensions.simps GatherInfo_physical_devices_def GatherInfo_gpus.simps
      GatherGpuInfo_def GatherGpuInfo_queue_families_def GatherGpuInfo_layers_def
      EnumerateDeviceExtensions_def GatherGpuInfo_layer_extensions.simps
      available_in_layers.simps HasExtension_def VulkanInfo_empty_def GpuInfo_zero_def
      do_while_incomplete.simps store_def resize_def die_def Let_def VK_NULL_HANDLE_def
      data_pointer_def
      vulkan_1_0_def fixed_rt_simps  VkQueueFamilyProperties_zero_def)


lemma replicate_numeral_unfold: "replicate (numeral k) x = x # replicate (pred_numeral k) x"
  by (simp add: numeral_eq_Suc)

lemmas fmt_simps = replicate_numeral_unfold fmt_u.simps fmt_x.simps fmt_alt_x_def fmt_04x_def digit_char_def newline_def dquote_def

lemma scenario_print:
  "PrintInfo vulkan_1_0
     \<lparr>extensions = [], layers = [], layer_extensions = [],
                 gpus = [\<lparr>properties = dev_properties scenario_device,
                          memory = dev_memory scenario_device,
                          features = dev_features scenario_device,
                          queue_families = dev_queue_families scenario_device,
                          extensions = [], layers = [], layer_extensions = []\<rparr>]\<rparr> [] =
   Inr [''Instance Extensions [0]:\<newline>'',
        ''PhysicalDevices [1]:\<newline>'',
        ''  '' @ dquote @ ''gpu'' @ dquote @ '' (INTEGRATED_GPU) 1.0.3/0x1 [10de:0092]\<newline>'',
        ''    Heap 0: 16 MiB (0x10000000 B) DEVICE_LOCAL\<newline>'',
        ''      Type 0: DEVICE_LOCAL HOST_VISIBLE\<newline>'',
        ''    Queue Family 0: 1x GC__\<newline>      timestampValidBits: 36b\<newline>      minImageTransferGranularity: (1,1,1)\<newline>'']"
  by (simp add: PrintInfo_def PrintGpuInfo_def PrintGpuInfo_heaps.simps PrintGpuInfo_types.simps
      PrintGpuInfo_families.simps gpu_line_def heap_line_def type_line_def queue_family_line_def
      version_str_def ExtractMajorVersion_def ExtractMinorVersion_def ExtractPatchVersion_def
      pack_version_def VkPhysicalDeviceTypeStr_def scenario_device_def vulkan_1_0_def
      VkQueueFlagBits_value_1_0_def fmt_simps Let_def)


text \<open>
  Claim C3. Against the runtime of the end-to-end scenario, with the constants of the
  Vulkan 1.0 header, the program exits with status 0 and the report below. The heap of
  268435456 bytes is printed as \<^verbatim>\<open>16 MiB (0x10000000 B) DEVICE_LOCAL\<close>: the
  divisor in \<^verbatim>\<open>PrintGpuInfo\<close> is \<^verbatim>\<open>0x1000000\<close>, which is 16 MiB, under a format
  that labels the quotient \<^verbatim>\<open>MiB\<close>. The line \<^verbatim>\<open>256 MiB (0x10000000 B) DEVICE_LOCAL\<close>
  of the claim is not in the report.
\<close>

theorem scenario_heap_line:
  "main vulkan_1_0 (fixed_runtime scenario) () =
     Some (Exited
       [''Instance Extensions [0]:\<newline>'',
        ''PhysicalDevices [1]:\<newline>'',
        ''  '' @ dquote @ ''gpu'' @ dquote @ '' (INTEGRATED_GPU) 1.0.3/0x1 [10de:0092]\<newline>'',
        ''    Heap 0: 16 MiB (0x10000000 B) DEVICE_LOCAL\<newline>'',
        ''      Type 0: DEVICE_LOCAL HOST_VISIBLE\<newline>'',
        ''    Queue Family 0: 1x GC__\<newline>      timestampValidBits: 36b\<newline>      minImageTransferGranularity: (1,1,1)\<newline>'']
       [] 0)"
  by (simp add: main_def scenario_gather scenario_print)

section \<open>The heap section of a device\<close>

lemma digit_char_cases:
  assumes "d < 10"
  shows "digit_char d \<in> set ''0123456789'' \<and> digit_value (digit_char d) = d"
proof -
  from assms have "d = 0 \<or> d = 1 \<or> d = 2 \<or> d = 3 \<or> d = 4 \<or> d = 5 \<or> d = 6 \<or> d = 7 \<or> d = 8 \<or> d = 9"
    by arith
  then show ?thesis
    by (elim disjE) (simp_all add: digit_char_def digit_value_def)
qed

lemma fmt_u_digits: "set (fmt_u n) \<subseteq> set ''0123456789''"
proof (induction n rule: fmt_u.induct)
  case (1 n)
  show ?case
  proof (cases "n < 10")
    case True
    then show ?thesis using digit_char_cases [of n] by (subst fmt_u.simps) simp
  next
    case False
    then have "set (fmt_u (n div 10)) \<subseteq> set ''0123456789''" using "1.IH" by simp
    moreover have "digit_char (n mod 10) \<in> set ''0123456789''"
      using digit_char_cases [of "n mod 10"] by simp
    ultimately show ?thesis using False by (subst fmt_u.simps) simp
  qed
qed

lemma decimal_value_fmt_u: "decimal_value (fmt_u n) = n"
proof (induction n rule: fmt_u.induct)
  case (1 n)
  show ?case
  proof (cases "n < 10")
    case True
    then show ?thesis
      using digit_char_cases [of n] by (subst fmt_u.simps) (simp add: decimal_value_def)
  next
    case False
    then have "decimal_value (fmt_u (n div 10)) = n div 10" using "1.IH" by simp
    moreover have "digit_value (digit_char (n mod 10)) = n mod 10"
      using digit_char_cases [of "n mod 10"] by simp
    ultimately show ?thesis
      using False by (subst fmt_u.simps) (simp add: decimal_value_def)
  qed
qed

lemma fmt_u_inj: "fmt_u a = fmt_u b \<Longrightarrow> a = b"
  by (metis decimal_value_fmt_u)

lemma fmt_u_no_colon: "CHR '':'' \<notin> set (fmt_u n)"
  using fmt_u_digits [of n] by auto

lemma split_at_first:
  "a @ c # r = b @ c # r' \<Longrightarrow> c \<notin> set a \<Longrightarrow> c \<notin> set b \<Longrightarrow> a = b"
proof (induction a arbitrary: b)
  case Nil
  then show ?case by (cases b) auto
next
  case (Cons x a)
  then show ?case by (cases b) auto
qed

lemma type_line_shape:
  "\<exists>r. type_line vk type t = ''      Type '' @ fmt_u type @ CHR '':'' # r"
  by (simp add: type_line_def Let_def)

lemma type_line_inj:
  assumes "type_line vk a x = type_line vk b y"
  shows "a = b"
proof -
  obtain r where r: "type_line vk a x = ''      Type '' @ fmt_u a @ CHR '':'' # r"
    using type_line_shape by blast
  obtain r' where r': "type_line vk b y = ''      Type '' @ fmt_u b @ CHR '':'' # r'"
    using type_line_shape by blast
  from assms r r' have "fmt_u a @ CHR '':'' # r = fmt_u b @ CHR '':'' # r'" by simp
  then have "fmt_u a = fmt_u b" by (rule split_at_first) (rule fmt_u_no_colon)+
  then show ?thesis by (rule fmt_u_inj)
qed

lemma heap_line_not_type_line: "heap_line vk heap h \<noteq> type_line vk type t"
proof -
  have "heap_line vk heap h ! 4 = CHR ''H''" by (simp add: heap_line_def Let_def)
  moreover have "type_line vk type t ! 4 = CHR '' ''" by (simp add: type_line_def Let_def)
  ultimately show ?thesis by auto
qed

lemma PrintGpuInfo_types_eq:
  assumes "unat (memoryTypeCount m) \<le> length (memoryTypes m)"
  shows "PrintGpuInfo_types vk m heap type out =
     Inr (out @ map (\<lambda>t. type_line vk t (memoryTypes m ! t))
                  (filter (\<lambda>t. unat (heapIndex (memoryTypes m ! t)) = heap)
                     [type..<unat (memoryTypeCount m)]))"
  using assms
proof (induction vk m heap type out rule: PrintGpuInfo_types.induct)
  case (1 vk m heap type out)
  show ?case
  proof (cases "type < unat (memoryTypeCount m)")
    case False
    then show ?thesis by (subst PrintGpuInfo_types.simps) simp
  next
    case True
    then have in_range: "\<not> length (memoryTypes m) \<le> type" using "1.prems" by simp
    have upt: "[type..<unat (memoryTypeCount m)] = type # [type + 1..<unat (memoryTypeCount m)]"
      using True by (simp add: upt_conv_Cons)
    show ?thesis
    proof (cases "unat (heapIndex (memoryTypes m ! type)) = heap")
      case True
      with \<open>type < unat (memoryTypeCount m)\<close> in_range "1.IH"(2) "1.prems" show ?thesis
        by (subst PrintGpuInfo_types.simps) (simp add: upt)
    next
      case False
      with \<open>type < unat (memoryTypeCount m)\<close> in_range "1.IH"(1) "1.prems" show ?thesis
        by (subst PrintGpuInfo_types.simps) (simp add: upt)
    qed
  qed
qed

lemma PrintGpuInfo_types_block:
  assumes "unat (memoryTypeCount m) \<le> length (memoryTypes m)"
  shows "PrintGpuInfo_types vk m heap 0 (out @ [heap_line vk heap (memoryHeaps m ! heap)]) =
     Inr (out @ heap_block vk m heap)"
  using PrintGpuInfo_types_eq [OF assms] by (simp add: heap_block_def types_of_heap_def)

lemma PrintGpuInfo_heaps_eq:
  assumes "memory_in_bounds m"
  shows "PrintGpuInfo_heaps vk m heap out =
     Inr (out @ concat (map (heap_block vk m) [heap..<unat (memoryHeapCount m)]))"
  using assms
proof (induction vk m heap out rule: PrintGpuInfo_heaps.induct)
  case (1 vk m heap out)
  show ?case
  proof (cases "heap < unat (memoryHeapCount m)")
    case False
    then show ?thesis by (subst PrintGpuInfo_heaps.simps) simp
  next
    case True
    then have in_range: "\<not> length (memoryHeaps m) \<le> heap"
      using "1.prems" by (simp add: memory_in_bounds_def)
    have types: "PrintGpuInfo_types vk m heap 0 (out @ [heap_line vk heap (memoryHeaps m ! heap)]) =
        Inr (out @ heap_block vk m heap)"
      using "1.prems" by (intro PrintGpuInfo_types_block) (simp add: memory_in_bounds_def)
    have upt: "[heap..<unat (memoryHeapCount m)] = heap # [heap + 1..<unat (memoryHeapCount m)]"
      using True by (simp add: upt_conv_Cons)
    have "PrintGpuInfo_heaps vk m (heap + 1) (out @ heap_block vk m heap) =
        Inr ((out @ heap_block vk m heap) @
             concat (map (heap_block vk m) [heap + 1..<unat (memoryHeapCount m)]))"
      using "1.IH" [OF True in_range types] "1.prems" by simp
    with True in_range types show ?thesis
      by (subst PrintGpuInfo_heaps.simps) (simp add: upt)
  qed
qed

lemma count_list_map_inj:
  "(\<And>y. y \<in> set xs \<Longrightarrow> f y = f x \<Longrightarrow> y = x) \<Longrightarrow> count_list (map f xs) (f x) = count_list xs x"
  by (induction xs) auto

lemma count_list_distinct: "distinct xs \<Longrightarrow> count_list xs x = (if x \<in> set xs then 1 else 0)"
  by (induction xs) auto

lemma count_list_concat: "count_list (concat xss) x = sum_list (map (\<lambda>xs. count_list xs x) xss)"
  by (induction xss) auto

lemma sum_list_indicator: "sum_list (map (\<lambda>h. if a = h then 1 else 0) [0..<n]) = (if a < n then 1 else (0::nat))"
  by (induction n) auto

lemma count_in_heap_block:
  assumes "type < unat (memoryTypeCount m)"
  shows "count_list (heap_block vk m heap) (type_line vk type (memoryTypes m ! type)) =
         (if unat (heapIndex (memoryTypes m ! type)) = heap then 1 else 0)"
proof -
  let ?f = "\<lambda>t. type_line vk t (memoryTypes m ! t)"
  have "count_list (map ?f (types_of_heap m heap)) (?f type) = count_list (types_of_heap m heap) type"
    by (rule count_list_map_inj) (rule type_line_inj)
  also have "\<dots> = (if type \<in> set (types_of_heap m heap) then 1 else 0)"
    by (rule count_list_distinct) (simp add: types_of_heap_def)
  also have "\<dots> = (if unat (heapIndex (memoryTypes m ! type)) = heap then 1 else 0)"
    using assms by (simp add: types_of_heap_def)
  finally show ?thesis
    by (simp add: heap_block_def heap_line_not_type_line)
qed

lemma count_in_heap_section:
  assumes "type < unat (memoryTypeCount m)"
  shows "count_list (concat (map (heap_block vk m) [0..<n])) (type_line vk type (memoryTypes m ! type)) =
         (if unat (heapIndex (memoryTypes m ! type)) < n then 1 else 0)"
  by (simp add: count_list_concat comp_def count_in_heap_block [OF assms] sum_list_indicator)


section \<open>Layers and their extension lists\<close>

lemma PrintExtensions_eq: "PrintExtensions es prefix out = out @ map (extension_line prefix) es"
  by (induction es arbitrary: out) auto

lemma PrintLayers_loop_eq:
  assumes "length layers' \<le> length les"
  shows "PrintLayers_loop layers' les prefix (prefix @ ''    '') i out =
           Inr (out @ concat (map (\<lambda>i. layer_block prefix (layers' ! i) (les ! i)) [i..<length layers']))"
  using assms
proof (induction layers' les prefix "prefix @ ''    ''" i out rule: PrintLayers_loop.induct)
  case (1 layers' les prefix i out)
  show ?case
  proof (cases "i < length layers'")
    case False
    then show ?thesis by (subst PrintLayers_loop.simps) simp
  next
    case True
    then have in_range: "\<not> length les \<le> i" using "1.prems" by simp
    have upt: "[i..<length layers'] = i # [i + 1..<length layers']"
      using True by (simp add: upt_conv_Cons)
    show ?thesis
      using True in_range "1.hyps" [OF True in_range refl refl refl] "1.prems"
      by (subst PrintLayers_loop.simps)
         (simp add: upt Let_def PrintExtensions_eq layer_block_def)
  qed
qed

lemma PrintLayers_eq:
  "length layers' \<le> length les \<Longrightarrow>
   PrintLayers layers' les prefix out = Inr (out @ layer_blocks prefix layers' les)"
  by (simp add: PrintLayers_def PrintLayers_loop_eq layer_blocks_def)


lemma indexed_loop_chain:
  fixes L :: "nat \<Rightarrow> 'a list \<Rightarrow> 's \<Rightarrow> ('a list \<times> 's) run"
  assumes unfold: "\<And>i v s. L i v s =
     (if i < n then
        (if length v \<le> i then Some (Inl oob)
         else (case Q i (v ! i) s of
                 None \<Rightarrow> None
               | Some (Inl f) \<Rightarrow> Some (Inl f)
               | Some (Inr (x, s')) \<Rightarrow> L (i + 1) (v[i := x]) s'))
      else Some (Inr (v, s)))"
  shows "L i v s = Some (Inr (w, s')) \<Longrightarrow> i \<le> n \<Longrightarrow>
     length w = length v \<and>
     (\<forall>j < length v. j < i \<or> n \<le> j \<longrightarrow> w ! j = v ! j) \<and>
     (\<exists>ss. length ss = n - i + 1 \<and> ss ! 0 = s \<and> ss ! (n - i) = s' \<and>
           (\<forall>j. i \<le> j \<and> j < n \<longrightarrow>
                j < length v \<and> Q j (v ! j) (ss ! (j - i)) = Some (Inr (w ! j, ss ! (j - i + 1)))))"
proof (induction "n - i" arbitrary: i v s)
  case 0
  then have "i = n" by simp
  with "0.prems"(1) have "w = v" "s' = s" using unfold [of n v s] by simp_all
  then show ?case using \<open>i = n\<close> by (auto intro: exI [of _ "[s]"])
next
  case (Suc k)
  then have lt: "i < n" by simp
  have len: "i < length v"
    using Suc.prems(1) lt by (simp add: unfold [of i v s] split: if_splits)
  obtain x s1 where q: "Q i (v ! i) s = Some (Inr (x, s1))"
    and rec: "L (i + 1) (v[i := x]) s1 = Some (Inr (w, s'))"
    using Suc.prems(1) lt len
    by (simp add: unfold [of i v s] split: option.splits sum.splits prod.splits)
  have k: "k = n - (i + 1)" using Suc.hyps(2) by simp
  have le: "i + 1 \<le> n" using lt by simp
  from Suc.hyps(1) [OF k rec le] obtain ss where
    lw: "length w = length (v[i := x])"
    and same: "\<forall>j < length (v[i := x]). j < i + 1 \<or> n \<le> j \<longrightarrow> w ! j = v[i := x] ! j"
    and lss: "length ss = n - (i + 1) + 1" and ss0: "ss ! 0 = s1" and ssn: "ss ! (n - (i + 1)) = s'"
    and chain: "\<forall>j. i + 1 \<le> j \<and> j < n \<longrightarrow>
                j < length (v[i := x]) \<and>
                Q j (v[i := x] ! j) (ss ! (j - (i + 1))) = Some (Inr (w ! j, ss ! (j - (i + 1) + 1)))"
    by blast
  have wi: "w ! i = x" using same len by simp
  have "length (s # ss) = n - i + 1" using lss lt by simp
  moreover have "(s # ss) ! 0 = s" by simp
  moreover have "(s # ss) ! (n - i) = s'"
    using ssn lt by (simp add: nth_Cons')
  moreover have "\<forall>j. i \<le> j \<and> j < n \<longrightarrow>
      j < length v \<and> Q j (v ! j) ((s # ss) ! (j - i)) = Some (Inr (w ! j, (s # ss) ! (j - i + 1)))"
  proof (intro allI impI)
    fix j assume j: "i \<le> j \<and> j < n"
    show "j < length v \<and> Q j (v ! j) ((s # ss) ! (j - i)) = Some (Inr (w ! j, (s # ss) ! (j - i + 1)))"
    proof (cases "j = i")
      case True
      then show ?thesis using q wi ss0 len by simp
    next
      case False
      with j have j': "i + 1 \<le> j \<and> j < n" by simp
      with chain have "j < length v"
        and "Q j (v[i := x] ! j) (ss ! (j - (i + 1))) = Some (Inr (w ! j, ss ! (j - (i + 1) + 1)))"
        by simp_all
      moreover have "v[i := x] ! j = v ! j" using False by simp
      moreover have "(s # ss) ! (j - i) = ss ! (j - (i + 1))" using j' by (simp add: nth_Cons')
      moreover have "j - i = Suc (j - Suc i)" using j' by arith
      then have "(s # ss) ! (j - i + 1) = ss ! (j - (i + 1) + 1)" by simp
      ultimately show ?thesis by simp
    qed
  qed
  moreover have "length w = length v" using lw by simp
  moreover have "\<forall>j < length v. j < i \<or> n \<le> j \<longrightarrow> w ! j = v ! j"
    using same lt by (auto simp: nth_list_update)
  ultimately show ?case by blast
qed


lemma resize_empty: "resize [] n d = replicate n d"
  by (simp add: resize_def)

section \<open>The report of one device\<close>

lemma PrintGpuInfo_families_eq:
  "PrintGpuInfo_families vk qfs family out =
     out @ map (\<lambda>f. queue_family_line vk f (qfs ! f)) [family..<length qfs]"
proof (induction vk qfs family out rule: PrintGpuInfo_families.induct)
  case (1 vk qfs family out)
  show ?case
  proof (cases "family < length qfs")
    case False
    then show ?thesis by (subst PrintGpuInfo_families.simps) simp
  next
    case True
    then have "[family..<length qfs] = family # [family + 1..<length qfs]"
      by (simp add: upt_conv_Cons)
    with True "1.IH" show ?thesis
      by (subst PrintGpuInfo_families.simps) simp
  qed
qed

text \<open>
  The report of one device, as a whole: the line of the device, the heap section, the
  queue families, the extensions, the layers.
\<close>

lemma PrintGpuInfo_layout:
  assumes "memory_in_bounds (memory info)"
    and "length (GpuInfo.layers info) \<le> length (GpuInfo.layer_extensions info)"
  shows "PrintGpuInfo vk info out =
     Inr (out @ [gpu_line (properties info)] @
          concat (map (heap_block vk (memory info)) [0..<unat (memoryHeapCount (memory info))]) @
          map (\<lambda>f. queue_family_line vk f (queue_families info ! f)) [0..<length (queue_families info)] @
          (if GpuInfo.extensions info \<noteq> []
           then (''    Extensions ['' @ fmt_u (length (GpuInfo.extensions info)) @ '']:'' @ newline) #
                map (extension_line ''      '') (GpuInfo.extensions info)
           else []) @
          (if GpuInfo.layers info \<noteq> []
           then (''    Layers ['' @ fmt_u (length (GpuInfo.layers info)) @ '']:'' @ newline) #
                layer_blocks ''      '' (GpuInfo.layers info) (GpuInfo.layer_extensions info)
           else []))"
  using assms
  by (simp add: PrintGpuInfo_def PrintGpuInfo_heaps_eq PrintGpuInfo_families_eq PrintExtensions_eq
      PrintLayers_eq Let_def)

lemma PrintGpuInfo_device_report:
  assumes "memory_in_bounds (memory info)"
    and "length (GpuInfo.layers info) \<le> length (GpuInfo.layer_extensions info)"
  shows "PrintGpuInfo vk info out = Inr (out @ device_report vk info)"
  using PrintGpuInfo_layout [OF assms] by (simp add: device_report_def)

lemma type_line_chars:
  "type_line vk type t ! 2 = CHR '' ''" "type_line vk type t ! 4 = CHR '' ''"
  "type_line vk type t ! 6 = CHR ''T''"
  by (simp_all add: type_line_def Let_def)

lemma differ_at: "xs ! n \<noteq> ys ! n \<Longrightarrow> xs \<noteq> ys"
  by auto

lemma type_line_not_gpu_line: "type_line vk type t \<noteq> gpu_line p"
  by (rule differ_at [of _ 2]) (simp add: type_line_chars gpu_line_def dquote_def)

lemma type_line_not_queue_family_line: "type_line vk type t \<noteq> queue_family_line vk family q"
  by (rule differ_at [of _ 4]) (simp add: type_line_chars queue_family_line_def Let_def)

lemma type_line_not_extensions_header: "type_line vk type t \<noteq> ''    Extensions ['' @ r"
  by (rule differ_at [of _ 4]) (simp add: type_line_chars)

lemma type_line_not_layers_header: "type_line vk type t \<noteq> ''    Layers ['' @ r"
  by (rule differ_at [of _ 4]) (simp add: type_line_chars)

lemma type_line_not_layer_extensions_header:
  "type_line vk type t \<noteq> layer_extensions_header ''      '' es"
  by (rule differ_at [of _ 6]) (simp add: type_line_chars layer_extensions_header_def)


lemma type_line_one_newline: "count_list (type_line vk type t) (CHR 0x0A) = 1"
  by (simp add: type_line_def Let_def newline_def count_list_notin fmt_u_no_newline)

lemma layer_line_two_newlines: "2 \<le> count_list (layer_line prefix l) (CHR 0x0A)"
  by (simp add: layer_line_def newline_def)

lemma type_line_not_layer_line: "type_line vk type t \<noteq> layer_line prefix l"
  using type_line_one_newline [of vk type t] layer_line_two_newlines [of prefix l] by auto


lemma type_line_end: "last (butlast (type_line vk type t)) \<noteq> CHR '')''"
  by (simp add: type_line_def Let_def newline_def butlast_append)

lemma extension_line_end: "last (butlast (extension_line prefix e)) = CHR '')''"
  by (simp add: extension_line_def newline_def butlast_append)

lemma type_line_not_extension_line: "type_line vk type t \<noteq> extension_line prefix e"
  using type_line_end [of vk type t] extension_line_end [of prefix e] by auto


lemma type_line_not_in_layer_blocks:
  "type_line vk type t \<notin> set (layer_blocks ''      '' ls les)"
  by (auto simp: layer_blocks_def layer_block_def type_line_not_layer_line
      type_line_not_layer_extensions_header type_line_not_extension_line)

lemma count_list_device_report:
  "count_list (device_report vk info) (type_line vk type t) =
   count_list (concat (map (heap_block vk (memory info)) [0..<unat (memoryHeapCount (memory info))]))
     (type_line vk type t)"
proof -
  have "type_line vk type t \<notin>
      set (map (\<lambda>family. queue_family_line vk family (queue_families info ! family))
             [0..<length (queue_families info)])"
    by (auto simp: type_line_not_queue_family_line)
  moreover have "type_line vk type t \<notin> set (map (extension_line ''      '') (GpuInfo.extensions info))"
    by (auto simp: type_line_not_extension_line)
  moreover note type_line_not_in_layer_blocks [of vk type t "GpuInfo.layers info" "GpuInfo.layer_extensions info"]
  ultimately show ?thesis
    using type_line_not_gpu_line [of vk type t "properties info", symmetric]
      type_line_not_extensions_header [of vk type t, symmetric]
      type_line_not_layers_header [of vk type t, symmetric]
    by (simp add: device_report_def count_list_notin)
qed

text \<open>
  Claim C7. Let the counts of a memory description stay within its arrays (and the layer
  list be no longer than the list of extension lists, as in every gathered snapshot, so
  that the report of the device is printed to its end). A memory type that is rendered,
  that is one whose heap index is below the heap count, has its line exactly once in
  the report of the device, and that line is in the block of the heap that its heap
  index names and in no other block, whatever the order of the heap indices among the
  types and whatever gaps they leave.
\<close>

theorem memory_type_under_its_heap:
  assumes "memory_in_bounds (memory info)"
    and "length (GpuInfo.layers info) \<le> length (GpuInfo.layer_extensions info)"
    and "type < unat (memoryTypeCount (memory info))"
    and "unat (heapIndex (memoryTypes (memory info) ! type)) < unat (memoryHeapCount (memory info))"
  shows "PrintGpuInfo vk info out = Inr (out @ device_report vk info) \<and>
         count_list (device_report vk info) (type_line vk type (memoryTypes (memory info) ! type)) = 1 \<and>
         (\<forall>heap. count_list (heap_block vk (memory info) heap)
                    (type_line vk type (memoryTypes (memory info) ! type)) =
                  (if heap = unat (heapIndex (memoryTypes (memory info) ! type)) then 1 else 0))"
  using assms
  by (auto simp add: PrintGpuInfo_device_report count_list_device_report count_in_heap_section
      count_in_heap_block)

text \<open>
  Claim C10. Under the same conditions, a memory type whose heap index is not below the
  heap count has its line nowhere in the report of the device, so under no heap; the
  rendering still succeeds, with the line of every heap and, exactly once and under its
  heap, the line of every memory type whose heap index is below the heap count.
\<close>

theorem memory_type_beyond_heaps_omitted:
  assumes "memory_in_bounds (memory info)"
    and "length (GpuInfo.layers info) \<le> length (GpuInfo.layer_extensions info)"
    and "type < unat (memoryTypeCount (memory info))"
    and "unat (memoryHeapCount (memory info)) \<le> unat (heapIndex (memoryTypes (memory info) ! type))"
  shows "PrintGpuInfo vk info out = Inr (out @ device_report vk info) \<and>
         type_line vk type (memoryTypes (memory info) ! type) \<notin> set (device_report vk info) \<and>
         (\<forall>heap < unat (memoryHeapCount (memory info)).
            heap_line vk heap (memoryHeaps (memory info) ! heap) \<in> set (device_report vk info)) \<and>
         (\<forall>t < unat (memoryTypeCount (memory info)).
            unat (heapIndex (memoryTypes (memory info) ! t)) < unat (memoryHeapCount (memory info)) \<longrightarrow>
            count_list (device_report vk info) (type_line vk t (memoryTypes (memory info) ! t)) = 1 \<and>
            count_list (heap_block vk (memory info) (unat (heapIndex (memoryTypes (memory info) ! t))))
              (type_line vk t (memoryTypes (memory info) ! t)) = 1)"
proof (intro conjI allI impI)
  show "PrintGpuInfo vk info out = Inr (out @ device_report vk info)"
    using assms(1,2) by (rule PrintGpuInfo_device_report)
next
  have "count_list (device_report vk info) (type_line vk type (memoryTypes (memory info) ! type)) = 0"
    using assms(4) by (simp add: count_list_device_report count_in_heap_section [OF assms(3)])
  then show "type_line vk type (memoryTypes (memory info) ! type) \<notin> set (device_report vk info)"
    by (simp add: count_list_0_iff)
next
  fix heap assume "heap < unat (memoryHeapCount (memory info))"
  then show "heap_line vk heap (memoryHeaps (memory info) ! heap) \<in> set (device_report vk info)"
    by (auto simp: device_report_def heap_block_def)
next
  fix t assume t: "t < unat (memoryTypeCount (memory info))"
    "unat (heapIndex (memoryTypes (memory info) ! t)) < unat (memoryHeapCount (memory info))"
  then show "count_list (device_report vk info) (type_line vk t (memoryTypes (memory info) ! t)) = 1"
    by (simp add: count_list_device_report count_in_heap_section)
  from t show "count_list (heap_block vk (memory info) (unat (heapIndex (memoryTypes (memory info) ! t))))
              (type_line vk t (memoryTypes (memory info) ! t)) = 1"
    by (simp add: count_in_heap_block)
qed

lemma upt_3: "[0..<3] = [0, 1, 2]"
  by code_simp

lemma scattered_in_bounds: "memory_in_bounds scattered_memory"
  by (simp add: memory_in_bounds_def scattered_memory_def)

lemma scattered_blocks:
  "heap_block vulkan_1_0 scattered_memory 0 =
     [''    Heap 0: 1 MiB (0x1000000 B) \<newline>'', ''      Type 1: HOST_VISIBLE COHERENT\<newline>'']"
  "heap_block vulkan_1_0 scattered_memory (Suc 0) = [''    Heap 1: 2 MiB (0x2000000 B) \<newline>'']"
  "heap_block vulkan_1_0 scattered_memory 2 =
     [''    Heap 2: 4 MiB (0x4000000 B) DEVICE_LOCAL\<newline>'', ''      Type 0: DEVICE_LOCAL\<newline>'']"
  by (simp_all add: heap_block_def types_of_heap_def heap_line_def type_line_def scattered_memory_def
      vulkan_1_0_def upt_3 fmt_u.simps fmt_x.simps digit_char_def newline_def Let_def)

lemma scattered_type_lines:
  "type_line vulkan_1_0 0 (memoryTypes scattered_memory ! 0) = ''      Type 0: DEVICE_LOCAL\<newline>''"
  "type_line vulkan_1_0 2 (memoryTypes scattered_memory ! 2) = ''      Type 2:\<newline>''"
  by (simp_all add: type_line_def scattered_memory_def vulkan_1_0_def fmt_u.simps digit_char_def
      newline_def Let_def)

text \<open>The report of the sample device with the scattered memory.\<close>

lemma scattered_report:
  "device_report vulkan_1_0 scattered_gpu =
     [''  '' @ dquote @ ''gpu'' @ dquote @ '' (INTEGRATED_GPU) 1.0.3/0x1 [10de:0092]\<newline>'',
      ''    Heap 0: 1 MiB (0x1000000 B) \<newline>'', ''      Type 1: HOST_VISIBLE COHERENT\<newline>'',
      ''    Heap 1: 2 MiB (0x2000000 B) \<newline>'',
      ''    Heap 2: 4 MiB (0x4000000 B) DEVICE_LOCAL\<newline>'', ''      Type 0: DEVICE_LOCAL\<newline>'',
      ''    Queue Family 0: 1x GC__\<newline>      timestampValidBits: 36b\<newline>      minImageTransferGranularity: (1,1,1)\<newline>'',
      ''    Extensions [1]:\<newline>'', ''      VK_KHR_swapchain (v68)\<newline>'',
      ''    Layers [1]:\<newline>'', ''      L1 1.0.3/1\<newline>        a layer\<newline>'',
      ''        Extensions [1]:\<newline>'', ''          d1 (v1)\<newline>'']"
proof -
  have m: "memory scattered_gpu = scattered_memory"
    "unat (memoryHeapCount scattered_memory) = 3"
    by (simp_all add: scattered_gpu_def scattered_memory_def)
  have rest: "properties scattered_gpu = dev_properties scenario_device"
    "queue_families scattered_gpu = dev_queue_families scenario_device"
    "GpuInfo.extensions scattered_gpu = [ext ''VK_KHR_swapchain'' 68]"
    "GpuInfo.layers scattered_gpu = [layer ''L1'']"
    "GpuInfo.layer_extensions scattered_gpu = [[ext ''d1'' 1]]"
    by (simp_all add: scattered_gpu_def)
  have heaps: "concat (map (heap_block vulkan_1_0 scattered_memory) [0, 1, 2]) =
     [''    Heap 0: 1 MiB (0x1000000 B) \<newline>'', ''      Type 1: HOST_VISIBLE COHERENT\<newline>'',
      ''    Heap 1: 2 MiB (0x2000000 B) \<newline>'',
      ''    Heap 2: 4 MiB (0x4000000 B) DEVICE_LOCAL\<newline>'', ''      Type 0: DEVICE_LOCAL\<newline>'']"
    by (simp add: scattered_blocks)
  have families: "map (\<lambda>family. queue_family_line vulkan_1_0 family
                        (dev_queue_families scenario_device ! family))
                    [0..<length (dev_queue_families scenario_device)] =
     [''    Queue Family 0: 1x GC__\<newline>      timestampValidBits: 36b\<newline>      minImageTransferGranularity: (1,1,1)\<newline>'']"
    by (simp add: queue_family_line_def scenario_device_def vulkan_1_0_def
        VkQueueFlagBits_value_1_0_def fmt_simps Let_def)
  show ?thesis
    unfolding device_report_def m rest upt_3 heaps families
    by (simp add: gpu_line_def extension_line_def
      layer_blocks_def layer_block_def layer_line_def layer_extensions_header_def version_str_def
      ExtractMajorVersion_def ExtractMinorVersion_def ExtractPatchVersion_def pack_version_def
      VkPhysicalDeviceTypeStr_def scenario_device_def ext_def layer_def fmt_simps)
qed

lemma scattered_gpu_layers:
  "length (GpuInfo.layers scattered_gpu) \<le> length (GpuInfo.layer_extensions scattered_gpu)"
  by (simp add: scattered_gpu_def)

lemma scattered_gpu_memory: "memory scattered_gpu = scattered_memory"
  by (simp add: scattered_gpu_def)

theorem memory_type_under_its_heap_witness:
  "memory_in_bounds (memory scattered_gpu) \<and>
   length (GpuInfo.layers scattered_gpu) \<le> length (GpuInfo.layer_extensions scattered_gpu) \<and>
   0 < unat (memoryTypeCount (memory scattered_gpu)) \<and>
   unat (heapIndex (memoryTypes (memory scattered_gpu) ! 0)) <
     unat (memoryHeapCount (memory scattered_gpu)) \<and>
   PrintGpuInfo vulkan_1_0 scattered_gpu [] = Inr (device_report vulkan_1_0 scattered_gpu) \<and>
   count_list (device_report vulkan_1_0 scattered_gpu) ''      Type 0: DEVICE_LOCAL\<newline>'' = 1 \<and>
   count_list (heap_block vulkan_1_0 scattered_memory 2) ''      Type 0: DEVICE_LOCAL\<newline>'' = 1 \<and>
   count_list (heap_block vulkan_1_0 scattered_memory 0) ''      Type 0: DEVICE_LOCAL\<newline>'' = 0"
proof -
  have a: "memory_in_bounds (memory scattered_gpu)"
    by (simp add: scattered_gpu_memory scattered_in_bounds)
  have b: "0 < unat (memoryTypeCount (memory scattered_gpu))"
    by (simp add: scattered_gpu_memory scattered_memory_def)
  have c: "unat (heapIndex (memoryTypes (memory scattered_gpu) ! 0)) <
     unat (memoryHeapCount (memory scattered_gpu))"
    by (simp add: scattered_gpu_memory scattered_memory_def)
  have d: "unat (heapIndex (memoryTypes scattered_memory ! 0)) = 2"
    by (simp add: scattered_memory_def)
  show ?thesis
    using a scattered_gpu_layers b c
      memory_type_under_its_heap [OF a scattered_gpu_layers b c, of vulkan_1_0 "[]"]
    by (simp add: scattered_gpu_memory scattered_type_lines d)
qed

theorem memory_type_beyond_heaps_omitted_witness:
  "memory_in_bounds (memory scattered_gpu) \<and>
   length (GpuInfo.layers scattered_gpu) \<le> length (GpuInfo.layer_extensions scattered_gpu) \<and>
   2 < unat (memoryTypeCount (memory scattered_gpu)) \<and>
   unat (memoryHeapCount (memory scattered_gpu)) \<le>
     unat (heapIndex (memoryTypes (memory scattered_gpu) ! 2)) \<and>
   PrintGpuInfo vulkan_1_0 scattered_gpu [] = Inr (device_report vulkan_1_0 scattered_gpu) \<and>
   type_line vulkan_1_0 2 (memoryTypes (memory scattered_gpu) ! 2) = ''      Type 2:\<newline>'' \<and>
   ''      Type 2:\<newline>'' \<notin> set (device_report vulkan_1_0 scattered_gpu)"
proof -
  have a: "memory_in_bounds (memory scattered_gpu)"
    by (simp add: scattered_gpu_memory scattered_in_bounds)
  have b: "2 < unat (memoryTypeCount (memory scattered_gpu))"
    by (simp add: scattered_gpu_memory scattered_memory_def)
  have c: "unat (memoryHeapCount (memory scattered_gpu)) \<le>
     unat (heapIndex (memoryTypes (memory scattered_gpu) ! 2))"
    by (simp add: scattered_gpu_memory scattered_memory_def)
  show ?thesis
    using a scattered_gpu_layers b c
      memory_type_beyond_heaps_omitted [OF a scattered_gpu_layers b c, of vulkan_1_0 "[]"]
    by (simp add: scattered_gpu_memory scattered_type_lines)
qed

section \<open>The snapshot and the whole report\<close>

subsection \<open>What a filled vector holds\<close>

lemma set_resize: "set (resize v n d) \<subseteq> insert d (set v)"
  by (auto simp: resize_def dest: in_set_takeD)

lemma set_store: "set (store written v) \<subseteq> set written \<union> set v"
  by (auto simp: store_def dest: in_set_takeD in_set_dropD)

lemma store_agrees:
  "take (length written) (store written v) = take (length (store written v)) written"
proof (cases "length written \<le> length v")
  case True
  then show ?thesis by (simp add: store_def)
next
  case False
  then show ?thesis by (simp add: store_def min_def)
qed

text \<open>
  A property of the variables of the loop that holds on entry and that every round
  answered with \<^verbatim>\<open>VK_INCOMPLETE\<close> keeps, holds when the last round begins.
\<close>

lemma do_while_last_round_inv:
  assumes run: "do_while_incomplete body st = Some r"
    and init: "I st"
    and step: "\<And>st st'. I st \<Longrightarrow> body st = (VK_INCOMPLETE, st') \<Longrightarrow> I st'"
  shows "\<exists>st0. I st0 \<and> body st0 = r \<and> fst r \<noteq> VK_INCOMPLETE"
proof -
  have "b = body \<longrightarrow> I st \<longrightarrow> (\<exists>st0. I st0 \<and> body st0 = r \<and> fst r \<noteq> VK_INCOMPLETE)"
    if "do_while_incomplete b st = Some r" for b st r
  proof (rule do_while_incomplete.raw_induct
      [where P = "\<lambda>b st r. b = body \<longrightarrow> I st \<longrightarrow>
                     (\<exists>st0. I st0 \<and> body st0 = r \<and> fst r \<noteq> VK_INCOMPLETE)", OF _ that])
    fix do_while :: "('a \<Rightarrow> VkResult \<times> 'a) \<Rightarrow> 'a \<Rightarrow> (VkResult \<times> 'a) option" and b st r
    assume IH: "\<And>b st r. do_while b st = Some r \<Longrightarrow> b = body \<longrightarrow> I st \<longrightarrow>
                  (\<exists>st0. I st0 \<and> body st0 = r \<and> fst r \<noteq> VK_INCOMPLETE)"
      and eq: "(case b st of (result, st') \<Rightarrow>
                  if result = VK_INCOMPLETE then do_while b st' else Some (result, st')) = Some r"
    show "b = body \<longrightarrow> I st \<longrightarrow> (\<exists>st0. I st0 \<and> body st0 = r \<and> fst r \<noteq> VK_INCOMPLETE)"
    proof (intro impI)
      assume b: "b = body" and i: "I st"
      obtain result st' where bs: "body st = (result, st')" by (cases "body st") auto
      show "\<exists>st0. I st0 \<and> body st0 = r \<and> fst r \<noteq> VK_INCOMPLETE"
      proof (cases "result = VK_INCOMPLETE")
        case True
        with eq b bs have "do_while body st' = Some r" by simp
        moreover from step [OF i] bs True have "I st'" by simp
        ultimately show ?thesis using IH [of body st' r] by simp
      next
        case False
        with eq b bs have "r = (result, st')" by auto
        with bs False i show ?thesis by auto
      qed
    qed
  qed
  from this [OF run] init show ?thesis by simp
qed

lemma enumerate_with_retry_answered:
  fixes q :: "u32 option \<Rightarrow> 's \<Rightarrow> VkResult \<times> u32 \<times> 'e list \<times> 's"
  assumes "enumerate_with_retry q proc d [] s = Some (Inr (n, v, s'))"
  shows "answered_by q v s' \<and> (\<forall>e \<in> set v. e = d \<or> written_by q e)"
proof -
  let ?I = "\<lambda>(count :: u32, v :: 'e list, has_storage :: bool, s :: 's).
              \<forall>e \<in> set v. e = d \<or> written_by q e"
  obtain result count0 w0 s0 where q0: "q None s = (result, count0, w0, s0)"
    by (cases "q None s") auto
  with assms have r: "result = VK_SUCCESS"
    by (auto simp: enumerate_with_retry_unfold die_def split: if_splits)
  from assms q0 r obtain h where
    run: "do_while_incomplete (fetch_round q d) (count0, [], False, s0) = Some (VK_SUCCESS, n, v, h, s')"
    by (auto simp: enumerate_with_retry_unfold die_def split: if_splits option.splits)
  have step: "?I st'" if "?I st" and "fetch_round q d st = (VK_INCOMPLETE, st')" for st st'
  proof -
    obtain c u hs t where st: "st = (c, u, hs, t)" by (cases st) auto
    obtain res c' written t' where
      a: "q (data_pointer (hs \<or> 0 < unat c) c) t = (res, c', written, t')"
      by (cases "q (data_pointer (hs \<or> 0 < unat c) c) t") auto
    with that(2) st have st': "st' = (c', store written (resize u (unat c) d), hs \<or> 0 < unat c, t')"
      by (simp add: fetch_round_apply)
    have "e = d \<or> written_by q e" if "e \<in> set (store written (resize u (unat c) d))" for e
    proof -
      from that set_store [of written "resize u (unat c) d"] set_resize [of u "unat c" d]
      consider "e \<in> set written" | "e = d" | "e \<in> set u" by auto
      then show ?thesis
      proof cases
        case 1
        with a have "written_by q e" unfolding written_by_def by blast
        then show ?thesis ..
      next
        case 2
        then show ?thesis by simp
      next
        case 3
        with \<open>?I st\<close> st show ?thesis by simp
      qed
    qed
    with st' show ?thesis by simp
  qed
  have "\<exists>st0. ?I st0 \<and> fetch_round q d st0 = (VK_SUCCESS, n, v, h, s') \<and>
              fst (VK_SUCCESS, n, v, h, s') \<noteq> VK_INCOMPLETE"
  proof (rule do_while_last_round_inv [where I = ?I, OF run])
    show "?I (count0, [], False, s0)" by simp
  next
    fix st st' assume "?I st" "fetch_round q d st = (VK_INCOMPLETE, st')"
    then show "?I st'" by (rule step)
  qed
  then obtain st0 where i0: "?I st0" and last: "fetch_round q d st0 = (VK_SUCCESS, n, v, h, s')"
    by (elim exE conjE)
  obtain c u hs t where st0: "st0 = (c, u, hs, t)" by (cases st0) auto
  obtain res c' written t' where
    a: "q (data_pointer (hs \<or> 0 < unat c) c) t = (res, c', written, t')"
    by (cases "q (data_pointer (hs \<or> 0 < unat c) c) t") auto
  with last st0 have res: "res = VK_SUCCESS" "t' = s'"
    and v: "v = store written (resize u (unat c) d)"
    by (simp_all add: fetch_round_apply)
  have lv: "length v = unat c"
    using v by (simp add: length_store length_resize)
  have arr: "case data_pointer (hs \<or> 0 < unat c) c of
               None \<Rightarrow> v = [] | Some capacity \<Rightarrow> unat capacity = length v"
    using lv by (auto simp: data_pointer_def)
  have agree: "take (length written) v = take (length v) written"
    using v store_agrees [of written "resize u (unat c) d"] by simp
  then have exact: "length written = length v \<longrightarrow> v = written"
    by auto
  have "answered_by q v s'"
    unfolding answered_by_def using a res arr agree exact by blast
  moreover have "e = d \<or> written_by q e" if "e \<in> set v" for e
  proof -
    from that v set_store [of written "resize u (unat c) d"] set_resize [of u "unat c" d]
    consider "e \<in> set written" | "e = d" | "e \<in> set u" by auto
    then show ?thesis
    proof cases
      case 1
      with a have "written_by q e" unfolding written_by_def by blast
      then show ?thesis ..
    next
      case 2
      then show ?thesis by simp
    next
      case 3
      with i0 st0 show ?thesis by simp
    qed
  qed
  ultimately show ?thesis by blast
qed

lemma EnumerateInstanceExtensions_answered:
  assumes "EnumerateInstanceExtensions rt name [] s = Some (Inr (v, s'))"
  shows "answered_by (vkEnumerateInstanceExtensionProperties rt name) v s' \<and>
         (\<forall>e \<in> set v. e = VkExtensionProperties_zero \<or>
                      written_by (vkEnumerateInstanceExtensionProperties rt name) e)"
proof -
  from assms obtain n where
    "enumerate_with_retry (vkEnumerateInstanceExtensionProperties rt name)
       ''vkEnumerateInstanceExtensionProperties'' VkExtensionProperties_zero [] s = Some (Inr (n, v, s'))"
    by (auto simp: EnumerateInstanceExtensions_pattern without_count_def
        split: option.splits sum.splits)
  then show ?thesis by (rule enumerate_with_retry_answered)
qed

lemma EnumerateDeviceExtensions_answered:
  assumes "EnumerateDeviceExtensions rt gpu name [] s = Some (Inr (v, s'))"
  shows "answered_by (vkEnumerateDeviceExtensionProperties rt gpu name) v s' \<and>
         (\<forall>e \<in> set v. e = VkExtensionProperties_zero \<or>
                      written_by (vkEnumerateDeviceExtensionProperties rt gpu name) e)"
proof -
  from assms obtain n where
    "enumerate_with_retry (vkEnumerateDeviceExtensionProperties rt gpu name)
       ''vkEnumerateDeviceExtensionProperties'' VkExtensionProperties_zero [] s = Some (Inr (n, v, s'))"
    by (auto simp: EnumerateDeviceExtensions_pattern without_count_def
        split: option.splits sum.splits)
  then show ?thesis by (rule enumerate_with_retry_answered)
qed

subsection \<open>The loops over the layers and over the devices\<close>

lemma GatherInfo_layer_extensions_aligned:
  assumes "GatherInfo_layer_extensions rt layers' 0 (replicate (length layers') []) s = Some (Inr (les, s'))"
  shows "\<exists>ss. ss ! 0 = s \<and> ss ! length layers' = s' \<and>
           queried_in_order (EnumerateInstanceExtensions rt) (vkEnumerateInstanceExtensionProperties rt)
             layers' les ss"
proof -
  from indexed_loop_chain
    [where L = "GatherInfo_layer_extensions rt layers'" and n = "length layers'"
       and Q = "\<lambda>i. EnumerateInstanceExtensions rt (Some (layerName (layers' ! i)))"
       and oob = UndefinedBehaviour, OF GatherInfo_layer_extensions.simps assms]
  obtain ss where len: "length les = length layers'" "length ss = length layers' + 1"
    and ends: "ss ! 0 = s" "ss ! length layers' = s'"
    and chain: "\<forall>j. j < length layers' \<longrightarrow>
           EnumerateInstanceExtensions rt (Some (layerName (layers' ! j)))
             (replicate (length layers') [] ! j) (ss ! j) = Some (Inr (les ! j, ss ! (j + 1)))"
    by auto
  have call: "EnumerateInstanceExtensions rt (Some (layerName (layers' ! j))) [] (ss ! j) =
          Some (Inr (les ! j, ss ! (j + 1)))" if "j < length layers'" for j
    using chain that by auto
  have "queried_in_order (EnumerateInstanceExtensions rt) (vkEnumerateInstanceExtensionProperties rt)
               layers' les ss"
    unfolding queried_in_order_def
  proof (intro conjI allI impI)
    show "length les = length layers'" by fact
    show "length ss = length layers' + 1" by fact
  next
    fix i assume i: "i < length layers'"
    show "EnumerateInstanceExtensions rt (Some (layerName (layers' ! i))) [] (ss ! i) =
            Some (Inr (les ! i, ss ! (i + 1)))"
      by (rule call [OF i])
    show "answered_by (vkEnumerateInstanceExtensionProperties rt (Some (layerName (layers' ! i)))) (les ! i) (ss ! (i + 1))"
      by (rule conjunct1 [OF EnumerateInstanceExtensions_answered [OF call [OF i]]])
    show "\<forall>e \<in> set (les ! i). e = VkExtensionProperties_zero \<or>
            written_by (vkEnumerateInstanceExtensionProperties rt (Some (layerName (layers' ! i)))) e"
      by (rule conjunct2 [OF EnumerateInstanceExtensions_answered [OF call [OF i]]])
  qed
  with ends show ?thesis by (intro exI [of _ ss] conjI)
qed

lemma GatherGpuInfo_layer_extensions_aligned:
  assumes "GatherGpuInfo_layer_extensions rt gpu layers' 0 (replicate (length layers') []) s =
             Some (Inr (les, s'))"
  shows "\<exists>ss. ss ! 0 = s \<and> ss ! length layers' = s' \<and>
           queried_in_order (EnumerateDeviceExtensions rt gpu) (vkEnumerateDeviceExtensionProperties rt gpu)
             layers' les ss"
proof -
  from indexed_loop_chain
    [where L = "GatherGpuInfo_layer_extensions rt gpu layers'" and n = "length layers'"
       and Q = "\<lambda>i. EnumerateDeviceExtensions rt gpu (Some (layerName (layers' ! i)))"
       and oob = UndefinedBehaviour, OF GatherGpuInfo_layer_extensions.simps assms]
  obtain ss where len: "length les = length layers'" "length ss = length layers' + 1"
    and ends: "ss ! 0 = s" "ss ! length layers' = s'"
    and chain: "\<forall>j. j < length layers' \<longrightarrow>
           EnumerateDeviceExtensions rt gpu (Some (layerName (layers' ! j)))
             (replicate (length layers') [] ! j) (ss ! j) = Some (Inr (les ! j, ss ! (j + 1)))"
    by auto
  have call: "EnumerateDeviceExtensions rt gpu (Some (layerName (layers' ! j))) [] (ss ! j) =
          Some (Inr (les ! j, ss ! (j + 1)))" if "j < length layers'" for j
    using chain that by auto
  have "queried_in_order (EnumerateDeviceExtensions rt gpu) (vkEnumerateDeviceExtensionProperties rt gpu)
               layers' les ss"
    unfolding queried_in_order_def
  proof (intro conjI allI impI)
    show "length les = length layers'" by fact
    show "length ss = length layers' + 1" by fact
  next
    fix i assume i: "i < length layers'"
    show "EnumerateDeviceExtensions rt gpu (Some (layerName (layers' ! i))) [] (ss ! i) =
            Some (Inr (les ! i, ss ! (i + 1)))"
      by (rule call [OF i])
    show "answered_by (vkEnumerateDeviceExtensionProperties rt gpu (Some (layerName (layers' ! i)))) (les ! i) (ss ! (i + 1))"
      by (rule conjunct1 [OF EnumerateDeviceExtensions_answered [OF call [OF i]]])
    show "\<forall>e \<in> set (les ! i). e = VkExtensionProperties_zero \<or>
            written_by (vkEnumerateDeviceExtensionProperties rt gpu (Some (layerName (layers' ! i)))) e"
      by (rule conjunct2 [OF EnumerateDeviceExtensions_answered [OF call [OF i]]])
  qed
  with ends show ?thesis by (intro exI [of _ ss] conjI)
qed

lemma GatherGpuInfo_fields:
  assumes "GatherGpuInfo vk rt gpu (GpuInfo_zero vk) t = Some (Inr (g, t'))"
  shows "\<exists>te tf tg.
           GatherGpuInfo_layers rt gpu []
             (snd (GatherGpuInfo_queue_families rt gpu []
                (snd (vkGetPhysicalDeviceFeatures rt gpu
                   (snd (vkGetPhysicalDeviceMemoryProperties rt gpu
                      (snd (vkGetPhysicalDeviceProperties rt gpu t)))))))) =
             Some (Inr (GpuInfo.layers g, te)) \<and>
           EnumerateDeviceExtensions rt gpu None [] te = Some (Inr (GpuInfo.extensions g, tf)) \<and>
           GatherGpuInfo_layer_extensions rt gpu (GpuInfo.layers g) 0
             (replicate (length (GpuInfo.layers g)) []) tf =
             Some (Inr (GpuInfo.layer_extensions g, tg))"
  using assms
  by (auto simp: GatherGpuInfo_def GpuInfo_zero_def Let_def die_def resize_empty
      split: prod.splits option.splits sum.splits if_splits)

lemma GatherGpuInfo_gathered:
  assumes "GatherGpuInfo vk rt gpu (GpuInfo_zero vk) t = Some (Inr (g, t'))"
  shows "device_gathered vk rt gpu g t t'"
proof -
  from GatherGpuInfo_fields [OF assms] obtain te tf tg where
    l: "GatherGpuInfo_layers rt gpu []
             (snd (GatherGpuInfo_queue_families rt gpu []
                (snd (vkGetPhysicalDeviceFeatures rt gpu
                   (snd (vkGetPhysicalDeviceMemoryProperties rt gpu
                      (snd (vkGetPhysicalDeviceProperties rt gpu t)))))))) =
             Some (Inr (GpuInfo.layers g, te))"
    and e: "EnumerateDeviceExtensions rt gpu None [] te = Some (Inr (GpuInfo.extensions g, tf))"
    and les: "GatherGpuInfo_layer_extensions rt gpu (GpuInfo.layers g) 0
             (replicate (length (GpuInfo.layers g)) []) tf =
             Some (Inr (GpuInfo.layer_extensions g, tg))"
    by (elim exE conjE)
  from GatherGpuInfo_layer_extensions_aligned [OF les] obtain ss where
    ss: "ss ! 0 = tf"
    "queried_in_order (EnumerateDeviceExtensions rt gpu) (vkEnumerateDeviceExtensionProperties rt gpu)
       (GpuInfo.layers g) (GpuInfo.layer_extensions g) ss"
    by (elim exE conjE)
  from e ss(1) have "EnumerateDeviceExtensions rt gpu None [] te = Some (Inr (GpuInfo.extensions g, ss ! 0))"
    by simp
  with assms l ss(2) show ?thesis
    unfolding device_gathered_def by (intro conjI exI [of _ te] exI [of _ ss])
qed

lemma GatherInfo_gpus_gathered:
  assumes "GatherInfo_gpus vk rt gpus' 0 (replicate k (GpuInfo_zero vk)) t = Some (Inr (w, t'))"
  shows "length w = k \<and> length gpus' \<le> k \<and>
         (\<exists>ts. length ts = length gpus' + 1 \<and> ts ! 0 = t \<and> ts ! length gpus' = t' \<and>
               (\<forall>j < length gpus'. device_gathered vk rt (gpus' ! j) (w ! j) (ts ! j) (ts ! (j + 1)))) \<and>
         (\<forall>j < k. length gpus' \<le> j \<longrightarrow> w ! j = GpuInfo_zero vk)"
proof -
  from indexed_loop_chain
    [where L = "GatherInfo_gpus vk rt gpus'" and n = "length gpus'"
       and Q = "\<lambda>i. GatherGpuInfo vk rt (gpus' ! i)"
       and oob = OutOfRange, OF GatherInfo_gpus.simps assms]
  obtain ts where lw: "length w = k"
    and same: "\<forall>j < k. length gpus' \<le> j \<longrightarrow> w ! j = GpuInfo_zero vk"
    and lts: "length ts = length gpus' + 1" and ends: "ts ! 0 = t" "ts ! length gpus' = t'"
    and chain: "\<forall>j. j < length gpus' \<longrightarrow> j < k \<and>
           GatherGpuInfo vk rt (gpus' ! j) (replicate k (GpuInfo_zero vk) ! j) (ts ! j) =
             Some (Inr (w ! j, ts ! (j + 1)))"
    by auto
  have le: "length gpus' \<le> k"
  proof (cases "gpus' = []")
    case False
    then have "length gpus' - 1 < length gpus'" by simp
    with chain have "length gpus' - 1 < k" by blast
    then show ?thesis by simp
  qed simp
  have "device_gathered vk rt (gpus' ! j) (w ! j) (ts ! j) (ts ! (j + 1))" if "j < length gpus'" for j
  proof -
    from chain that have jk: "j < k" by blast
    from chain that have "GatherGpuInfo vk rt (gpus' ! j) (replicate k (GpuInfo_zero vk) ! j) (ts ! j) =
             Some (Inr (w ! j, ts ! (j + 1)))"
      by blast
    with jk have "GatherGpuInfo vk rt (gpus' ! j) (GpuInfo_zero vk) (ts ! j) =
             Some (Inr (w ! j, ts ! (j + 1)))"
      by simp
    then show ?thesis by (rule GatherGpuInfo_gathered)
  qed
  then have "\<exists>ts. length ts = length gpus' + 1 \<and> ts ! 0 = t \<and> ts ! length gpus' = t' \<and>
               (\<forall>j < length gpus'. device_gathered vk rt (gpus' ! j) (w ! j) (ts ! j) (ts ! (j + 1)))"
    using lts ends by (intro exI [of _ ts] conjI allI impI)
  with lw le same show ?thesis by (intro conjI)
qed

lemma GatherInfo_fields:
  assumes "GatherInfo vk rt VulkanInfo_empty s = Some (Inr (info, s'))"
  shows "\<exists>s1 s2 s3 create_info instance' ta num_gpus gpus' tb tc.
           GatherInfo_layers rt [] s = Some (Inr (VulkanInfo.layers info, s1)) \<and>
           EnumerateInstanceExtensions rt None [] s1 = Some (Inr (VulkanInfo.extensions info, s2)) \<and>
           GatherInfo_layer_extensions rt (VulkanInfo.layers info) 0
             (replicate (length (VulkanInfo.layers info)) []) s2 =
             Some (Inr (VulkanInfo.layer_extensions info, s3)) \<and>
           vkCreateInstance rt create_info s3 = (VK_SUCCESS, instance', ta) \<and>
           GatherInfo_physical_devices rt instance' ta = Some (Inr (num_gpus, gpus', tb)) \<and>
           GatherInfo_gpus vk rt gpus' 0 (replicate (unat num_gpus) (GpuInfo_zero vk)) tb =
             Some (Inr (gpus info, tc)) \<and>
           s' = vkDestroyInstance rt instance' tc"
  using assms
  apply (auto simp: GatherInfo_def VulkanInfo_empty_def Let_def die_def resize_empty
      split: prod.splits option.splits sum.splits if_splits)
   apply (intro exI conjI, assumption+, rule refl)
  apply (intro exI conjI, assumption+, rule refl)
  done

subsection \<open>The whole report\<close>

lemma PrintInfo_gpus_eq:
  "\<forall>g \<in> set gs. memory_in_bounds (memory g) \<and>
                 length (GpuInfo.layers g) \<le> length (GpuInfo.layer_extensions g) \<Longrightarrow>
   PrintInfo_gpus vk gs out = Inr (out @ concat (map (device_report vk) gs))"
  by (induction gs arbitrary: out) (simp_all add: PrintGpuInfo_device_report)

lemma PrintInfo_report:
  assumes "length (VulkanInfo.layers info) \<le> length (VulkanInfo.layer_extensions info)"
    and "\<forall>g \<in> set (gpus info). memory_in_bounds (memory g) \<and>
                 length (GpuInfo.layers g) \<le> length (GpuInfo.layer_extensions g)"
  shows "PrintInfo vk info out = Inr (out @ vulkan_report vk info)"
  using assms
  by (simp add: PrintInfo_def vulkan_report_def PrintExtensions_eq PrintLayers_eq PrintInfo_gpus_eq
      Let_def)

subsection \<open>The pairing in snapshot and report\<close>

text \<open>
  Against claim C6 as stated. The scripted runtime has one instance layer, \<open>A\<close>. Asked
  for the extensions of that layer, it reports a count of three to the query of the
  count, and success with a count of two and the two extensions \<open>a\<close> and \<open>b\<close> to the
  fetch into the array of three. The extension list that the gatherer stores for the
  layer has three elements: the two that the runtime reported and a zero-initialised one,
  which the report prints as an extension without a name.
\<close>

theorem layer_extension_list_keeps_unreported_entry:
  "vkEnumerateInstanceExtensionProperties scripted_runtime (Some ''A'') None
     (no_script\<lparr>instance_extension_script :=
        [(VK_SUCCESS, 3, []), (VK_SUCCESS, 2, [ext ''a'' 1, ext ''b'' 1])]\<rparr>) =
     (VK_SUCCESS, 3, [],
      no_script\<lparr>instance_extension_script := [(VK_SUCCESS, 2, [ext ''a'' 1, ext ''b'' 1])]\<rparr>) \<and>
   vkEnumerateInstanceExtensionProperties scripted_runtime (Some ''A'') (Some 3)
     (no_script\<lparr>instance_extension_script := [(VK_SUCCESS, 2, [ext ''a'' 1, ext ''b'' 1])]\<rparr>) =
     (VK_SUCCESS, 2, [ext ''a'' 1, ext ''b'' 1], no_script) \<and>
   GatherInfo vulkan_1_0 scripted_runtime VulkanInfo_empty phantom_script =
     Some (Inr (\<lparr>extensions = [], layers = [layer ''A''],
                 layer_extensions = [[ext ''a'' 1, ext ''b'' 1, VkExtensionProperties_zero]],
                 gpus = []\<rparr>, no_script)) \<and>
   main vulkan_1_0 scripted_runtime phantom_script =
     Some (Exited
       [''Instance Extensions [0]:\<newline>'',
        ''Instance Layers [1]:\<newline>'',
        ''  A 1.0.3/1\<newline>    a layer\<newline>'',
        ''    Extensions [3]:\<newline>'',
        ''      a (v1)\<newline>'', ''      b (v1)\<newline>'', ''       (v0)\<newline>'',
        ''PhysicalDevices [0]:\<newline>'']
       [] 0)"
proof -
  have gather: "GatherInfo vulkan_1_0 scripted_runtime VulkanInfo_empty phantom_script =
     Some (Inr (\<lparr>extensions = [], layers = [layer ''A''],
                 layer_extensions = [[ext ''a'' 1, ext ''b'' 1, VkExtensionProperties_zero]],
                 gpus = []\<rparr>, no_script))"
    by (simp add: GatherInfo_def GatherInfo_layers_def EnumerateInstanceExtensions_def
        GatherInfo_layer_extensions.simps GatherInfo_physical_devices_def GatherInfo_gpus.simps
        available_in_layers.simps HasExtension_def VulkanInfo_empty_def
        do_while_incomplete.simps store_def resize_def die_def Let_def VK_NULL_HANDLE_def
        data_pointer_def vulkan_1_0_def scripted_runtime_def phantom_script_def no_script_def
        next_answer_def VkExtensionProperties_zero_def VkLayerProperties_zero_def ext_def layer_def)
  have print: "PrintInfo vulkan_1_0
       \<lparr>extensions = [], layers = [layer ''A''],
        layer_extensions = [[ext ''a'' 1, ext ''b'' 1, VkExtensionProperties_zero]],
        gpus = []\<rparr> [] =
     Inr [''Instance Extensions [0]:\<newline>'',
        ''Instance Layers [1]:\<newline>'',
        ''  A 1.0.3/1\<newline>    a layer\<newline>'',
        ''    Extensions [3]:\<newline>'',
        ''      a (v1)\<newline>'', ''      b (v1)\<newline>'', ''       (v0)\<newline>'',
        ''PhysicalDevices [0]:\<newline>'']"
    by (simp add: PrintInfo_def PrintLayers_def PrintLayers_loop.simps layer_line_def
        layer_extensions_header_def extension_line_def version_str_def ExtractMajorVersion_def
        ExtractMinorVersion_def ExtractPatchVersion_def pack_version_def ext_def layer_def
        VkExtensionProperties_zero_def fmt_u.simps digit_char_def newline_def Let_def)
  show ?thesis
    apply (intro conjI)
       apply (simp add: scripted_runtime_def no_script_def next_answer_def)
      apply (simp add: scripted_runtime_def no_script_def next_answer_def)
     apply (rule gather)
    apply (simp only: main_def gather option.case sum.case prod.case print)
    done
qed

text \<open>
  Claim C6, amended. In every snapshot that the gatherer returns, at the scope of the
  instance and at the scope of each device, the list of extension lists has the length
  of the layer list, and the extension list at index \<open>i\<close> is the vector that the
  enumeration filled for the layer named at index \<open>i\<close>, never for another layer:
  the enumerations were made with the names of the layers in the order of the layers,
  each from the state in which the one before left the runtime; the list holds, position
  by position, what the successful answer of the runtime's entry point for that name
  wrote (and is that answer where the answer wrote as many elements as the list has),
  and any other element of it was written by an earlier answer for the same name or is
  zero-initialised. At the scope of the instance the layers are those of the layer
  enumeration, and the chain of queries starts where the enumeration of the instance's
  own extensions left the runtime. At the scope of a device the same holds for the
  handle that the enumeration of the physical devices returned at the position of that
  device, from the state in which the device before it was left; an element of
  \<^verbatim>\<open>gpus\<close> beyond the handles has no layer. Rendering keeps the pairing: if the
  memory counts of every device are within their arrays, \<^verbatim>\<open>PrintInfo\<close> returns, the
  program exits with status 0, and its output is the report in which, at either scope,
  the line of the layer at index \<open>i\<close> is followed by the lines of the extension list at
  index \<open>i\<close>.
\<close>

theorem layers_paired_with_extensions:
  assumes "GatherInfo vk rt VulkanInfo_empty s = Some (Inr (info, s'))"
  shows
    "(\<exists>s1 ss create_info instance' ta num_gpus gpus' ts.
        GatherInfo_layers rt [] s = Some (Inr (VulkanInfo.layers info, s1)) \<and>
        EnumerateInstanceExtensions rt None [] s1 = Some (Inr (VulkanInfo.extensions info, ss ! 0)) \<and>
        queried_in_order (EnumerateInstanceExtensions rt) (vkEnumerateInstanceExtensionProperties rt)
          (VulkanInfo.layers info) (VulkanInfo.layer_extensions info) ss \<and>
        vkCreateInstance rt create_info (ss ! length (VulkanInfo.layers info)) =
          (VK_SUCCESS, instance', ta) \<and>
        GatherInfo_physical_devices rt instance' ta = Some (Inr (num_gpus, gpus', ts ! 0)) \<and>
        length (gpus info) = unat num_gpus \<and> length gpus' \<le> length (gpus info) \<and>
        length ts = length gpus' + 1 \<and>
        (\<forall>j < length gpus'.
           device_gathered vk rt (gpus' ! j) (gpus info ! j) (ts ! j) (ts ! (j + 1))) \<and>
        (\<forall>j < length (gpus info). length gpus' \<le> j \<longrightarrow> gpus info ! j = GpuInfo_zero vk) \<and>
        s' = vkDestroyInstance rt instance' (ts ! length gpus')) \<and>
     ((\<forall>g \<in> set (gpus info). memory_in_bounds (memory g)) \<longrightarrow>
        PrintInfo vk info out = Inr (out @ vulkan_report vk info) \<and>
        main vk rt s = Some (Exited (vulkan_report vk info) [] 0))"
proof -
  from GatherInfo_fields [OF assms] obtain s1 s2 s3 create_info instance' ta num_gpus gpus' tb tc
    where l: "GatherInfo_layers rt [] s = Some (Inr (VulkanInfo.layers info, s1))"
      and e: "EnumerateInstanceExtensions rt None [] s1 = Some (Inr (VulkanInfo.extensions info, s2))"
      and les: "GatherInfo_layer_extensions rt (VulkanInfo.layers info) 0
                  (replicate (length (VulkanInfo.layers info)) []) s2 =
                Some (Inr (VulkanInfo.layer_extensions info, s3))"
      and c: "vkCreateInstance rt create_info s3 = (VK_SUCCESS, instance', ta)"
      and p: "GatherInfo_physical_devices rt instance' ta = Some (Inr (num_gpus, gpus', tb))"
      and g: "GatherInfo_gpus vk rt gpus' 0 (replicate (unat num_gpus) (GpuInfo_zero vk)) tb =
                Some (Inr (gpus info, tc))"
      and d: "s' = vkDestroyInstance rt instance' tc"
    by (elim exE conjE)
  from GatherInfo_layer_extensions_aligned [OF les] obtain ss where
    ss: "ss ! 0 = s2" "ss ! length (VulkanInfo.layers info) = s3"
    and q: "queried_in_order (EnumerateInstanceExtensions rt) (vkEnumerateInstanceExtensionProperties rt)
              (VulkanInfo.layers info) (VulkanInfo.layer_extensions info) ss"
    by (elim exE conjE)
  from GatherInfo_gpus_gathered [OF g] obtain ts where
    lw: "length (gpus info) = unat num_gpus" and le: "length gpus' \<le> unat num_gpus"
    and lts: "length ts = length gpus' + 1" and ts: "ts ! 0 = tb" "ts ! length gpus' = tc"
    and dev: "\<forall>j < length gpus'.
                device_gathered vk rt (gpus' ! j) (gpus info ! j) (ts ! j) (ts ! (j + 1))"
    and rest: "\<forall>j < unat num_gpus. length gpus' \<le> j \<longrightarrow> gpus info ! j = GpuInfo_zero vk"
    by (elim exE conjE)
  have gathered: "\<exists>s1 ss create_info instance' ta num_gpus gpus' ts.
        GatherInfo_layers rt [] s = Some (Inr (VulkanInfo.layers info, s1)) \<and>
        EnumerateInstanceExtensions rt None [] s1 = Some (Inr (VulkanInfo.extensions info, ss ! 0)) \<and>
        queried_in_order (EnumerateInstanceExtensions rt) (vkEnumerateInstanceExtensionProperties rt)
          (VulkanInfo.layers info) (VulkanInfo.layer_extensions info) ss \<and>
        vkCreateInstance rt create_info (ss ! length (VulkanInfo.layers info)) =
          (VK_SUCCESS, instance', ta) \<and>
        GatherInfo_physical_devices rt instance' ta = Some (Inr (num_gpus, gpus', ts ! 0)) \<and>
        length (gpus info) = unat num_gpus \<and> length gpus' \<le> length (gpus info) \<and>
        length ts = length gpus' + 1 \<and>
        (\<forall>j < length gpus'.
           device_gathered vk rt (gpus' ! j) (gpus info ! j) (ts ! j) (ts ! (j + 1))) \<and>
        (\<forall>j < length (gpus info). length gpus' \<le> j \<longrightarrow> gpus info ! j = GpuInfo_zero vk) \<and>
        s' = vkDestroyInstance rt instance' (ts ! length gpus')"
    apply (rule exI [of _ s1], rule exI [of _ ss], rule exI [of _ create_info],
        rule exI [of _ instance'], rule exI [of _ ta], rule exI [of _ num_gpus],
        rule exI [of _ gpus'], rule exI [of _ ts])
    using l e q c p lw le lts dev rest d ss ts by simp
  have inst_len: "length (VulkanInfo.layers info) \<le> length (VulkanInfo.layer_extensions info)"
    using q by (simp add: queried_in_order_def)
  have dev_len: "length (GpuInfo.layers x) \<le> length (GpuInfo.layer_extensions x)"
    if "x \<in> set (gpus info)" for x
  proof -
    from that obtain j where j: "j < length (gpus info)" "x = gpus info ! j"
      by (auto simp: in_set_conv_nth)
    show ?thesis
    proof (cases "j < length gpus'")
      case True
      with dev have "device_gathered vk rt (gpus' ! j) x (ts ! j) (ts ! (j + 1))"
        using j by simp
      then show ?thesis by (auto simp: device_gathered_def queried_in_order_def)
    next
      case False
      with rest j lw have "x = GpuInfo_zero vk" by simp
      then show ?thesis by (simp add: GpuInfo_zero_def)
    qed
  qed
  have rendered: "PrintInfo vk info out = Inr (out @ vulkan_report vk info) \<and>
        main vk rt s = Some (Exited (vulkan_report vk info) [] 0)"
    if bounds: "\<forall>g \<in> set (gpus info). memory_in_bounds (memory g)"
  proof -
    have all: "\<forall>g \<in> set (gpus info). memory_in_bounds (memory g) \<and>
                 length (GpuInfo.layers g) \<le> length (GpuInfo.layer_extensions g)"
      using bounds dev_len by blast
    have "PrintInfo vk info out = Inr (out @ vulkan_report vk info)" for out
      by (rule PrintInfo_report [OF inst_len all])
    then show ?thesis using assms by (simp add: main_def)
  qed
  from gathered rendered show ?thesis by blast
qed

lemma layered_gather:
  "GatherInfo vulkan_1_0 (fixed_runtime layered) VulkanInfo_empty () = Some (Inr (layered_snapshot, ()))"
  by (simp add: GatherInfo_def GatherInfo_layers_def EnumerateInstanceExtensions_def
      GatherInfo_layer_extensions.simps GatherInfo_physical_devices_def GatherInfo_gpus.simps
      GatherGpuInfo_def GatherGpuInfo_queue_families_def GatherGpuInfo_layers_def
      EnumerateDeviceExtensions_def GatherGpuInfo_layer_extensions.simps
      available_in_layers.simps HasExtension_def VulkanInfo_empty_def GpuInfo_zero_def
      do_while_incomplete.simps store_def resize_def die_def Let_def VK_NULL_HANDLE_def
      data_pointer_def
      vulkan_1_0_def fixed_runtime_def enumerate_fixed_def device_of_def layered_def
      layered_device_def scenario_device_def VkQueueFamilyProperties_zero_def
      VkExtensionProperties_zero_def VkLayerProperties_zero_def layered_snapshot_def
      ext_def layer_def)

lemma layered_print:
  "PrintInfo vulkan_1_0 layered_snapshot [] =
     Inr [''Instance Extensions [1]:\<newline>'', ''  VK_KHR_surface (v25)\<newline>'',
          ''Instance Layers [2]:\<newline>'',
          ''  A 1.0.3/1\<newline>    a layer\<newline>'', ''    Extensions [2]:\<newline>'',
          ''      a1 (v1)\<newline>'', ''      a2 (v2)\<newline>'',
          ''  B 1.0.3/1\<newline>    a layer\<newline>'', ''    Extensions [1]:\<newline>'',
          ''      b1 (v7)\<newline>'',
          ''PhysicalDevices [1]:\<newline>'',
          ''  '' @ dquote @ ''gpu'' @ dquote @ '' (INTEGRATED_GPU) 1.0.3/0x1 [10de:0092]\<newline>'',
          ''    Heap 0: 16 MiB (0x10000000 B) DEVICE_LOCAL\<newline>'',
          ''      Type 0: DEVICE_LOCAL HOST_VISIBLE\<newline>'',
          ''    Queue Family 0: 1x GC__\<newline>      timestampValidBits: 36b\<newline>      minImageTransferGranularity: (1,1,1)\<newline>'',
          ''    Extensions [1]:\<newline>'', ''      VK_KHR_swapchain (v68)\<newline>'',
          ''    Layers [2]:\<newline>'',
          ''      L1 1.0.3/1\<newline>        a layer\<newline>'', ''        Extensions [1]:\<newline>'',
          ''          d1 (v1)\<newline>'',
          ''      L2 1.0.3/1\<newline>        a layer\<newline>'', ''        Extensions [2]:\<newline>'',
          ''          d2a (v1)\<newline>'', ''          d2b (v2)\<newline>'']"
  by (simp add: PrintInfo_def PrintGpuInfo_def PrintGpuInfo_heaps.simps PrintGpuInfo_types.simps
      PrintGpuInfo_families.simps PrintLayers_def PrintLayers_loop.simps
      gpu_line_def heap_line_def type_line_def queue_family_line_def
      layer_line_def layer_extensions_header_def extension_line_def
      version_str_def ExtractMajorVersion_def ExtractMinorVersion_def ExtractPatchVersion_def
      pack_version_def VkPhysicalDeviceTypeStr_def scenario_device_def vulkan_1_0_def
      VkQueueFlagBits_value_1_0_def layered_snapshot_def ext_def layer_def fmt_simps Let_def)

text \<open>
  The theorem at the system with two instance layers and a device with two layers: the
  snapshot, and the report that the program prints of it.
\<close>

theorem layers_paired_with_extensions_witness:
  "GatherInfo vulkan_1_0 (fixed_runtime layered) VulkanInfo_empty () = Some (Inr (layered_snapshot, ())) \<and>
   length (gpus layered_snapshot) = 1 \<and>
   memory_in_bounds (memory (gpus layered_snapshot ! 0)) \<and>
   (\<exists>s1 ss create_info instance' ta num_gpus gpus' ts.
        GatherInfo_layers (fixed_runtime layered) [] () =
          Some (Inr (VulkanInfo.layers layered_snapshot, s1)) \<and>
        EnumerateInstanceExtensions (fixed_runtime layered) None [] s1 =
          Some (Inr (VulkanInfo.extensions layered_snapshot, ss ! 0)) \<and>
        queried_in_order (EnumerateInstanceExtensions (fixed_runtime layered))
          (vkEnumerateInstanceExtensionProperties (fixed_runtime layered))
          (VulkanInfo.layers layered_snapshot) (VulkanInfo.layer_extensions layered_snapshot) ss \<and>
        vkCreateInstance (fixed_runtime layered) create_info
          (ss ! length (VulkanInfo.layers layered_snapshot)) = (VK_SUCCESS, instance', ta) \<and>
        GatherInfo_physical_devices (fixed_runtime layered) instance' ta =
          Some (Inr (num_gpus, gpus', ts ! 0)) \<and>
        length (gpus layered_snapshot) = unat num_gpus \<and>
        length gpus' \<le> length (gpus layered_snapshot) \<and>
        length ts = length gpus' + 1 \<and>
        (\<forall>j < length gpus'.
           device_gathered vulkan_1_0 (fixed_runtime layered) (gpus' ! j)
             (gpus layered_snapshot ! j) (ts ! j) (ts ! (j + 1))) \<and>
        (\<forall>j < length (gpus layered_snapshot).
           length gpus' \<le> j \<longrightarrow> gpus layered_snapshot ! j = GpuInfo_zero vulkan_1_0) \<and>
        () = vkDestroyInstance (fixed_runtime layered) instance' (ts ! length gpus')) \<and>
   main vulkan_1_0 (fixed_runtime layered) () =
     Some (Exited
         [''Instance Extensions [1]:\<newline>'', ''  VK_KHR_surface (v25)\<newline>'',
          ''Instance Layers [2]:\<newline>'',
          ''  A 1.0.3/1\<newline>    a layer\<newline>'', ''    Extensions [2]:\<newline>'',
          ''      a1 (v1)\<newline>'', ''      a2 (v2)\<newline>'',
          ''  B 1.0.3/1\<newline>    a layer\<newline>'', ''    Extensions [1]:\<newline>'',
          ''      b1 (v7)\<newline>'',
          ''PhysicalDevices [1]:\<newline>'',
          ''  '' @ dquote @ ''gpu'' @ dquote @ '' (INTEGRATED_GPU) 1.0.3/0x1 [10de:0092]\<newline>'',
          ''    Heap 0: 16 MiB (0x10000000 B) DEVICE_LOCAL\<newline>'',
          ''      Type 0: DEVICE_LOCAL HOST_VISIBLE\<newline>'',
          ''    Queue Family 0: 1x GC__\<newline>      timestampValidBits: 36b\<newline>      minImageTransferGranularity: (1,1,1)\<newline>'',
          ''    Extensions [1]:\<newline>'', ''      VK_KHR_swapchain (v68)\<newline>'',
          ''    Layers [2]:\<newline>'',
          ''      L1 1.0.3/1\<newline>        a layer\<newline>'', ''        Extensions [1]:\<newline>'',
          ''          d1 (v1)\<newline>'',
          ''      L2 1.0.3/1\<newline>        a layer\<newline>'', ''        Extensions [2]:\<newline>'',
          ''          d2a (v1)\<newline>'', ''          d2b (v2)\<newline>'']
         [] 0)"
proof -
  note t = layers_paired_with_extensions [OF layered_gather, of "[]"]
  have len: "length (gpus layered_snapshot) = 1"
    by (simp add: layered_snapshot_def)
  have bound: "memory_in_bounds (memory (gpus layered_snapshot ! 0))"
    by (simp add: layered_snapshot_def memory_in_bounds_def scenario_device_def)
  have bounds: "\<forall>g \<in> set (gpus layered_snapshot). memory_in_bounds (memory g)"
    by (simp add: layered_snapshot_def memory_in_bounds_def scenario_device_def)
  from t bounds have
    r: "PrintInfo vulkan_1_0 layered_snapshot [] = Inr ([] @ vulkan_report vulkan_1_0 layered_snapshot)"
    and m: "main vulkan_1_0 (fixed_runtime layered) () =
              Some (Exited (vulkan_report vulkan_1_0 layered_snapshot) [] 0)"
    by blast+
  from r have report: "vulkan_report vulkan_1_0 layered_snapshot =
         [''Instance Extensions [1]:\<newline>'', ''  VK_KHR_surface (v25)\<newline>'',
          ''Instance Layers [2]:\<newline>'',
          ''  A 1.0.3/1\<newline>    a layer\<newline>'', ''    Extensions [2]:\<newline>'',
          ''      a1 (v1)\<newline>'', ''      a2 (v2)\<newline>'',
          ''  B 1.0.3/1\<newline>    a layer\<newline>'', ''    Extensions [1]:\<newline>'',
          ''      b1 (v7)\<newline>'',
          ''PhysicalDevices [1]:\<newline>'',
          ''  '' @ dquote @ ''gpu'' @ dquote @ '' (INTEGRATED_GPU) 1.0.3/0x1 [10de:0092]\<newline>'',
          ''    Heap 0: 16 MiB (0x10000000 B) DEVICE_LOCAL\<newline>'',
          ''      Type 0: DEVICE_LOCAL HOST_VISIBLE\<newline>'',
          ''    Queue Family 0: 1x GC__\<newline>      timestampValidBits: 36b\<newline>      minImageTransferGranularity: (1,1,1)\<newline>'',
          ''    Extensions [1]:\<newline>'', ''      VK_KHR_swapchain (v68)\<newline>'',
          ''    Layers [2]:\<newline>'',
          ''      L1 1.0.3/1\<newline>        a layer\<newline>'', ''        Extensions [1]:\<newline>'',
          ''          d1 (v1)\<newline>'',
          ''      L2 1.0.3/1\<newline>        a layer\<newline>'', ''        Extensions [2]:\<newline>'',
          ''          d2a (v1)\<newline>'', ''          d2b (v2)\<newline>'']"
    by (simp only: layered_print sum.inject append_Nil)
  show ?thesis
    apply (intro conjI)
        apply (rule layered_gather)
       apply (rule len)
      apply (rule bound)
     apply (rule conjunct1 [OF t])
    apply (simp only: m report)
    done
qed

end
